theory Spec2Isabelle
  imports Complex_Main "HOL-Library.Word"
begin

unbundle bit_operations_syntax

section \<open>The HMP terrain importer (code/AssetLib/HMP/HMPLoader.cpp)\<close>

text \<open>
  The importer receives the whole file as a byte buffer \<open>mBuffer\<close> together with its
  recorded size \<open>iFileSize\<close> (an \<open>unsigned int\<close>) and deposits a mesh, a material, a
  root node and a flag into the scene it was handed. Every \<open>throw\<close> of the source is a
  value of \<open>failure\<close>; the scene is passed explicitly, so that what the scene holds at
  the moment of a throw is part of the result.

  Conventions of the embedding:
  \<^item> a pointer into \<open>mBuffer\<close> is its offset from the start of the buffer, a \<open>nat\<close>;
    \<open>size_t\<close> and pointer arithmetic are arithmetic on \<open>nat\<close>;
  \<^item> \<open>unsigned int\<close> arithmetic wraps modulo \<open>2 ^ 32\<close>, written out with \<open>u32\<close>;
  \<^item> a read through a pointer that leaves the buffer is the outcome \<open>BufferOverread\<close>,
    an access to a heap array outside its allocation is \<open>ArrayOutOfBounds\<close>; both
    stand for undefined behaviour of the C++ program and are never thrown by it;
  \<^item> multi-byte fields are little-endian (the layout of the file on the hosts the
    loader overlays its structs on);
  \<^item> \<open>float\<close> values are kept abstract: the arithmetic of the machine is the record
    \<open>'f fpu\<close>, a parameter of every function that computes with floats.
\<close>

subsection \<open>Failures\<close>

text \<open>
  All exceptions of the file are \<open>DeadlyImportError\<close> with a message. The first
  component classifies the throw site by the error kinds the specification names.
\<close>

datatype error_kind =
    OpenOrSizeError
  | UnrecognizedSubformat
  | UnsupportedRevision
  | InvalidHeader
  | TruncatedInput
  | UnreadableSkinChunk

datatype failure =
    DeadlyImportError error_kind string
  | BadArrayNewLength
  | BufferOverread
  | ArrayOutOfBounds

text \<open>The result of a member function that works on a state: it returns, or it throws
  and leaves the state as it was at the throw.\<close>

datatype ('a, 's) res = Ok 'a 's | Throw failure 's

subsection \<open>The byte buffer\<close>

type_synonym byte = "8 word"

definition u32 :: "nat \<Rightarrow> nat" where
  "u32 n = n mod 2 ^ 32"

definition read_u8 :: "byte list \<Rightarrow> nat \<Rightarrow> byte option" where
  "read_u8 buf p = (if p < length buf then Some (buf ! p) else None)"

definition read_u16 :: "byte list \<Rightarrow> nat \<Rightarrow> nat option" where
  "read_u16 buf p =
     (if p + 2 \<le> length buf
      then Some (unat (buf ! p) + 256 * unat (buf ! (p + 1)))
      else None)"

definition read_u32 :: "byte list \<Rightarrow> nat \<Rightarrow> 32 word option" where
  "read_u32 buf p =
     (if p + 4 \<le> length buf
      then Some (word_of_nat (unat (buf ! p) + 256 * unat (buf ! (p + 1))
             + 65536 * unat (buf ! (p + 2)) + 16777216 * unat (buf ! (p + 3))))
      else None)"

subsection \<open>Floating point\<close>

record 'f aiVector3D =
  vec_x :: 'f
  vec_y :: 'f
  vec_z :: 'f

text \<open>
  The operations of the machine's \<open>float\<close> that the loader uses: reinterpreting four
  bytes of the file as a float (\<open>f_bits\<close>), a literal of the source text (\<open>f_lit\<close>),
  the conversion of an integer (\<open>f_of_int\<close>), \<open>std::isfinite\<close>, \<open><\<close>, \<open>==\<close>, the four
  arithmetic operations and the cast to \<open>unsigned int\<close>.
\<close>

record 'f fpu =
  f_bits :: "32 word \<Rightarrow> 'f"
  f_lit :: "rat \<Rightarrow> 'f"
  f_of_int :: "int \<Rightarrow> 'f"
  f_isfinite :: "'f \<Rightarrow> bool"
  f_less :: "'f \<Rightarrow> 'f \<Rightarrow> bool"
  f_eq :: "'f \<Rightarrow> 'f \<Rightarrow> bool"
  f_add :: "'f \<Rightarrow> 'f \<Rightarrow> 'f"
  f_sub :: "'f \<Rightarrow> 'f \<Rightarrow> 'f"
  f_mul :: "'f \<Rightarrow> 'f \<Rightarrow> 'f"
  f_div :: "'f \<Rightarrow> 'f \<Rightarrow> 'f"
  f_to_uint :: "'f \<Rightarrow> nat"

text \<open>A default-constructed \<open>aiVector3D\<close>.\<close>

definition zero_vec :: "'f fpu \<Rightarrow> 'f aiVector3D" where
  "zero_vec fp = \<lparr>vec_x = f_lit fp 0, vec_y = f_lit fp 0, vec_z = f_lit fp 0\<rparr>"

subsection \<open>The header\<close>

text \<open>
  Modelled from the spec: \<open>HMP::Header_HMP5\<close> (HMPFileData.h) is not among the sources.
  The fields the loader reads, at their offsets in the packed 84-byte on-disk struct:
  two floats of triangle size at 36 and 40, \<open>fnumverts_x\<close> at 44, \<open>numskins\<close> at 48,
  \<open>numverts\<close> at 60 and \<open>numframes\<close> at 68. \<open>numverts\<close> is a signed 32-bit integer;
  \<open>numskins\<close> and \<open>numframes\<close> are kept as the 32 bits of the file (the loader tests
  them against zero and passes \<open>numskins\<close> on as an \<open>unsigned int\<close>).
\<close>

record 'f Header_HMP5 =
  ftrisize_x :: 'f
  ftrisize_y :: 'f
  fnumverts_x :: 'f
  numskins :: "32 word"
  numverts :: int
  numframes :: "32 word"

definition header :: "'f fpu \<Rightarrow> byte list \<Rightarrow> 'f Header_HMP5 option" where
  "header fp buf =
     (case (read_u32 buf 36, read_u32 buf 40, read_u32 buf 44,
            read_u32 buf 48, read_u32 buf 60, read_u32 buf 68) of
        (Some tx, Some ty, Some nx, Some ns, Some nv, Some nf) \<Rightarrow>
          Some \<lparr>ftrisize_x = f_bits fp tx, ftrisize_y = f_bits fp ty,
                fnumverts_x = f_bits fp nx, numskins = ns,
                numverts = sint nv, numframes = nf\<rparr>
      | _ \<Rightarrow> None)"

definition msg_too_small_120 :: string where
  "msg_too_small_120 = ''HMP file is too small (header size is 120 bytes, this file is smaller)''"

definition msg_not_finite :: string where
  "msg_not_finite = ''Size of triangles in either x or y direction is not finite''"

definition msg_zero_size :: string where
  "msg_zero_size = ''Size of triangles in either x or y direction is zero''"

definition msg_numverts_not_finite :: string where
  "msg_numverts_not_finite = ''Number of triangles in x direction is not finite''"

definition msg_zero_count :: string where
  "msg_zero_count = ''Number of triangles in either x or y direction is zero''"

definition msg_no_frames :: string where
  "msg_no_frames = ''There are no frames. At least one should be there''"

text \<open>\<open>HMPImporter::ValidateHeader_HMP457\<close>. The fields are read only after the check
  of the size.\<close>

definition ValidateHeader_HMP457 :: "'f fpu \<Rightarrow> byte list \<Rightarrow> nat \<Rightarrow> failure + unit" where
  "ValidateHeader_HMP457 fp mBuffer iFileSize =
     (if 120 > iFileSize then Inl (DeadlyImportError OpenOrSizeError msg_too_small_120)
      else case header fp mBuffer of
        None \<Rightarrow> Inl BufferOverread
      | Some pcHeader \<Rightarrow>
          if \<not> f_isfinite fp (ftrisize_x pcHeader) \<or> \<not> f_isfinite fp (ftrisize_y pcHeader)
          then Inl (DeadlyImportError InvalidHeader msg_not_finite)
          else if f_eq fp (ftrisize_x pcHeader) (f_lit fp 0) \<or> f_eq fp (ftrisize_y pcHeader) (f_lit fp 0)
          then Inl (DeadlyImportError InvalidHeader msg_zero_size)
          else if \<not> f_isfinite fp (fnumverts_x pcHeader)
          then Inl (DeadlyImportError InvalidHeader msg_numverts_not_finite)
          else if f_less fp (fnumverts_x pcHeader) (f_lit fp 1)
                  \<or> f_less fp (f_div fp (f_of_int fp (numverts pcHeader)) (fnumverts_x pcHeader)) (f_lit fp 1)
          then Inl (DeadlyImportError InvalidHeader msg_zero_count)
          else if numframes pcHeader = 0
          then Inl (DeadlyImportError InvalidHeader msg_no_frames)
          else Inr ())"

subsection \<open>The scene\<close>

datatype 'f mat_value = IntProp int | ColorProp 'f 'f 'f | StringProp string

type_synonym 'f aiMaterial = "(string \<times> 'f mat_value) list"

text \<open>An \<open>aiFace\<close>: \<open>new unsigned int[4]\<close> reserves four indices that hold nothing yet
  (\<open>None\<close>) until the loop stores a value.\<close>

record aiFace =
  mNumIndices :: nat
  mIndices :: "nat option list"

record 'f aiMesh =
  mMaterialIndex :: nat
  mVertices :: "'f aiVector3D list"
  mNormals :: "'f aiVector3D list"
  mTextureCoords0 :: "'f aiVector3D list option"
  mNumUVComponents0 :: nat
  mNumVertices :: nat
  mNumFaces :: nat
  mFaces :: "aiFace list"

record aiNode =
  mName :: string
  node_mMeshes :: "nat list"

record 'f aiScene =
  mFlags :: "32 word"
  mMeshes :: "'f aiMesh list"
  mMaterials :: "'f aiMaterial list"
  mRootNode :: "aiNode option"

definition new_aiScene :: "'f aiScene" where
  "new_aiScene = \<lparr>mFlags = 0, mMeshes = [], mMaterials = [], mRootNode = None\<rparr>"

definition new_aiMesh :: "'f aiMesh" where
  "new_aiMesh = \<lparr>mMaterialIndex = 0, mVertices = [], mNormals = [],
     mTextureCoords0 = None, mNumUVComponents0 = 0, mNumVertices = 0,
     mNumFaces = 0, mFaces = []\<rparr>"

definition new_aiFace :: aiFace where
  "new_aiFace = \<lparr>mNumIndices = 0, mIndices = []\<rparr>"

text \<open>Modelled from the spec: the value of \<open>AI_SCENE_FLAGS_TERRAIN\<close> (scene.h) is not
  among the sources; it is one bit of the scene's flags.\<close>

definition AI_SCENE_FLAGS_TERRAIN :: "32 word" where
  "AI_SCENE_FLAGS_TERRAIN = 16"

text \<open>\<open>pScene->mMeshes[0]\<close>, written.\<close>

definition set_mesh0 :: "'f aiMesh \<Rightarrow> 'f aiScene \<Rightarrow> 'f aiScene" where
  "set_mesh0 m s = s\<lparr>mMeshes := (case mMeshes s of [] \<Rightarrow> [] | _ # ms \<Rightarrow> m # ms)\<rparr>"

subsection \<open>Collaborators outside this file\<close>

text \<open>
  \<open>ParseSkinLump_3DGS_MDL7\<close> and \<open>SkipSkinLump_3DGS_MDL7\<close> (the MDL loader),
  \<open>MD2::LookupNormalIndex\<close> and \<open>aiVector3D::Normalize\<close> are not among the sources.
  They are parameters: given the buffer, the cursor and the type, width and height
  of a skin, the first returns the cursor behind the skin and the material (or
  throws), the second only the cursor.
\<close>

record 'f collab =
  ParseSkinLump_3DGS_MDL7 ::
    "byte list \<Rightarrow> nat \<Rightarrow> 32 word \<Rightarrow> 32 word \<Rightarrow> 32 word \<Rightarrow> (error_kind \<times> string) + (nat \<times> 'f aiMaterial)"
  SkipSkinLump_3DGS_MDL7 ::
    "byte list \<Rightarrow> nat \<Rightarrow> 32 word \<Rightarrow> 32 word \<Rightarrow> 32 word \<Rightarrow> (error_kind \<times> string) + nat"
  LookupNormalIndex :: "byte \<Rightarrow> 'f aiVector3D"
  Normalize :: "'f aiVector3D \<Rightarrow> 'f aiVector3D"

definition msg_size_check :: string where
  "msg_size_check = ''Invalid MDL file. The file is too small or contains invalid data.''"

text \<open>Modelled from the spec: \<open>MDLImporter::SizeCheck\<close> is not among the sources. Given
  a cursor (or a projected read extent) and the extent of the buffer, it fails with
  \<open>TruncatedInput\<close> if the cursor exceeds the buffer.\<close>

definition SizeCheck :: "nat \<Rightarrow> nat \<Rightarrow> failure + unit" where
  "SizeCheck iFileSize szPos =
     (if szPos > iFileSize then Inl (DeadlyImportError TruncatedInput msg_size_check)
      else Inr ())"

subsection \<open>Skins\<close>

definition msg_skin :: string where
  "msg_skin = ''Unable to read HMP7 skin chunk''"

text \<open>\<open>ReadFirstSkin\<close>, from its start to the read of the height of the first skin:
  the type, the width, the height and the cursor behind them.\<close>

definition first_skin_header ::
  "byte list \<Rightarrow> nat \<Rightarrow> failure + (32 word \<times> 32 word \<times> 32 word \<times> nat)" where
  "first_skin_header mBuffer szCursor =
     (case read_u32 mBuffer szCursor of
        None \<Rightarrow> Inl BufferOverread
      | Some iType0 \<Rightarrow>
          (case (if iType0 = 0
                 then (case read_u32 mBuffer (szCursor + 4 + 8) of
                         None \<Rightarrow> Inl BufferOverread
                       | Some iType1 \<Rightarrow>
                           if iType1 = 0
                           then Inl (DeadlyImportError UnreadableSkinChunk msg_skin)
                           else Inr (iType1, szCursor + 4 + 8 + 4))
                 else Inr (iType0, szCursor + 4)) of
             Inl e \<Rightarrow> Inl e
           | Inr (iType, c) \<Rightarrow>
               (case (read_u32 mBuffer c, read_u32 mBuffer (c + 4)) of
                  (Some iWidth, Some iHeight) \<Rightarrow> Inr (iType, iWidth, iHeight, c + 8)
                | _ \<Rightarrow> Inl BufferOverread)))"

text \<open>The body of the loop of \<open>ReadFirstSkin\<close> between its two checks of the size:
  type, width and height of the next skin are read and the skin is skipped.\<close>

definition skip_next_skin :: "'f collab \<Rightarrow> byte list \<Rightarrow> nat \<Rightarrow> failure + nat" where
  "skip_next_skin col mBuffer szCursor =
     (case (read_u32 mBuffer szCursor, read_u32 mBuffer (szCursor + 4),
            read_u32 mBuffer (szCursor + 8)) of
        (Some iType, Some iWidth, Some iHeight) \<Rightarrow>
          (case SkipSkinLump_3DGS_MDL7 col mBuffer (szCursor + 12) iType iWidth iHeight of
             Inl (k, m) \<Rightarrow> Inl (DeadlyImportError k m)
           | Inr c \<Rightarrow> Inr c)
      | _ \<Rightarrow> Inl BufferOverread)"

text \<open>The loop of \<open>ReadFirstSkin\<close> over the skins behind the first; the fourth argument
  counts the iterations that remain.\<close>

fun skip_skins :: "'f collab \<Rightarrow> byte list \<Rightarrow> nat \<Rightarrow> nat \<Rightarrow> nat \<Rightarrow> failure + nat" where
  "skip_skins col mBuffer iFileSize 0 szCursor = Inr szCursor"
| "skip_skins col mBuffer iFileSize (Suc n) szCursor =
     (case SizeCheck iFileSize (szCursor + 3 * 4) of
        Inl e \<Rightarrow> Inl e
      | Inr _ \<Rightarrow>
          (case skip_next_skin col mBuffer szCursor of
             Inl e \<Rightarrow> Inl e
           | Inr c \<Rightarrow>
               (case SizeCheck iFileSize c of
                  Inl e \<Rightarrow> Inl e
                | Inr _ \<Rightarrow> skip_skins col mBuffer iFileSize n c)))"

text \<open>\<open>HMPImporter::ReadFirstSkin\<close>. The material reaches the scene only at the end.\<close>

definition ReadFirstSkin ::
  "'f collab \<Rightarrow> byte list \<Rightarrow> nat \<Rightarrow> nat \<Rightarrow> nat \<Rightarrow> 'f aiScene \<Rightarrow> (nat, 'f aiScene) res" where
  "ReadFirstSkin col mBuffer iFileSize iNumSkins szCursor scene =
     (case first_skin_header mBuffer szCursor of
        Inl e \<Rightarrow> Throw e scene
      | Inr (iType, iWidth, iHeight, c) \<Rightarrow>
          (case ParseSkinLump_3DGS_MDL7 col mBuffer c iType iWidth iHeight of
             Inl (k, m) \<Rightarrow> Throw (DeadlyImportError k m) scene
           | Inr (c1, pcMat) \<Rightarrow>
               (case skip_skins col mBuffer iFileSize (iNumSkins - 1) c1 of
                  Inl e \<Rightarrow> Throw e scene
                | Inr c2 \<Rightarrow> Ok c2 (scene\<lparr>mMaterials := [pcMat]\<rparr>))))"

text \<open>Modelled from the spec: the keys of the material properties, the Gouraud shading
  mode and the name of the default material (material.h) are not among the sources;
  the keys are written as the names of their macros.\<close>

definition default_material :: "'f fpu \<Rightarrow> 'f aiMaterial" where
  "default_material fp =
     [(''AI_MATKEY_SHADING_MODEL'', IntProp 2),
      (''AI_MATKEY_COLOR_DIFFUSE'', ColorProp (f_lit fp (6 / 10)) (f_lit fp (6 / 10)) (f_lit fp (6 / 10))),
      (''AI_MATKEY_COLOR_SPECULAR'', ColorProp (f_lit fp (6 / 10)) (f_lit fp (6 / 10)) (f_lit fp (6 / 10))),
      (''AI_MATKEY_COLOR_AMBIENT'', ColorProp (f_lit fp (5 / 100)) (f_lit fp (5 / 100)) (f_lit fp (5 / 100))),
      (''AI_MATKEY_NAME'', StringProp ''DefaultMaterial'')]"

text \<open>\<open>HMPImporter::CreateMaterial\<close>.\<close>

definition CreateMaterial ::
  "'f fpu \<Rightarrow> 'f collab \<Rightarrow> byte list \<Rightarrow> nat \<Rightarrow> nat \<Rightarrow> 'f aiScene \<Rightarrow> (nat, 'f aiScene) res" where
  "CreateMaterial fp col mBuffer iFileSize szCurrent scene =
     (case mMeshes scene of
        [] \<Rightarrow> Throw ArrayOutOfBounds scene
      | pcMesh # _ \<Rightarrow>
          (case header fp mBuffer of
             None \<Rightarrow> Throw BufferOverread scene
           | Some pcHeader \<Rightarrow>
               if numskins pcHeader \<noteq> 0
               then if numverts pcHeader < 0 then Throw BadArrayNewLength scene
                    else ReadFirstSkin col mBuffer iFileSize (unat (numskins pcHeader)) szCurrent
                           (set_mesh0 (pcMesh\<lparr>mTextureCoords0 :=
                                          Some (replicate (nat (numverts pcHeader)) (zero_vec fp)),
                                        mNumUVComponents0 := 2\<rparr>) scene)
               else Ok szCurrent (scene\<lparr>mMaterials := [default_material fp]\<rparr>)))"

subsection \<open>Vertices\<close>

text \<open>Modelled from the spec: \<open>HMP::Vertex_HMP5\<close> and \<open>HMP::Vertex_HMP7\<close> (HMPFileData.h)
  are not among the sources. A vertex of revision 5 is a 16-bit height field, an 8-bit
  index into the table of normals and one byte of padding; a vertex of revision 7 is
  a 16-bit height field and two signed 8-bit components of the normal. Both records
  are packed and take four bytes.\<close>

definition sizeof_Vertex_HMP5 :: nat where
  "sizeof_Vertex_HMP5 = 4"

definition sizeof_Vertex_HMP7 :: nat where
  "sizeof_Vertex_HMP7 = 4"

text \<open>The height of a vertex, shared by the bodies of both loops:
  \<open>(((float)src->z / 0xffff) - 0.5f) * pcHeader->ftrisize_x * 8.0f\<close>.\<close>

definition vertex_z :: "'f fpu \<Rightarrow> 'f Header_HMP5 \<Rightarrow> nat \<Rightarrow> 'f" where
  "vertex_z fp pcHeader z =
     f_mul fp
       (f_mul fp
          (f_sub fp (f_div fp (f_of_int fp (int z)) (f_of_int fp 65535)) (f_lit fp (1 / 2)))
          (ftrisize_x pcHeader))
       (f_lit fp 8)"

definition vertex_pos :: "'f fpu \<Rightarrow> 'f Header_HMP5 \<Rightarrow> nat \<Rightarrow> nat \<Rightarrow> nat \<Rightarrow> 'f aiVector3D" where
  "vertex_pos fp pcHeader x y z =
     \<lparr>vec_x = f_mul fp (f_of_int fp (int x)) (ftrisize_x pcHeader),
      vec_y = f_mul fp (f_of_int fp (int y)) (ftrisize_y pcHeader),
      vec_z = vertex_z fp pcHeader z\<rparr>"

text \<open>The body of the loop of \<open>InternReadFile_HMP5\<close>: position and normal of the vertex
  at \<open>src\<close>, for the cell \<open>(x, y)\<close>.\<close>

definition vertex_HMP5 ::
  "'f fpu \<Rightarrow> 'f collab \<Rightarrow> 'f Header_HMP5 \<Rightarrow> byte list \<Rightarrow> nat \<Rightarrow> nat \<Rightarrow> nat
     \<Rightarrow> failure + ('f aiVector3D \<times> 'f aiVector3D)" where
  "vertex_HMP5 fp col pcHeader mBuffer src x y =
     (case (read_u16 mBuffer src, read_u8 mBuffer (src + 2)) of
        (Some z, Some normals162index) \<Rightarrow>
          Inr (vertex_pos fp pcHeader x y z, LookupNormalIndex col normals162index)
      | _ \<Rightarrow> Inl BufferOverread)"

text \<open>The body of the loop of \<open>InternReadFile_HMP7\<close>.\<close>

definition vertex_HMP7 ::
  "'f fpu \<Rightarrow> 'f collab \<Rightarrow> 'f Header_HMP5 \<Rightarrow> byte list \<Rightarrow> nat \<Rightarrow> nat \<Rightarrow> nat
     \<Rightarrow> failure + ('f aiVector3D \<times> 'f aiVector3D)" where
  "vertex_HMP7 fp col pcHeader mBuffer src x y =
     (case (read_u16 mBuffer src, read_u8 mBuffer (src + 2), read_u8 mBuffer (src + 3)) of
        (Some z, Some normal_x, Some normal_y) \<Rightarrow>
          Inr (vertex_pos fp pcHeader x y z,
               Normalize col
                 \<lparr>vec_x = f_div fp (f_of_int fp (sint normal_x)) (f_of_int fp 128),
                  vec_y = f_div fp (f_of_int fp (sint normal_y)) (f_of_int fp 128),
                  vec_z = f_lit fp 1\<rparr>)
      | _ \<Rightarrow> Inl BufferOverread)"

text \<open>The cells of a grid in the order of the nested loops, \<open>y\<close> outside and \<open>x\<close>
  inside, as pairs \<open>(y, x)\<close>.\<close>

definition grid_cells :: "nat \<Rightarrow> nat \<Rightarrow> (nat \<times> nat) list" where
  "grid_cells height width = List.product [0..<height] [0..<width]"

text \<open>The loop that loads all vertices: \<open>body\<close> is the body of the loop, \<open>stride\<close> the
  size of the record \<open>src\<close> points to, \<open>i\<close> the offset of \<open>pcVertOut\<close> and \<open>pcNorOut\<close> in
  the arrays of the mesh.\<close>

fun load_vertices ::
  "(nat \<Rightarrow> nat \<Rightarrow> nat \<Rightarrow> failure + ('f aiVector3D \<times> 'f aiVector3D)) \<Rightarrow> nat
     \<Rightarrow> (nat \<times> nat) list \<Rightarrow> nat \<Rightarrow> nat \<Rightarrow> 'f aiVector3D list \<Rightarrow> 'f aiVector3D list
     \<Rightarrow> failure + ('f aiVector3D list \<times> 'f aiVector3D list)" where
  "load_vertices body stride [] src i vs ns = Inr (vs, ns)"
| "load_vertices body stride ((y, x) # cells) src i vs ns =
     (if i < length vs \<and> i < length ns
      then (case body src x y of
              Inl e \<Rightarrow> Inl e
            | Inr (v, n) \<Rightarrow>
                load_vertices body stride cells (src + stride) (Suc i) (vs[i := v]) (ns[i := n]))
      else Inl ArrayOutOfBounds)"

subsection \<open>Texture coordinates\<close>

fun fill_uv :: "'f fpu \<Rightarrow> 'f \<Rightarrow> 'f \<Rightarrow> (nat \<times> nat) list \<Rightarrow> nat \<Rightarrow> 'f aiVector3D list
     \<Rightarrow> failure + 'f aiVector3D list" where
  "fill_uv fp fX fY [] i uv = Inr uv"
| "fill_uv fp fX fY ((y, x) # cells) i uv =
     (if i < length uv
      then fill_uv fp fX fY cells (Suc i)
             (uv[i := \<lparr>vec_x = f_mul fp fX (f_of_int fp (int x)),
                       vec_y = f_mul fp fY (f_of_int fp (int y)),
                       vec_z = f_lit fp 0\<rparr>])
      else Inl ArrayOutOfBounds)"

text \<open>\<open>HMPImporter::GenerateTextureCoords\<close>.\<close>

definition GenerateTextureCoords :: "'f fpu \<Rightarrow> nat \<Rightarrow> nat \<Rightarrow> 'f aiMesh \<Rightarrow> failure + 'f aiMesh" where
  "GenerateTextureCoords fp width height pcMesh =
     (case mTextureCoords0 pcMesh of
        None \<Rightarrow> Inr pcMesh
      | Some uv \<Rightarrow>
          if height = 0 \<or> width = 0 then Inr pcMesh
          else
            let fY = f_add fp (f_div fp (f_lit fp 1) (f_of_int fp (int height)))
                       (f_div fp (f_div fp (f_lit fp 1) (f_of_int fp (int height))) (f_of_int fp (int height)));
                fX = f_add fp (f_div fp (f_lit fp 1) (f_of_int fp (int width)))
                       (f_div fp (f_div fp (f_lit fp 1) (f_of_int fp (int width))) (f_of_int fp (int width)))
            in (case fill_uv fp fX fY (grid_cells height width) 0 uv of
                  Inl e \<Rightarrow> Inl e
                | Inr uv' \<Rightarrow> Inr (pcMesh\<lparr>mTextureCoords0 := Some uv'\<rparr>)))"

subsection \<open>Faces\<close>

text \<open>What the loop of \<open>CreateOutputFaceList\<close> has written so far: the faces behind
  \<open>mFaces\<close> up to \<open>pcFaceOut\<close>, the entries of the new arrays up to \<open>pcVertOut\<close>,
  \<open>pcNorOut\<close> and \<open>pcUVOut\<close>, and \<open>iCurrent\<close>.\<close>

record 'f face_out =
  fo_faces :: "aiFace list"
  fo_verts :: "'f aiVector3D list"
  fo_nors :: "'f aiVector3D list"
  fo_uvs :: "'f aiVector3D list"
  fo_iCurrent :: nat

text \<open>\<open>width - 1\<close> on \<open>unsigned int\<close>.\<close>

definition u32_pred :: "nat \<Rightarrow> nat" where
  "u32_pred n = u32 (n + (2 ^ 32 - 1))"

text \<open>The four entries of an array that one face copies, in the order of the copies:
  \<open>[offset0 + x]\<close>, \<open>[offset1 + x]\<close>, \<open>[offset1 + x + 1]\<close>, \<open>[offset0 + x + 1]\<close>; \<open>None\<close>
  when one of them lies outside the array.\<close>

definition corners :: "'a list \<Rightarrow> nat \<Rightarrow> nat \<Rightarrow> nat \<Rightarrow> 'a list option" where
  "corners arr offset0 offset1 x =
     (if list_all (\<lambda>i. i < length arr) [offset0 + x, offset1 + x, offset1 + x + 1, offset0 + x + 1]
      then Some (map (\<lambda>i. arr ! i) [offset0 + x, offset1 + x, offset1 + x + 1, offset0 + x + 1])
      else None)"

text \<open>One iteration of the inner loop of \<open>CreateOutputFaceList\<close>, for the cell \<open>(x, y)\<close>.\<close>

definition face_cell ::
  "'f aiMesh \<Rightarrow> nat \<Rightarrow> nat \<Rightarrow> nat \<Rightarrow> nat \<Rightarrow> nat \<Rightarrow> 'f face_out \<Rightarrow> failure + 'f face_out" where
  "face_cell pcMesh width upperBound nFaces y x st =
     (let offset0 = u32 (y * width); offset1 = u32 ((y + 1) * width) in
      if nFaces \<le> length (fo_faces st) then Inl ArrayOutOfBounds
      else if offset0 + x + 1 \<ge> upperBound \<or> offset1 + x + 1 \<ge> upperBound
      then Inr (st\<lparr>fo_faces := fo_faces st @ [\<lparr>mNumIndices = 4, mIndices = replicate 4 None\<rparr>]\<rparr>)
      else if upperBound < length (fo_verts st) + 4 then Inl ArrayOutOfBounds
      else (case (corners (mVertices pcMesh) offset0 offset1 x,
                  corners (mNormals pcMesh) offset0 offset1 x,
                  (case mTextureCoords0 pcMesh of
                     None \<Rightarrow> Some []
                   | Some uv \<Rightarrow> corners uv offset0 offset1 x)) of
              (Some vs, Some ns, Some us) \<Rightarrow>
                Inr \<lparr>fo_faces = fo_faces st @
                        [\<lparr>mNumIndices = 4,
                          mIndices = map (\<lambda>i. Some (u32 (fo_iCurrent st + i))) [0..<4]\<rparr>],
                     fo_verts = fo_verts st @ vs,
                     fo_nors = fo_nors st @ ns,
                     fo_uvs = fo_uvs st @ us,
                     fo_iCurrent = u32 (fo_iCurrent st + 4)\<rparr>
            | _ \<Rightarrow> Inl ArrayOutOfBounds))"

fun build_faces ::
  "'f aiMesh \<Rightarrow> nat \<Rightarrow> nat \<Rightarrow> nat \<Rightarrow> (nat \<times> nat) list \<Rightarrow> 'f face_out \<Rightarrow> failure + 'f face_out" where
  "build_faces pcMesh width upperBound nFaces [] st = Inr st"
| "build_faces pcMesh width upperBound nFaces ((y, x) # cells) st =
     (case face_cell pcMesh width upperBound nFaces y x st of
        Inl e \<Rightarrow> Inl e
      | Inr st' \<Rightarrow> build_faces pcMesh width upperBound nFaces cells st')"

text \<open>An array of \<open>n\<close> default-constructed entries of which the first have been
  overwritten.\<close>

definition filled :: "nat \<Rightarrow> 'a \<Rightarrow> 'a list \<Rightarrow> 'a list" where
  "filled n d written = written @ replicate (n - length written) d"

text \<open>\<open>HMPImporter::CreateOutputFaceList\<close>.\<close>

definition CreateOutputFaceList :: "'f fpu \<Rightarrow> nat \<Rightarrow> nat \<Rightarrow> 'f aiMesh \<Rightarrow> failure + 'f aiMesh" where
  "CreateOutputFaceList fp width height pcMesh =
     (let nFaces = u32 (u32_pred width * u32_pred height);
          nVertices = u32 (nFaces * 4);
          upperBound = nVertices
      in case build_faces pcMesh width upperBound nFaces
                (grid_cells (u32_pred height) (u32_pred width))
                \<lparr>fo_faces = [], fo_verts = [], fo_nors = [], fo_uvs = [], fo_iCurrent = 0\<rparr> of
           Inl e \<Rightarrow> Inl e
         | Inr st \<Rightarrow>
             Inr (pcMesh\<lparr>mNumFaces := nFaces,
                    mFaces := filled nFaces new_aiFace (fo_faces st),
                    mNumVertices := nVertices,
                    mVertices := filled nVertices (zero_vec fp) (fo_verts st),
                    mNormals := filled nVertices (zero_vec fp) (fo_nors st),
                    mTextureCoords0 :=
                      (case mTextureCoords0 pcMesh of
                         None \<Rightarrow> None
                       | Some _ \<Rightarrow> Some (filled nVertices (zero_vec fp) (fo_uvs st)))\<rparr>))"

subsection \<open>The two supported revisions\<close>

text \<open>
  \<open>InternReadFile_HMP5\<close> and \<open>InternReadFile_HMP7\<close> are the same text but for the body of
  the loop over the vertices, so they share one definition here. Its parameters are
  what the two functions differ in: \<open>body\<close>, the body of that loop; \<open>check_size\<close>, the
  size of the record named in the call of \<open>SizeCheck\<close>; \<open>stride\<close>, the size of the
  record \<open>src\<close> points to. \<open>pcMesh\<close> is the object \<open>pScene->mMeshes[0]\<close>.
\<close>

text \<open>The output mesh with its two arrays of \<open>numverts\<close> entries, as the only mesh of
  the scene.\<close>

definition output_mesh :: "'f fpu \<Rightarrow> 'f Header_HMP5 \<Rightarrow> 'f aiScene \<Rightarrow> 'f aiScene" where
  "output_mesh fp pcHeader scene =
     scene\<lparr>mMeshes :=
       [new_aiMesh\<lparr>mMaterialIndex := 0,
          mVertices := replicate (nat (numverts pcHeader)) (zero_vec fp),
          mNormals := replicate (nat (numverts pcHeader)) (zero_vec fp)\<rparr>]\<rparr>"

text \<open>\<open>(unsigned int)(pcHeader->numverts / pcHeader->fnumverts_x)\<close> and
  \<open>(unsigned int)pcHeader->fnumverts_x\<close>.\<close>

definition grid_height :: "'f fpu \<Rightarrow> 'f Header_HMP5 \<Rightarrow> nat" where
  "grid_height fp pcHeader =
     u32 (f_to_uint fp (f_div fp (f_of_int fp (numverts pcHeader)) (fnumverts_x pcHeader)))"

definition grid_width :: "'f fpu \<Rightarrow> 'f Header_HMP5 \<Rightarrow> nat" where
  "grid_width fp pcHeader = u32 (f_to_uint fp (fnumverts_x pcHeader))"

definition read_terrain ::
  "'f fpu \<Rightarrow> 'f collab
     \<Rightarrow> ('f Header_HMP5 \<Rightarrow> byte list \<Rightarrow> nat \<Rightarrow> nat \<Rightarrow> nat \<Rightarrow> failure + ('f aiVector3D \<times> 'f aiVector3D))
     \<Rightarrow> nat \<Rightarrow> nat \<Rightarrow> byte list \<Rightarrow> nat \<Rightarrow> 'f aiScene \<Rightarrow> (unit, 'f aiScene) res" where
  "read_terrain fp col body check_size stride mBuffer iFileSize scene =
     (case ValidateHeader_HMP457 fp mBuffer iFileSize of
        Inl e \<Rightarrow> Throw e scene
      | Inr _ \<Rightarrow>
     (case header fp mBuffer of
        None \<Rightarrow> Throw BufferOverread scene
      | Some pcHeader \<Rightarrow>
     if numverts pcHeader < 0
     then Throw BadArrayNewLength (scene\<lparr>mMeshes := [new_aiMesh\<lparr>mMaterialIndex := 0\<rparr>]\<rparr>)
     else
       let scene1 = output_mesh fp pcHeader scene;
           height = grid_height fp pcHeader;
           width = grid_width fp pcHeader
       in
     (case CreateMaterial fp col mBuffer iFileSize 84 scene1 of
        Throw e scene2 \<Rightarrow> Throw e scene2
      | Ok szMaterial scene2 \<Rightarrow>
     (let szCurrent = szMaterial + 36 in
      case SizeCheck iFileSize (szCurrent + check_size * height * width) of
        Inl e \<Rightarrow> Throw e scene2
      | Inr _ \<Rightarrow>
     (case mMeshes scene2 of
        [] \<Rightarrow> Throw ArrayOutOfBounds scene2
      | pcMesh # _ \<Rightarrow>
     (case load_vertices (body pcHeader mBuffer) stride (grid_cells height width) szCurrent 0
             (mVertices pcMesh) (mNormals pcMesh) of
        Inl e \<Rightarrow> Throw e scene2
      | Inr (vs, ns) \<Rightarrow>
     (case (if numskins pcHeader \<noteq> 0
            then GenerateTextureCoords fp width height (pcMesh\<lparr>mVertices := vs, mNormals := ns\<rparr>)
            else Inr (pcMesh\<lparr>mVertices := vs, mNormals := ns\<rparr>)) of
        Inl e \<Rightarrow> Throw e (set_mesh0 (pcMesh\<lparr>mVertices := vs, mNormals := ns\<rparr>) scene2)
      | Inr pcMesh3 \<Rightarrow>
     (case CreateOutputFaceList fp width height pcMesh3 of
        Inl e \<Rightarrow> Throw e (set_mesh0 pcMesh3 scene2)
      | Inr pcMesh4 \<Rightarrow>
          Ok () ((set_mesh0 pcMesh4 scene2)
                   \<lparr>mRootNode := Some \<lparr>mName = ''terrain_root'', node_mMeshes = [0]\<rparr>\<rparr>)))))))))"

definition InternReadFile_HMP5 ::
  "'f fpu \<Rightarrow> 'f collab \<Rightarrow> byte list \<Rightarrow> nat \<Rightarrow> 'f aiScene \<Rightarrow> (unit, 'f aiScene) res" where
  "InternReadFile_HMP5 fp col =
     read_terrain fp col (vertex_HMP5 fp col) sizeof_Vertex_HMP7 sizeof_Vertex_HMP5"

definition InternReadFile_HMP7 ::
  "'f fpu \<Rightarrow> 'f collab \<Rightarrow> byte list \<Rightarrow> nat \<Rightarrow> 'f aiScene \<Rightarrow> (unit, 'f aiScene) res" where
  "InternReadFile_HMP7 fp col =
     read_terrain fp col (vertex_HMP7 fp col) sizeof_Vertex_HMP7 sizeof_Vertex_HMP7"

definition InternReadFile_HMP4 :: "'f aiScene \<Rightarrow> (unit, 'f aiScene) res" where
  "InternReadFile_HMP4 scene =
     Throw (DeadlyImportError UnsupportedRevision ''HMP4 is currently not supported'') scene"

subsection \<open>The dispatcher\<close>

text \<open>Modelled from the spec: the magic numbers (HMPFileData.h) are not among the
  sources. They are the four characters of the tag of a revision, packed into 32
  bits, in both byte orders.\<close>

definition AI_MAKE_MAGIC :: "string \<Rightarrow> 32 word" where
  "AI_MAKE_MAGIC str =
     word_of_nat (of_char (str ! 0) * 2 ^ 24 + of_char (str ! 1) * 2 ^ 16
                  + of_char (str ! 2) * 2 ^ 8 + of_char (str ! 3))"

definition is_magic :: "32 word \<Rightarrow> string \<Rightarrow> bool" where
  "is_magic iMagic tag \<longleftrightarrow> AI_MAKE_MAGIC (rev tag) = iMagic \<or> AI_MAKE_MAGIC tag = iMagic"

text \<open>\<open>HMPImporter::InternReadFile\<close>; \<open>file\<close> is the content of the file, \<open>None\<close> when it
  cannot be opened.\<close>

definition InternReadFile ::
  "'f fpu \<Rightarrow> 'f collab \<Rightarrow> byte list option \<Rightarrow> 'f aiScene \<Rightarrow> (unit, 'f aiScene) res" where
  "InternReadFile fp col file scene =
     (case file of
        None \<Rightarrow> Throw (DeadlyImportError OpenOrSizeError ''Failed to open HMP file'') scene
      | Some mBuffer \<Rightarrow>
          if length mBuffer < 50
          then Throw (DeadlyImportError OpenOrSizeError ''HMP File is too small.'') scene
          else
            (case read_u32 mBuffer 0 of
               None \<Rightarrow> Throw BufferOverread scene
             | Some iMagic \<Rightarrow>
                 (case (if is_magic iMagic ''HMP4'' then InternReadFile_HMP4 scene
                        else if is_magic iMagic ''HMP5''
                        then InternReadFile_HMP5 fp col mBuffer (u32 (length mBuffer)) scene
                        else if is_magic iMagic ''HMP7''
                        then InternReadFile_HMP7 fp col mBuffer (u32 (length mBuffer)) scene
                        else Throw (DeadlyImportError UnrecognizedSubformat ''Unknown HMP subformat'') scene) of
                    Throw e s \<Rightarrow> Throw e s
                  | Ok _ s \<Rightarrow> Ok () (s\<lparr>mFlags := mFlags s OR AI_SCENE_FLAGS_TERRAIN\<rparr>))))"

section \<open>A concrete machine\<close>

subsection \<open>IEEE 754 single precision\<close>

text \<open>
  To run the loader on a concrete file the operations on \<open>float\<close> are needed. This is
  the arithmetic of IEEE 754 binary32 with rounding to nearest, ties to even: a value
  is a rational number of the format, an infinity (\<open>True\<close> for the negative one) or
  not a number. Negative zero is identified with zero; the two differ only as
  divisors, and the loader divides by no header field that can be zero.
\<close>

datatype f32 = Finite rat | Infinity bool | NaN

definition pow2 :: "int \<Rightarrow> rat" where
  "pow2 e = (if 0 \<le> e then 2 ^ nat e else 1 / 2 ^ nat (- e))"

function ilog2 :: "int \<Rightarrow> int" where
  "ilog2 n = (if n < 2 then 0 else 1 + ilog2 (n div 2))"
  by pat_completeness auto
termination
  by (relation "measure nat") auto

declare ilog2.simps [simp del]

text \<open>The largest \<open>e\<close> with \<open>2 ^ e \<le> a\<close>, for positive \<open>a\<close>.\<close>

definition floor_log2 :: "rat \<Rightarrow> int" where
  "floor_log2 a =
     (if 1 \<le> a then ilog2 \<lfloor>a\<rfloor>
      else let c = \<lceil>1 / a\<rceil> in - (if c \<le> 1 then 0 else 1 + ilog2 (c - 1)))"

text \<open>Rounding of a rational number to the format: 24 bits of precision, the smallest
  exponent \<open>- 126\<close>, overflow to infinity from \<open>2 ^ 128\<close> on.\<close>

definition round_f32 :: "rat \<Rightarrow> f32" where
  "round_f32 q =
     (if q = 0 then Finite 0
      else
        let a = \<bar>q\<bar>;
            e = max (floor_log2 a) (- 126);
            ulp = pow2 (e - 23);
            t = a / ulp;
            n = \<lfloor>t\<rfloor>;
            d = t - of_int n;
            m = (if d < 1 / 2 then n else if 1 / 2 < d then n + 1 else if even n then n else n + 1);
            r = of_int m * ulp
        in if pow2 128 \<le> r then Infinity (q < 0) else Finite (if q < 0 then - r else r))"

text \<open>The value of 32 bits: sign, 8 bits of exponent, 23 bits of fraction.\<close>

definition f32_of_bits :: "32 word \<Rightarrow> f32" where
  "f32_of_bits w =
     (let s = (2 ^ 31 \<le> uint w); e = (uint w div 2 ^ 23) mod 256; m = uint w mod 2 ^ 23 in
      if e = 255 then (if m = 0 then Infinity s else NaN)
      else let v = (if e = 0 then of_int m * pow2 (- 149) else of_int (2 ^ 23 + m) * pow2 (e - 150))
           in Finite (if s then - v else v))"

fun f32_isfinite :: "f32 \<Rightarrow> bool" where
  "f32_isfinite (Finite _) = True"
| "f32_isfinite _ = False"

fun f32_less :: "f32 \<Rightarrow> f32 \<Rightarrow> bool" where
  "f32_less (Finite a) (Finite b) = (a < b)"
| "f32_less (Finite a) (Infinity s) = (\<not> s)"
| "f32_less (Infinity s) (Finite b) = s"
| "f32_less (Infinity s) (Infinity t) = (s \<and> \<not> t)"
| "f32_less _ _ = False"

fun f32_eq :: "f32 \<Rightarrow> f32 \<Rightarrow> bool" where
  "f32_eq (Finite a) (Finite b) = (a = b)"
| "f32_eq (Infinity s) (Infinity t) = (s = t)"
| "f32_eq _ _ = False"

fun f32_neg :: "f32 \<Rightarrow> f32" where
  "f32_neg (Finite a) = Finite (- a)"
| "f32_neg (Infinity s) = Infinity (\<not> s)"
| "f32_neg NaN = NaN"

fun f32_add :: "f32 \<Rightarrow> f32 \<Rightarrow> f32" where
  "f32_add (Finite a) (Finite b) = round_f32 (a + b)"
| "f32_add (Finite a) (Infinity s) = Infinity s"
| "f32_add (Infinity s) (Finite b) = Infinity s"
| "f32_add (Infinity s) (Infinity t) = (if s = t then Infinity s else NaN)"
| "f32_add _ _ = NaN"

definition f32_sub :: "f32 \<Rightarrow> f32 \<Rightarrow> f32" where
  "f32_sub a b = f32_add a (f32_neg b)"

fun f32_mul :: "f32 \<Rightarrow> f32 \<Rightarrow> f32" where
  "f32_mul (Finite a) (Finite b) = round_f32 (a * b)"
| "f32_mul (Finite a) (Infinity s) = (if a = 0 then NaN else Infinity (s \<noteq> (a < 0)))"
| "f32_mul (Infinity s) (Finite b) = (if b = 0 then NaN else Infinity (s \<noteq> (b < 0)))"
| "f32_mul (Infinity s) (Infinity t) = Infinity (s \<noteq> t)"
| "f32_mul _ _ = NaN"

fun f32_div :: "f32 \<Rightarrow> f32 \<Rightarrow> f32" where
  "f32_div (Finite a) (Finite b) =
     (if b = 0 then (if a = 0 then NaN else Infinity (a < 0)) else round_f32 (a / b))"
| "f32_div (Finite a) (Infinity s) = Finite 0"
| "f32_div (Infinity s) (Finite b) = Infinity (s \<noteq> (b < 0))"
| "f32_div _ _ = NaN"

text \<open>The cast to \<open>unsigned int\<close> truncates; outside the range of the type the C++
  program has no defined result, which is \<open>0\<close> here.\<close>

fun f32_to_uint :: "f32 \<Rightarrow> nat" where
  "f32_to_uint (Finite a) = (if 0 \<le> a \<and> a < 2 ^ 32 then nat \<lfloor>a\<rfloor> else 0)"
| "f32_to_uint _ = 0"

definition ieee_fpu :: "f32 fpu" where
  "ieee_fpu =
     \<lparr>f_bits = f32_of_bits, f_lit = round_f32, f_of_int = (\<lambda>i. round_f32 (of_int i)),
      f_isfinite = f32_isfinite, f_less = f32_less, f_eq = f32_eq,
      f_add = f32_add, f_sub = f32_sub, f_mul = f32_mul, f_div = f32_div,
      f_to_uint = f32_to_uint\<rparr>"

subsection \<open>Stand-ins for the collaborators\<close>

text \<open>Skins whose payload is one byte for each pixel; a table of normals that holds
  the vertical in every entry; a normalisation that leaves the vector as it is.\<close>

definition plain_collab :: "f32 collab" where
  "plain_collab =
     \<lparr>ParseSkinLump_3DGS_MDL7 =
        (\<lambda>buf c iType iWidth iHeight.
           Inr (c + unat iWidth * unat iHeight, [(''skin'', IntProp (uint iType))])),
      SkipSkinLump_3DGS_MDL7 =
        (\<lambda>buf c iType iWidth iHeight. Inr (c + unat iWidth * unat iHeight)),
      LookupNormalIndex = (\<lambda>i. \<lparr>vec_x = Finite 0, vec_y = Finite 0, vec_z = Finite 1\<rparr>),
      Normalize = (\<lambda>v. v)\<rparr>"

section \<open>The specification's reading of the header validation\<close>

text \<open>The checks of the header as the specification lists them, each with the reason
  it is reported with, in the order of the list. \<open>a \<ge> 1.0\<close> is read as "not
  \<open>a < 1.0\<close>", and the frame count as the unsigned value of its 32 bits.\<close>

definition header_checks :: "'f fpu \<Rightarrow> 'f Header_HMP5 \<Rightarrow> (bool \<times> string) list" where
  "header_checks fp h =
     [(f_isfinite fp (ftrisize_x h) \<and> f_isfinite fp (ftrisize_y h), msg_not_finite),
      (\<not> f_eq fp (ftrisize_x h) (f_lit fp 0) \<and> \<not> f_eq fp (ftrisize_y h) (f_lit fp 0), msg_zero_size),
      (f_isfinite fp (fnumverts_x h), msg_numverts_not_finite),
      (\<not> f_less fp (fnumverts_x h) (f_lit fp 1)
         \<and> \<not> f_less fp (f_div fp (f_of_int fp (numverts h)) (fnumverts_x h)) (f_lit fp 1),
       msg_zero_count),
      (1 \<le> unat (numframes h), msg_no_frames)]"

text \<open>The first check of a list that fails is fatal, with its reason.\<close>

definition first_violation :: "(bool \<times> string) list \<Rightarrow> failure + unit" where
  "first_violation checks =
     (case find (\<lambda>c. \<not> fst c) checks of
        None \<Rightarrow> Inr ()
      | Some c \<Rightarrow> Inl (DeadlyImportError InvalidHeader (snd c)))"

section \<open>The specification's reading of a face\<close>

text \<open>A quad that owns the four consecutive entries from \<open>i\<close> on of the duplicated
  arrays.\<close>

definition quad :: "nat \<Rightarrow> aiFace" where
  "quad i = \<lparr>mNumIndices = 4, mIndices = [Some i, Some (i + 1), Some (i + 2), Some (i + 3)]\<rparr>"

text \<open>The entries of a row-major grid of the given width at the four corners of the
  cell \<open>(x, y)\<close>, in the winding \<open>(x, y)\<close>, \<open>(x, y + 1)\<close>, \<open>(x + 1, y + 1)\<close>, \<open>(x + 1, y)\<close>.
  A cell is written as the pair \<open>(y, x)\<close>, as in \<open>grid_cells\<close>.\<close>

definition cell_corners :: "'a list \<Rightarrow> nat \<Rightarrow> nat \<times> nat \<Rightarrow> 'a list" where
  "cell_corners grid width cell =
     (case cell of (y, x) \<Rightarrow>
        [grid ! (y * width + x), grid ! ((y + 1) * width + x),
         grid ! ((y + 1) * width + (x + 1)), grid ! (y * width + (x + 1))])"

section \<open>Concrete files\<close>

text \<open>The headers of the concrete files, as the concrete machine reads them.\<close>

definition header_1x1 :: "f32 Header_HMP5" where
  "header_1x1 = \<lparr>ftrisize_x = Finite 2, ftrisize_y = Finite 2, fnumverts_x = Finite 1,
                   numskins = 0, numverts = 1, numframes = 1\<rparr>"

definition header_3x2 :: "f32 Header_HMP5" where
  "header_3x2 = \<lparr>ftrisize_x = Finite 2, ftrisize_y = Finite 2, fnumverts_x = Finite 3,
                   numskins = 0, numverts = 6, numframes = 1\<rparr>"

text \<open>The grid of three by two vertices that the loop over the vertices decodes from
  \<open>file_grid_3x2\<close>, in a mesh.\<close>

definition mesh_grid_3x2 :: "f32 aiMesh" where
  "mesh_grid_3x2 =
     new_aiMesh
       \<lparr>mVertices :=
          [\<lparr>vec_x = Finite 0, vec_y = Finite 0, vec_z = Finite (- (1 / 8192))\<rparr>,
           \<lparr>vec_x = Finite 2, vec_y = Finite 0, vec_z = Finite (- (1 / 8192))\<rparr>,
           \<lparr>vec_x = Finite 4, vec_y = Finite 0, vec_z = Finite (- (1 / 8192))\<rparr>,
           \<lparr>vec_x = Finite 0, vec_y = Finite 2, vec_z = Finite (- (1 / 8192))\<rparr>,
           \<lparr>vec_x = Finite 2, vec_y = Finite 2, vec_z = Finite (- (1 / 8192))\<rparr>,
           \<lparr>vec_x = Finite 4, vec_y = Finite 2, vec_z = Finite (- (1 / 8192))\<rparr>],
        mNormals := replicate 6 \<lparr>vec_x = Finite 0, vec_y = Finite 0, vec_z = Finite 1\<rparr>\<rparr>"

text \<open>A header whose grid has more cells than vertices: 50331652 and 3.0 are numbers
  of the format, their quotient 16777217.33 is not, and the division rounds it to
  16777218 (the numbers of the format are two apart there). With it, a mesh as the
  loader allocates it for this header, with \<open>numverts\<close> entries in each array.\<close>

definition header_overcount :: "f32 Header_HMP5" where
  "header_overcount = \<lparr>ftrisize_x = Finite 2, ftrisize_y = Finite 2, fnumverts_x = Finite 3,
                         numskins = 0, numverts = 50331652, numframes = 1\<rparr>"

definition mesh_overcount :: "f32 aiMesh" where
  "mesh_overcount =
     new_aiMesh\<lparr>mVertices := replicate 50331652 (zero_vec ieee_fpu),
                mNormals := replicate 50331652 (zero_vec ieee_fpu)\<rparr>"

text \<open>A grid of two by two cells in a mesh whose arrays hold three entries.\<close>

definition mesh_three :: "f32 aiMesh" where
  "mesh_three =
     new_aiMesh\<lparr>mVertices := replicate 3 (zero_vec ieee_fpu),
                mNormals := replicate 3 (zero_vec ieee_fpu)\<rparr>"

text \<open>A file of 120 bytes of revision 5 whose triangle size in x is zero.\<close>

definition file_zero_spacing :: "byte list" where
  "file_zero_spacing =
     [72, 77, 80, 53, 0, 0, 0, 0, 0, 0, 0, 0,
      0, 0, 0, 0, 0, 0, 0, 0, 0, 0, 0, 0,
      0, 0, 0, 0, 0, 0, 0, 0, 0, 0, 0, 0,
      0, 0, 0, 0, 0, 0, 0, 64, 0, 0, 64, 64,
      0, 0, 0, 0, 0, 0, 0, 0, 0, 0, 0, 0,
      6, 0, 0, 0, 0, 0, 0, 0, 1, 0, 0, 0,
      0, 0, 0, 0, 0, 0, 0, 0, 0, 0, 0, 0,
      0, 0, 0, 0, 0, 0, 0, 0, 0, 0, 0, 0,
      0, 0, 0, 0, 0, 0, 0, 0, 0, 0, 0, 0,
      0, 0, 0, 0, 0, 0, 0, 0, 0, 0, 0, 0]"

text \<open>A file of revision 5 without skins: triangle sizes 2.0, a grid of 3 by 2 vertices, each with the height field 32767.\<close>

definition file_grid_3x2 :: "byte list" where
  "file_grid_3x2 =
     [72, 77, 80, 53, 0, 0, 0, 0, 0, 0, 0, 0,
      0, 0, 0, 0, 0, 0, 0, 0, 0, 0, 0, 0,
      0, 0, 0, 0, 0, 0, 0, 0, 0, 0, 0, 0,
      0, 0, 0, 64, 0, 0, 0, 64, 0, 0, 64, 64,
      0, 0, 0, 0, 0, 0, 0, 0, 0, 0, 0, 0,
      6, 0, 0, 0, 0, 0, 0, 0, 1, 0, 0, 0,
      0, 0, 0, 0, 0, 0, 0, 0, 0, 0, 0, 0,
      0, 0, 0, 0, 0, 0, 0, 0, 0, 0, 0, 0,
      0, 0, 0, 0, 0, 0, 0, 0, 0, 0, 0, 0,
      0, 0, 0, 0, 0, 0, 0, 0, 0, 0, 0, 0,
      255, 127, 0, 0, 255, 127, 0, 0, 255, 127, 0, 0,
      255, 127, 0, 0, 255, 127, 0, 0, 255, 127, 0, 0]"

text \<open>The same grid in a file of revision 7, every normal pointing up.\<close>

definition file_grid_3x2_HMP7 :: "byte list" where
  "file_grid_3x2_HMP7 =
     [72, 77, 80, 55, 0, 0, 0, 0, 0, 0, 0, 0,
      0, 0, 0, 0, 0, 0, 0, 0, 0, 0, 0, 0,
      0, 0, 0, 0, 0, 0, 0, 0, 0, 0, 0, 0,
      0, 0, 0, 64, 0, 0, 0, 64, 0, 0, 64, 64,
      0, 0, 0, 0, 0, 0, 0, 0, 0, 0, 0, 0,
      6, 0, 0, 0, 0, 0, 0, 0, 1, 0, 0, 0,
      0, 0, 0, 0, 0, 0, 0, 0, 0, 0, 0, 0,
      0, 0, 0, 0, 0, 0, 0, 0, 0, 0, 0, 0,
      0, 0, 0, 0, 0, 0, 0, 0, 0, 0, 0, 0,
      0, 0, 0, 0, 0, 0, 0, 0, 0, 0, 0, 0,
      255, 127, 0, 0, 255, 127, 0, 0, 255, 127, 0, 0,
      255, 127, 0, 0, 255, 127, 0, 0, 255, 127, 0, 0]"

text \<open>A file of revision 5 that ends behind its first 120 bytes, before the one vertex its header announces.\<close>

definition file_truncated :: "byte list" where
  "file_truncated =
     [72, 77, 80, 53, 0, 0, 0, 0, 0, 0, 0, 0,
      0, 0, 0, 0, 0, 0, 0, 0, 0, 0, 0, 0,
      0, 0, 0, 0, 0, 0, 0, 0, 0, 0, 0, 0,
      0, 0, 0, 64, 0, 0, 0, 64, 0, 0, 128, 63,
      0, 0, 0, 0, 0, 0, 0, 0, 0, 0, 0, 0,
      1, 0, 0, 0, 0, 0, 0, 0, 1, 0, 0, 0,
      0, 0, 0, 0, 0, 0, 0, 0, 0, 0, 0, 0,
      0, 0, 0, 0, 0, 0, 0, 0, 0, 0, 0, 0,
      0, 0, 0, 0, 0, 0, 0, 0, 0, 0, 0, 0,
      0, 0, 0, 0, 0, 0, 0, 0, 0, 0, 0, 0]"

text \<open>The same file in revision 7.\<close>

definition file_truncated_HMP7 :: "byte list" where
  "file_truncated_HMP7 =
     [72, 77, 80, 55, 0, 0, 0, 0, 0, 0, 0, 0,
      0, 0, 0, 0, 0, 0, 0, 0, 0, 0, 0, 0,
      0, 0, 0, 0, 0, 0, 0, 0, 0, 0, 0, 0,
      0, 0, 0, 64, 0, 0, 0, 64, 0, 0, 128, 63,
      0, 0, 0, 0, 0, 0, 0, 0, 0, 0, 0, 0,
      1, 0, 0, 0, 0, 0, 0, 0, 1, 0, 0, 0,
      0, 0, 0, 0, 0, 0, 0, 0, 0, 0, 0, 0,
      0, 0, 0, 0, 0, 0, 0, 0, 0, 0, 0, 0,
      0, 0, 0, 0, 0, 0, 0, 0, 0, 0, 0, 0,
      0, 0, 0, 0, 0, 0, 0, 0, 0, 0, 0, 0]"

text \<open>A file of revision 7 with three skins, twelve zero bytes in front of the first (the double header), and a grid of one vertex.\<close>

definition file_three_skins :: "byte list" where
  "file_three_skins =
     [72, 77, 80, 55, 0, 0, 0, 0, 0, 0, 0, 0,
      0, 0, 0, 0, 0, 0, 0, 0, 0, 0, 0, 0,
      0, 0, 0, 0, 0, 0, 0, 0, 0, 0, 0, 0,
      0, 0, 0, 64, 0, 0, 0, 64, 0, 0, 128, 63,
      3, 0, 0, 0, 0, 0, 0, 0, 0, 0, 0, 0,
      1, 0, 0, 0, 0, 0, 0, 0, 1, 0, 0, 0,
      0, 0, 0, 0, 0, 0, 0, 0, 0, 0, 0, 0,
      0, 0, 0, 0, 0, 0, 0, 0, 0, 0, 0, 0,
      1, 0, 0, 0, 2, 0, 0, 0, 1, 0, 0, 0,
      7, 8, 1, 0, 0, 0, 1, 0, 0, 0, 1, 0,
      0, 0, 9, 1, 0, 0, 0, 1, 0, 0, 0, 1,
      0, 0, 0, 10, 0, 0, 0, 0, 0, 0, 0, 0,
      0, 0, 0, 0, 0, 0, 0, 0, 0, 0, 0, 0,
      0, 0, 0, 0, 0, 0, 0, 0, 0, 0, 0, 0,
      0, 0, 0, 0, 255, 127, 0, 0]"

text \<open>The file of three skins, cut off inside the header of the third skin.\<close>

definition file_third_skin_cut :: "byte list" where
  "file_third_skin_cut =
     [72, 77, 80, 55, 0, 0, 0, 0, 0, 0, 0, 0,
      0, 0, 0, 0, 0, 0, 0, 0, 0, 0, 0, 0,
      0, 0, 0, 0, 0, 0, 0, 0, 0, 0, 0, 0,
      0, 0, 0, 64, 0, 0, 0, 64, 0, 0, 128, 63,
      3, 0, 0, 0, 0, 0, 0, 0, 0, 0, 0, 0,
      1, 0, 0, 0, 0, 0, 0, 0, 1, 0, 0, 0,
      0, 0, 0, 0, 0, 0, 0, 0, 0, 0, 0, 0,
      0, 0, 0, 0, 0, 0, 0, 0, 0, 0, 0, 0,
      1, 0, 0, 0, 2, 0, 0, 0, 1, 0, 0, 0,
      7, 8, 1, 0, 0, 0, 1, 0, 0, 0, 1, 0,
      0, 0, 9, 1, 0, 0, 0, 1]"

text \<open>A file of revision 7 with one skin whose type tag is zero at both places.\<close>

definition file_skin_unreadable :: "byte list" where
  "file_skin_unreadable =
     [72, 77, 80, 55, 0, 0, 0, 0, 0, 0, 0, 0,
      0, 0, 0, 0, 0, 0, 0, 0, 0, 0, 0, 0,
      0, 0, 0, 0, 0, 0, 0, 0, 0, 0, 0, 0,
      0, 0, 0, 64, 0, 0, 0, 64, 0, 0, 128, 63,
      1, 0, 0, 0, 0, 0, 0, 0, 0, 0, 0, 0,
      1, 0, 0, 0, 0, 0, 0, 0, 1, 0, 0, 0,
      0, 0, 0, 0, 0, 0, 0, 0, 0, 0, 0, 0,
      0, 0, 0, 0, 0, 0, 0, 0, 0, 0, 0, 0,
      0, 0, 0, 0, 0, 0, 0, 0, 0, 0, 0, 0,
      0, 0, 0, 0, 0, 0, 0, 0, 0, 0, 0, 0]"

text \<open>A complete file of revision 5 whose grid is a single vertex.\<close>

definition file_grid_1x1 :: "byte list" where
  "file_grid_1x1 =
     [72, 77, 80, 53, 0, 0, 0, 0, 0, 0, 0, 0,
      0, 0, 0, 0, 0, 0, 0, 0, 0, 0, 0, 0,
      0, 0, 0, 0, 0, 0, 0, 0, 0, 0, 0, 0,
      0, 0, 0, 64, 0, 0, 0, 64, 0, 0, 128, 63,
      0, 0, 0, 0, 0, 0, 0, 0, 0, 0, 0, 0,
      1, 0, 0, 0, 0, 0, 0, 0, 1, 0, 0, 0,
      0, 0, 0, 0, 0, 0, 0, 0, 0, 0, 0, 0,
      0, 0, 0, 0, 0, 0, 0, 0, 0, 0, 0, 0,
      0, 0, 0, 0, 0, 0, 0, 0, 0, 0, 0, 0,
      0, 0, 0, 0, 0, 0, 0, 0, 0, 0, 0, 0,
      255, 127, 0, 0]"

text \<open>A file of revision 5 of 201326736 bytes: the header \<open>header_overcount\<close>, and zero
  bytes up to the end of the 50331654 vertex records that the grid of this header takes.\<close>

definition file_overcount :: "byte list" where
  "file_overcount =
     [72, 77, 80, 53, 0, 0, 0, 0, 0, 0, 0, 0,
      0, 0, 0, 0, 0, 0, 0, 0, 0, 0, 0, 0,
      0, 0, 0, 0, 0, 0, 0, 0, 0, 0, 0, 0,
      0, 0, 0, 64, 0, 0, 0, 64, 0, 0, 64, 64,
      0, 0, 0, 0, 0, 0, 0, 0, 0, 0, 0, 0,
      4, 0, 0, 3, 0, 0, 0, 0, 1, 0, 0, 0,
      0, 0, 0, 0, 0, 0, 0, 0, 0, 0, 0, 0] @ replicate 201326652 0"

section \<open>Properties\<close>

subsection \<open>Reading the buffer\<close>

lemma read_u32_Some: "p + 4 \<le> length buf \<Longrightarrow> \<exists>w. read_u32 buf p = Some w"
  by (simp add: read_u32_def)

lemma read_u32_None: "length buf < p + 4 \<Longrightarrow> read_u32 buf p = None"
  by (simp add: read_u32_def)

lemma header_Some:
  assumes "72 \<le> length buf"
  shows "\<exists>h. header fp buf = Some h"
  using assms by (simp add: header_def read_u32_def)

subsection \<open>Validation of the header\<close>

lemma validate_eq:
  assumes "120 \<le> iFileSize" "header fp mBuffer = Some h"
  shows "ValidateHeader_HMP457 fp mBuffer iFileSize = first_violation (header_checks fp h)"
  using assms
  by (simp add: ValidateHeader_HMP457_def first_violation_def header_checks_def unat_eq_0
      Suc_le_eq unat_gt_0)

lemma reasons_distinct: "distinct (map snd (header_checks fp h))"
  by (simp add: header_checks_def msg_not_finite_def msg_zero_size_def
      msg_numverts_not_finite_def msg_zero_count_def msg_no_frames_def)

lemma read_terrain_invalid:
  "ValidateHeader_HMP457 fp mBuffer iFileSize = Inl e \<Longrightarrow>
   read_terrain fp col body cs st mBuffer iFileSize scene = Throw e scene"
  by (simp add: read_terrain_def)

text \<open>
  C5. For a buffer whose recorded size is at least 120 bytes, the validation of the
  header is the list of the five checks of the specification, tried in their order:
  both triangle sizes finite; both non-zero; \<open>fnumverts_x\<close> finite; \<open>fnumverts_x\<close> and
  \<open>numverts / fnumverts_x\<close> not below one; at least one frame. The first check that
  fails is fatal: it is reported as \<open>InvalidHeader\<close> with a reason of its own, both
  supported revisions throw it and leave the scene untouched. No field is changed.
\<close>

theorem header_validation_in_order:
  assumes "120 \<le> iFileSize" and "iFileSize \<le> length mBuffer"
  shows "\<exists>h. header fp mBuffer = Some h
           \<and> ValidateHeader_HMP457 fp mBuffer iFileSize = first_violation (header_checks fp h)
           \<and> distinct (map snd (header_checks fp h))
           \<and> (\<forall>e. ValidateHeader_HMP457 fp mBuffer iFileSize = Inl e \<longrightarrow>
                  InternReadFile_HMP5 fp col mBuffer iFileSize scene = Throw e scene
                \<and> InternReadFile_HMP7 fp col mBuffer iFileSize scene = Throw e scene)"
proof -
  from assms have "72 \<le> length mBuffer" by simp
  then obtain h where h: "header fp mBuffer = Some h"
    using header_Some by blast
  have "ValidateHeader_HMP457 fp mBuffer iFileSize = first_violation (header_checks fp h)"
    using assms(1) h by (rule validate_eq)
  moreover have "distinct (map snd (header_checks fp h))"
    by (rule reasons_distinct)
  moreover have "\<forall>e. ValidateHeader_HMP457 fp mBuffer iFileSize = Inl e \<longrightarrow>
        InternReadFile_HMP5 fp col mBuffer iFileSize scene = Throw e scene
      \<and> InternReadFile_HMP7 fp col mBuffer iFileSize scene = Throw e scene"
    by (simp add: InternReadFile_HMP5_def InternReadFile_HMP7_def read_terrain_invalid)
  ultimately show ?thesis using h by blast
qed

lemma round_f32_0: "round_f32 0 = Finite 0"
  by (simp add: round_f32_def)

lemma header_file_zero_spacing:
  "header ieee_fpu file_zero_spacing =
     Some \<lparr>ftrisize_x = Finite 0, ftrisize_y = Finite 2, fnumverts_x = Finite 3,
           numskins = 0, numverts = 6, numframes = 1\<rparr>"
  by (simp add: header_def read_u32_def file_zero_spacing_def ieee_fpu_def f32_of_bits_def
      pow2_def Let_def)

lemma validate_file_zero_spacing:
  "ValidateHeader_HMP457 ieee_fpu file_zero_spacing 120
     = Inl (DeadlyImportError InvalidHeader msg_zero_size)"
  by (simp add: ValidateHeader_HMP457_def header_file_zero_spacing)
     (simp add: ieee_fpu_def round_f32_0)

theorem header_validation_in_order_witness:
  "120 \<le> (120 :: nat) \<and> 120 \<le> length file_zero_spacing
   \<and> ValidateHeader_HMP457 ieee_fpu file_zero_spacing 120
       = Inl (DeadlyImportError InvalidHeader msg_zero_size)
   \<and> InternReadFile_HMP5 ieee_fpu plain_collab file_zero_spacing 120 new_aiScene
       = Throw (DeadlyImportError InvalidHeader msg_zero_size) new_aiScene"
proof -
  have len: "(120 :: nat) \<le> length file_zero_spacing"
    by (simp add: file_zero_spacing_def)
  from header_validation_in_order [OF order_refl len, of ieee_fpu plain_collab new_aiScene]
  show ?thesis
    using len validate_file_zero_spacing by auto
qed

subsection \<open>Skins\<close>

lemma SizeCheck_ok: "p \<le> iFileSize \<Longrightarrow> SizeCheck iFileSize p = Inr ()"
  by (simp add: SizeCheck_def)

lemma SizeCheck_fails:
  "iFileSize < p \<Longrightarrow> SizeCheck iFileSize p = Inl (DeadlyImportError TruncatedInput msg_size_check)"
  by (simp add: SizeCheck_def)

lemma SizeCheck_Inr: "SizeCheck iFileSize p = Inr u \<Longrightarrow> p \<le> iFileSize"
  by (simp add: SizeCheck_def split: if_splits)

lemma SizeCheck_Inl:
  "SizeCheck iFileSize p = Inl e \<Longrightarrow> e = DeadlyImportError TruncatedInput msg_size_check"
  by (simp add: SizeCheck_def split: if_splits)

lemma first_skin_header_eq:
  assumes "read_u32 mBuffer c = Some t0"
    and "read_u32 mBuffer (c + 4) = Some w0" and "read_u32 mBuffer (c + 8) = Some h0"
    and "read_u32 mBuffer (c + 12) = Some t1"
    and "read_u32 mBuffer (c + 16) = Some w1" and "read_u32 mBuffer (c + 20) = Some h1"
  shows "first_skin_header mBuffer c =
           (if t0 \<noteq> 0 then Inr (t0, w0, h0, c + 12)
            else if t1 \<noteq> 0 then Inr (t1, w1, h1, c + 24)
            else Inl (DeadlyImportError UnreadableSkinChunk msg_skin))"
  using assms by (simp add: first_skin_header_def add.assoc)

text \<open>
  C7. \<open>ReadFirstSkin\<close> reads the type tag of the first skin at the cursor. A tag that
  is not zero is followed at once by the width and the height. A tag of zero makes
  the parser skip eight bytes and read the tag once more, twelve bytes behind the
  first place; if that tag is not zero, width and height follow it, and if it is zero
  as well the parser throws \<open>UnreadableSkinChunk\<close> and the scene stays as it was.
\<close>

theorem first_skin_type_tag:
  assumes "read_u32 mBuffer c = Some t0"
    and "read_u32 mBuffer (c + 4) = Some w0" and "read_u32 mBuffer (c + 8) = Some h0"
    and "read_u32 mBuffer (c + 12) = Some t1"
    and "read_u32 mBuffer (c + 16) = Some w1" and "read_u32 mBuffer (c + 20) = Some h1"
  shows "first_skin_header mBuffer c =
           (if t0 \<noteq> 0 then Inr (t0, w0, h0, c + 12)
            else if t1 \<noteq> 0 then Inr (t1, w1, h1, c + 24)
            else Inl (DeadlyImportError UnreadableSkinChunk msg_skin))
         \<and> (t0 = 0 \<and> t1 = 0 \<longrightarrow>
              ReadFirstSkin col mBuffer iFileSize iNumSkins c scene
                = Throw (DeadlyImportError UnreadableSkinChunk msg_skin) scene)"
proof -
  have eq: "first_skin_header mBuffer c =
           (if t0 \<noteq> 0 then Inr (t0, w0, h0, c + 12)
            else if t1 \<noteq> 0 then Inr (t1, w1, h1, c + 24)
            else Inl (DeadlyImportError UnreadableSkinChunk msg_skin))"
    using assms by (rule first_skin_header_eq)
  then have "t0 = 0 \<and> t1 = 0 \<longrightarrow>
      ReadFirstSkin col mBuffer iFileSize iNumSkins c scene
        = Throw (DeadlyImportError UnreadableSkinChunk msg_skin) scene"
    by (simp add: ReadFirstSkin_def)
  with eq show ?thesis by blast
qed

lemma reads_file_skin_unreadable:
  "read_u32 file_skin_unreadable 84 = Some 0" "read_u32 file_skin_unreadable (84 + 4) = Some 0"
  "read_u32 file_skin_unreadable (84 + 8) = Some 0" "read_u32 file_skin_unreadable (84 + 12) = Some 0"
  "read_u32 file_skin_unreadable (84 + 16) = Some 0" "read_u32 file_skin_unreadable (84 + 20) = Some 0"
  by (simp_all add: read_u32_def file_skin_unreadable_def)

lemma reads_file_three_skins:
  "read_u32 file_three_skins 84 = Some 0" "read_u32 file_three_skins (84 + 4) = Some 0"
  "read_u32 file_three_skins (84 + 8) = Some 0" "read_u32 file_three_skins (84 + 12) = Some 1"
  "read_u32 file_three_skins (84 + 16) = Some 2" "read_u32 file_three_skins (84 + 20) = Some 1"
  by (simp_all add: read_u32_def file_three_skins_def)

theorem first_skin_type_tag_witness:
  "read_u32 file_skin_unreadable 84 = Some 0
   \<and> read_u32 file_skin_unreadable (84 + 12) = Some 0
   \<and> ReadFirstSkin plain_collab file_skin_unreadable 120 1 84 (new_aiScene :: f32 aiScene)
        = Throw (DeadlyImportError UnreadableSkinChunk msg_skin) new_aiScene
   \<and> read_u32 file_three_skins 84 = Some 0
   \<and> read_u32 file_three_skins (84 + 12) = Some 1
   \<and> first_skin_header file_three_skins 84 = Inr (1, 2, 1, 108)"
  using first_skin_type_tag [OF reads_file_skin_unreadable, of plain_collab 120 1 new_aiScene]
    first_skin_type_tag [OF reads_file_three_skins, of plain_collab 176 3 new_aiScene]
    reads_file_skin_unreadable reads_file_three_skins
  by simp

declare skip_skins.simps(2) [simp del]

lemma skip_next_skin_reads:
  assumes "skip_next_skin col mBuffer c = Inr c'"
  shows "\<exists>iType iWidth iHeight.
           read_u32 mBuffer c = Some iType \<and> read_u32 mBuffer (c + 4) = Some iWidth
           \<and> read_u32 mBuffer (c + 8) = Some iHeight
           \<and> SkipSkinLump_3DGS_MDL7 col mBuffer (c + 12) iType iWidth iHeight = Inr c'"
  using assms
  by (auto simp: skip_next_skin_def split: option.splits sum.splits prod.splits)

lemma skip_skins_within:
  "skip_skins col mBuffer iFileSize n c = Inr c' \<Longrightarrow> 0 < n \<Longrightarrow> c' \<le> iFileSize"
proof (induction n arbitrary: c)
  case 0
  then show ?case by simp
next
  case (Suc n)
  from Suc.prems(1) obtain c1 where
    c1: "skip_next_skin col mBuffer c = Inr c1" "c1 \<le> iFileSize"
      "skip_skins col mBuffer iFileSize n c1 = Inr c'"
    by (auto simp: skip_skins.simps(2) split: sum.splits dest: SizeCheck_Inr)
  show ?case
  proof (cases n)
    case 0
    with c1 show ?thesis by simp
  next
    case (Suc m)
    with c1 Suc.IH show ?thesis by blast
  qed
qed

lemma skip_skins_step:
  assumes "c + 12 \<le> iFileSize" "skip_next_skin col mBuffer c = Inr c1" "c1 \<le> iFileSize"
  shows "skip_skins col mBuffer iFileSize (Suc n) c = skip_skins col mBuffer iFileSize n c1"
  using assms by (simp add: skip_skins.simps(2) SizeCheck_ok)

lemma skip_skins_cut_header:
  assumes "iFileSize < c + 12"
  shows "skip_skins col mBuffer iFileSize (Suc n) c
           = Inl (DeadlyImportError TruncatedInput msg_size_check)"
  using assms by (simp add: skip_skins.simps(2) SizeCheck_fails)

lemma skip_skins_cut_payload:
  assumes "c + 12 \<le> iFileSize" "skip_next_skin col mBuffer c = Inr c1" "iFileSize < c1"
  shows "skip_skins col mBuffer iFileSize (Suc n) c
           = Inl (DeadlyImportError TruncatedInput msg_size_check)"
  using assms by (simp add: skip_skins.simps(2) SizeCheck_ok SizeCheck_fails)

lemma skip_skins_chain:
  assumes "length cs = Suc k"
    and "\<forall>i<k. cs ! i + 12 \<le> iFileSize
               \<and> skip_next_skin col mBuffer (cs ! i) = Inr (cs ! Suc i)
               \<and> cs ! Suc i \<le> iFileSize"
  shows "skip_skins col mBuffer iFileSize (k + n) (cs ! 0)
           = skip_skins col mBuffer iFileSize n (cs ! k)"
  using assms
proof (induction k arbitrary: cs)
  case 0
  then show ?case by simp
next
  case (Suc k)
  from Suc.prems(1) obtain x ys where cs: "cs = x # ys" and ys: "length ys = Suc k"
    by (cases cs) auto
  from Suc.prems(2) [rule_format, of 0] cs
  have head: "x + 12 \<le> iFileSize" "skip_next_skin col mBuffer x = Inr (ys ! 0)"
    "ys ! 0 \<le> iFileSize"
    by simp_all
  have rest: "\<forall>i<k. ys ! i + 12 \<le> iFileSize
                \<and> skip_next_skin col mBuffer (ys ! i) = Inr (ys ! Suc i)
                \<and> ys ! Suc i \<le> iFileSize"
  proof (intro allI impI)
    fix i assume "i < k"
    with Suc.prems(2) [rule_format, of "Suc i"] cs
    show "ys ! i + 12 \<le> iFileSize
            \<and> skip_next_skin col mBuffer (ys ! i) = Inr (ys ! Suc i)
            \<and> ys ! Suc i \<le> iFileSize"
      by simp
  qed
  have "skip_skins col mBuffer iFileSize (Suc (k + n)) x
          = skip_skins col mBuffer iFileSize (k + n) (ys ! 0)"
    using head by (rule skip_skins_step)
  also have "\<dots> = skip_skins col mBuffer iFileSize n (ys ! k)"
    using ys rest by (rule Suc.IH)
  finally show ?case by (simp add: cs)
qed

lemma skip_skins_returns:
  "skip_skins col mBuffer iFileSize n c = Inr c' \<Longrightarrow>
     \<exists>ds. length ds = Suc n \<and> ds ! 0 = c \<and> ds ! n = c'
          \<and> (\<forall>i<n. ds ! i + 12 \<le> iFileSize
                   \<and> skip_next_skin col mBuffer (ds ! i) = Inr (ds ! Suc i)
                   \<and> ds ! Suc i \<le> iFileSize)"
proof (induction n arbitrary: c)
  case 0
  then have "length [c] = Suc 0 \<and> [c] ! 0 = c \<and> [c] ! 0 = c'" by simp
  then show ?case by blast
next
  case (Suc n)
  from Suc.prems obtain c1 where
    c1: "c + 12 \<le> iFileSize" "skip_next_skin col mBuffer c = Inr c1" "c1 \<le> iFileSize"
      "skip_skins col mBuffer iFileSize n c1 = Inr c'"
    by (auto simp: skip_skins.simps(2) split: sum.splits dest: SizeCheck_Inr)
  from Suc.IH [OF c1(4)] obtain ds where
    ds: "length ds = Suc n" "ds ! 0 = c1" "ds ! n = c'"
      "\<forall>i<n. ds ! i + 12 \<le> iFileSize
             \<and> skip_next_skin col mBuffer (ds ! i) = Inr (ds ! Suc i)
             \<and> ds ! Suc i \<le> iFileSize"
    by blast
  have each: "\<forall>i<Suc n. (c # ds) ! i + 12 \<le> iFileSize
             \<and> skip_next_skin col mBuffer ((c # ds) ! i) = Inr ((c # ds) ! Suc i)
             \<and> (c # ds) ! Suc i \<le> iFileSize"
  proof (intro allI impI)
    fix i assume i: "i < Suc n"
    show "(c # ds) ! i + 12 \<le> iFileSize
             \<and> skip_next_skin col mBuffer ((c # ds) ! i) = Inr ((c # ds) ! Suc i)
             \<and> (c # ds) ! Suc i \<le> iFileSize"
    proof (cases i)
      case 0
      with c1 ds(2) show ?thesis by simp
    next
      case (Suc j)
      with i ds(4) [rule_format, of j] show ?thesis by simp
    qed
  qed
  have "length (c # ds) = Suc (Suc n) \<and> (c # ds) ! 0 = c \<and> (c # ds) ! Suc n = c'"
    using ds by simp
  with each show ?case by blast
qed

text \<open>
  C6. For every skin count of at least two, \<open>ReadFirstSkin\<close> hands the first skin to
  \<open>ParseSkinLump_3DGS_MDL7\<close> and then, for each skin behind the first, checks that the
  twelve bytes of its header lie inside the file, reads type, width and height, lets
  \<open>SkipSkinLump_3DGS_MDL7\<close> move the cursor and checks the cursor again. Let \<open>cs\<close> be
  the cursors of a run in which the first \<open>k\<close> of these skins are complete, \<open>cs ! 0\<close>
  the cursor behind the first skin. If they are all the skins behind the first, the
  call returns the cursor behind the last of them, with the material of the first
  skin alone in the scene. If there are more, a next skin whose header or whose
  payload is cut off makes the call throw \<open>TruncatedInput\<close>, the scene unchanged.
  And whenever the call returns, every skin behind the first has passed both checks:
  it never stops after fewer skins than the header counts.
\<close>

theorem remaining_skins_are_skipped:
  assumes first: "first_skin_header mBuffer c = Inr (t, w, h, c0)"
    and parse: "ParseSkinLump_3DGS_MDL7 col mBuffer c0 t w h = Inr (c1, pcMat)"
    and count: "2 \<le> iNumSkins" "k < iNumSkins"
    and cursors: "length cs = Suc k" "cs ! 0 = c1"
    and complete: "\<forall>i<k. cs ! i + 12 \<le> iFileSize
                       \<and> skip_next_skin col mBuffer (cs ! i) = Inr (cs ! Suc i)
                       \<and> cs ! Suc i \<le> iFileSize"
  shows "(\<forall>i<k. \<exists>iType iWidth iHeight.
            read_u32 mBuffer (cs ! i) = Some iType
            \<and> read_u32 mBuffer (cs ! i + 4) = Some iWidth
            \<and> read_u32 mBuffer (cs ! i + 8) = Some iHeight
            \<and> SkipSkinLump_3DGS_MDL7 col mBuffer (cs ! i + 12) iType iWidth iHeight
                = Inr (cs ! Suc i))
       \<and> (Suc k = iNumSkins \<longrightarrow>
            ReadFirstSkin col mBuffer iFileSize iNumSkins c scene
              = Ok (cs ! k) (scene\<lparr>mMaterials := [pcMat]\<rparr>))
       \<and> (Suc k < iNumSkins \<and> iFileSize < cs ! k + 12 \<longrightarrow>
            ReadFirstSkin col mBuffer iFileSize iNumSkins c scene
              = Throw (DeadlyImportError TruncatedInput msg_size_check) scene)
       \<and> (Suc k < iNumSkins \<and> cs ! k + 12 \<le> iFileSize
            \<and> skip_next_skin col mBuffer (cs ! k) = Inr c' \<and> iFileSize < c' \<longrightarrow>
            ReadFirstSkin col mBuffer iFileSize iNumSkins c scene
              = Throw (DeadlyImportError TruncatedInput msg_size_check) scene)
       \<and> (\<forall>c'' scene'.
            ReadFirstSkin col mBuffer iFileSize iNumSkins c scene = Ok c'' scene' \<longrightarrow>
            scene' = scene\<lparr>mMaterials := [pcMat]\<rparr>
            \<and> (\<exists>ds. length ds = iNumSkins \<and> ds ! 0 = c1 \<and> ds ! (iNumSkins - 1) = c''
                  \<and> (\<forall>i<iNumSkins - 1.
                        ds ! i + 12 \<le> iFileSize
                        \<and> skip_next_skin col mBuffer (ds ! i) = Inr (ds ! Suc i)
                        \<and> ds ! Suc i \<le> iFileSize)))"
proof -
  have start: "ReadFirstSkin col mBuffer iFileSize iNumSkins c scene =
      (case skip_skins col mBuffer iFileSize (iNumSkins - 1) c1 of
         Inl e \<Rightarrow> Throw e scene
       | Inr c2 \<Rightarrow> Ok c2 (scene\<lparr>mMaterials := [pcMat]\<rparr>))"
    unfolding ReadFirstSkin_def using first parse by simp
  have prefix: "skip_skins col mBuffer iFileSize (k + n) c1
                  = skip_skins col mBuffer iFileSize n (cs ! k)" for n
    using skip_skins_chain [OF cursors(1) complete, of n] cursors(2) by simp
  have reads: "\<forall>i<k. \<exists>iType iWidth iHeight.
            read_u32 mBuffer (cs ! i) = Some iType
            \<and> read_u32 mBuffer (cs ! i + 4) = Some iWidth
            \<and> read_u32 mBuffer (cs ! i + 8) = Some iHeight
            \<and> SkipSkinLump_3DGS_MDL7 col mBuffer (cs ! i + 12) iType iWidth iHeight
                = Inr (cs ! Suc i)"
  proof (intro allI impI)
    fix i assume "i < k"
    with complete have "skip_next_skin col mBuffer (cs ! i) = Inr (cs ! Suc i)" by simp
    then show "\<exists>iType iWidth iHeight.
            read_u32 mBuffer (cs ! i) = Some iType
            \<and> read_u32 mBuffer (cs ! i + 4) = Some iWidth
            \<and> read_u32 mBuffer (cs ! i + 8) = Some iHeight
            \<and> SkipSkinLump_3DGS_MDL7 col mBuffer (cs ! i + 12) iType iWidth iHeight
                = Inr (cs ! Suc i)"
      by (rule skip_next_skin_reads)
  qed
  have all: "Suc k = iNumSkins \<longrightarrow>
      ReadFirstSkin col mBuffer iFileSize iNumSkins c scene
        = Ok (cs ! k) (scene\<lparr>mMaterials := [pcMat]\<rparr>)"
  proof
    assume "Suc k = iNumSkins"
    then have "iNumSkins - 1 = k + 0" by simp
    then have "skip_skins col mBuffer iFileSize (iNumSkins - 1) c1 = Inr (cs ! k)"
      by (simp only: prefix skip_skins.simps(1))
    then show "ReadFirstSkin col mBuffer iFileSize iNumSkins c scene
        = Ok (cs ! k) (scene\<lparr>mMaterials := [pcMat]\<rparr>)"
      unfolding start by (simp only: sum.case)
  qed
  have more: "skip_skins col mBuffer iFileSize (iNumSkins - 1) c1
                = skip_skins col mBuffer iFileSize (Suc (iNumSkins - 2 - k)) (cs ! k)"
    if "Suc k < iNumSkins"
  proof -
    from that have "iNumSkins - 1 = k + Suc (iNumSkins - 2 - k)" by simp
    then show ?thesis by (simp only: prefix)
  qed
  have cut_header: "Suc k < iNumSkins \<and> iFileSize < cs ! k + 12 \<longrightarrow>
      ReadFirstSkin col mBuffer iFileSize iNumSkins c scene
        = Throw (DeadlyImportError TruncatedInput msg_size_check) scene"
  proof
    assume a: "Suc k < iNumSkins \<and> iFileSize < cs ! k + 12"
    then have "skip_skins col mBuffer iFileSize (iNumSkins - 1) c1
                 = Inl (DeadlyImportError TruncatedInput msg_size_check)"
      unfolding more [OF conjunct1 [OF a]] by (intro skip_skins_cut_header) simp
    then show "ReadFirstSkin col mBuffer iFileSize iNumSkins c scene
        = Throw (DeadlyImportError TruncatedInput msg_size_check) scene"
      unfolding start by (simp only: sum.case)
  qed
  have cut_payload: "Suc k < iNumSkins \<and> cs ! k + 12 \<le> iFileSize
        \<and> skip_next_skin col mBuffer (cs ! k) = Inr c' \<and> iFileSize < c' \<longrightarrow>
      ReadFirstSkin col mBuffer iFileSize iNumSkins c scene
        = Throw (DeadlyImportError TruncatedInput msg_size_check) scene"
  proof
    assume a: "Suc k < iNumSkins \<and> cs ! k + 12 \<le> iFileSize
        \<and> skip_next_skin col mBuffer (cs ! k) = Inr c' \<and> iFileSize < c'"
    then have "skip_skins col mBuffer iFileSize (iNumSkins - 1) c1
                 = Inl (DeadlyImportError TruncatedInput msg_size_check)"
      unfolding more [OF conjunct1 [OF a]] by (intro skip_skins_cut_payload [where ?c1.0 = c']) simp_all
    then show "ReadFirstSkin col mBuffer iFileSize iNumSkins c scene
        = Throw (DeadlyImportError TruncatedInput msg_size_check) scene"
      unfolding start by (simp only: sum.case)
  qed
  have returns: "\<forall>c'' scene'.
      ReadFirstSkin col mBuffer iFileSize iNumSkins c scene = Ok c'' scene' \<longrightarrow>
      scene' = scene\<lparr>mMaterials := [pcMat]\<rparr>
      \<and> (\<exists>ds. length ds = iNumSkins \<and> ds ! 0 = c1 \<and> ds ! (iNumSkins - 1) = c''
            \<and> (\<forall>i<iNumSkins - 1.
                  ds ! i + 12 \<le> iFileSize
                  \<and> skip_next_skin col mBuffer (ds ! i) = Inr (ds ! Suc i)
                  \<and> ds ! Suc i \<le> iFileSize))"
  proof (intro allI impI)
    fix c'' scene'
    assume "ReadFirstSkin col mBuffer iFileSize iNumSkins c scene = Ok c'' scene'"
    then have both: "skip_skins col mBuffer iFileSize (iNumSkins - 1) c1 = Inr c''
        \<and> scene' = scene\<lparr>mMaterials := [pcMat]\<rparr>"
      unfolding start
      by (cases "skip_skins col mBuffer iFileSize (iNumSkins - 1) c1") (simp_all only: sum.case res.inject res.distinct simp_thms)
    then have run: "skip_skins col mBuffer iFileSize (iNumSkins - 1) c1 = Inr c''"
      and scene': "scene' = scene\<lparr>mMaterials := [pcMat]\<rparr>"
      by blast+
    from count(1) have s: "Suc (iNumSkins - 1) = iNumSkins" by simp
    from scene' skip_skins_returns [OF run]
    show "scene' = scene\<lparr>mMaterials := [pcMat]\<rparr>
      \<and> (\<exists>ds. length ds = iNumSkins \<and> ds ! 0 = c1 \<and> ds ! (iNumSkins - 1) = c''
            \<and> (\<forall>i<iNumSkins - 1.
                  ds ! i + 12 \<le> iFileSize
                  \<and> skip_next_skin col mBuffer (ds ! i) = Inr (ds ! Suc i)
                  \<and> ds ! Suc i \<le> iFileSize))"
      unfolding s by (rule conjI)
  qed
  from reads all cut_header cut_payload returns show ?thesis
    by (intro conjI)
qed

lemma first_header_file_three_skins:
  "first_skin_header file_three_skins 84 = Inr (1, 2, 1, 108)"
  using first_skin_header_eq [OF reads_file_three_skins] by simp

lemma reads_file_third_skin_cut:
  "read_u32 file_third_skin_cut 84 = Some 0" "read_u32 file_third_skin_cut (84 + 4) = Some 0"
  "read_u32 file_third_skin_cut (84 + 8) = Some 0" "read_u32 file_third_skin_cut (84 + 12) = Some 1"
  "read_u32 file_third_skin_cut (84 + 16) = Some 2" "read_u32 file_third_skin_cut (84 + 20) = Some 1"
  by (simp_all add: read_u32_def file_third_skin_cut_def)

lemma first_header_file_third_skin_cut:
  "first_skin_header file_third_skin_cut 84 = Inr (1, 2, 1, 108)"
  using first_skin_header_eq [OF reads_file_third_skin_cut] by simp

lemma parse_plain: "ParseSkinLump_3DGS_MDL7 plain_collab buf 108 1 2 1 = Inr (110, [(''skin'', IntProp 1)])"
  by (simp add: plain_collab_def)

lemma skips_file_three_skins:
  "skip_next_skin plain_collab file_three_skins 110 = Inr 123"
  "skip_next_skin plain_collab file_three_skins 123 = Inr 136"
  by (simp_all add: skip_next_skin_def read_u32_def file_three_skins_def plain_collab_def)

lemma skips_file_third_skin_cut:
  "skip_next_skin plain_collab file_third_skin_cut 110 = Inr 123"
  by (simp add: skip_next_skin_def read_u32_def file_third_skin_cut_def plain_collab_def)

theorem remaining_skins_are_skipped_witness:
  "first_skin_header file_three_skins 84 = Inr (1, 2, 1, 108)
   \<and> ParseSkinLump_3DGS_MDL7 plain_collab file_three_skins 108 1 2 1 = Inr (110, [(''skin'', IntProp 1)])
   \<and> skip_next_skin plain_collab file_three_skins 110 = Inr 123
   \<and> skip_next_skin plain_collab file_three_skins 123 = Inr 136
   \<and> length file_three_skins = 176
   \<and> ReadFirstSkin plain_collab file_three_skins 176 3 84 new_aiScene
        = Ok 136 (new_aiScene\<lparr>mMaterials := [[(''skin'', IntProp 1)]]\<rparr>)
   \<and> first_skin_header file_third_skin_cut 84 = Inr (1, 2, 1, 108)
   \<and> skip_next_skin plain_collab file_third_skin_cut 110 = Inr 123
   \<and> length file_third_skin_cut = 128
   \<and> ReadFirstSkin plain_collab file_third_skin_cut 128 3 84 (new_aiScene :: f32 aiScene)
        = Throw (DeadlyImportError TruncatedInput msg_size_check) new_aiScene"
proof -
  have three: "\<forall>i<2. [110, 123, 136] ! i + 12 \<le> (176 :: nat)
      \<and> skip_next_skin plain_collab file_three_skins ([110, 123, 136] ! i)
          = Inr ([110, 123, 136] ! Suc i)
      \<and> [110, 123, 136] ! Suc i \<le> (176 :: nat)"
  proof (intro allI impI)
    fix i :: nat assume "i < 2"
    then consider "i = 0" | "i = 1" by linarith
    then show "[110, 123, 136] ! i + 12 \<le> (176 :: nat)
        \<and> skip_next_skin plain_collab file_three_skins ([110, 123, 136] ! i)
            = Inr ([110, 123, 136] ! Suc i)
        \<and> [110, 123, 136] ! Suc i \<le> (176 :: nat)"
      by cases (simp_all add: skips_file_three_skins)
  qed
  have two: "\<forall>i<1. [110, 123] ! i + 12 \<le> (128 :: nat)
      \<and> skip_next_skin plain_collab file_third_skin_cut ([110, 123] ! i)
          = Inr ([110, 123] ! Suc i)
      \<and> [110, 123] ! Suc i \<le> (128 :: nat)"
    by (simp add: skips_file_third_skin_cut)
  have "Suc 2 = 3 \<longrightarrow> ReadFirstSkin plain_collab file_three_skins 176 3 84 new_aiScene
        = Ok ([110, 123, 136] ! 2) (new_aiScene\<lparr>mMaterials := [[(''skin'', IntProp 1)]]\<rparr>)"
    by (rule conjunct1 [OF conjunct2 [OF remaining_skins_are_skipped
            [OF first_header_file_three_skins parse_plain _ _ _ _ three]]]) simp_all
  then have full: "ReadFirstSkin plain_collab file_three_skins 176 3 84 new_aiScene
        = Ok 136 (new_aiScene\<lparr>mMaterials := [[(''skin'', IntProp 1)]]\<rparr>)"
    by simp
  have "Suc 1 < 3 \<and> (128 :: nat) < [110, 123] ! 1 + 12 \<longrightarrow>
      ReadFirstSkin plain_collab file_third_skin_cut 128 3 84 (new_aiScene :: f32 aiScene)
        = Throw (DeadlyImportError TruncatedInput msg_size_check) new_aiScene"
    by (rule conjunct1 [OF conjunct2 [OF conjunct2 [OF remaining_skins_are_skipped
            [OF first_header_file_third_skin_cut parse_plain _ _ _ _ two]]]]) simp_all
  then have cut: "ReadFirstSkin plain_collab file_third_skin_cut 128 3 84 (new_aiScene :: f32 aiScene)
        = Throw (DeadlyImportError TruncatedInput msg_size_check) new_aiScene"
    by simp
  have len3: "length file_three_skins = 176" by (simp add: file_three_skins_def)
  have len2: "length file_third_skin_cut = 128" by (simp add: file_third_skin_cut_def)
  from first_header_file_three_skins parse_plain skips_file_three_skins len3 full
    first_header_file_third_skin_cut skips_file_third_skin_cut len2 cut
  show ?thesis by (intro conjI)
qed

subsection \<open>The size of the vertex array\<close>

lemma length_grid_cells: "length (grid_cells height width) = height * width"
  by (simp add: grid_cells_def)

lemma vertex_HMP5_in_bounds:
  "src + 4 \<le> length mBuffer \<Longrightarrow> \<exists>v n. vertex_HMP5 fp col h mBuffer src x y = Inr (v, n)"
  by (simp add: vertex_HMP5_def read_u16_def read_u8_def)

lemma vertex_HMP7_in_bounds:
  "src + 4 \<le> length mBuffer \<Longrightarrow> \<exists>v n. vertex_HMP7 fp col h mBuffer src x y = Inr (v, n)"
  by (simp add: vertex_HMP7_def read_u16_def read_u8_def)

lemma load_vertices_no_overread:
  assumes body: "\<And>src x y. src + stride \<le> L \<Longrightarrow> \<exists>v n. body src x y = Inr (v, n)"
    and "src + stride * length cells \<le> L"
  shows "load_vertices body stride cells src i vs ns \<noteq> Inl BufferOverread"
  using assms(2)
proof (induction cells arbitrary: src i vs ns)
  case Nil
  then show ?case by simp
next
  case (Cons cell cells)
  obtain y x where cell: "cell = (y, x)" by (cases cell)
  from Cons.prems have here: "src + stride \<le> L"
    and rest: "(src + stride) + stride * length cells \<le> L" by simp_all
  from body [OF here] obtain v n where r: "body src x y = Inr (v, n)" by blast
  show ?case
    using Cons.IH [OF rest] by (simp add: cell r)
qed

lemma read_terrain_truncated:
  assumes "ValidateHeader_HMP457 fp mBuffer iFileSize = Inr ()"
    and "header fp mBuffer = Some h" and "0 \<le> numverts h"
    and "CreateMaterial fp col mBuffer iFileSize 84 (output_mesh fp h scene) = Ok c scene2"
    and "iFileSize < c + 36 + cs * grid_height fp h * grid_width fp h"
  shows "read_terrain fp col body cs st mBuffer iFileSize scene
           = Throw (DeadlyImportError TruncatedInput msg_size_check) scene2"
  using assms by (simp add: read_terrain_def Let_def SizeCheck_fails)

text \<open>
  C4. In both supported revisions, once the header is valid and the material is
  created with the cursor at \<open>c\<close>, the loader compares the end of the whole vertex
  array, \<open>c + 36 + height * width * recordSize\<close> with the size of the record of that
  revision, against the size of the file before it reads a vertex, and throws
  \<open>TruncatedInput\<close> if the array ends behind the file. If it does not, no read of the
  loop over the vertices leaves the buffer.
\<close>

theorem vertex_array_is_checked_first:
  assumes valid: "ValidateHeader_HMP457 fp mBuffer iFileSize = Inr ()"
    and hdr: "header fp mBuffer = Some h" and nv: "0 \<le> numverts h"
    and mat: "CreateMaterial fp col mBuffer iFileSize 84 (output_mesh fp h scene) = Ok c scene2"
  shows "(iFileSize < c + 36 + grid_height fp h * grid_width fp h * sizeof_Vertex_HMP5 \<longrightarrow>
            InternReadFile_HMP5 fp col mBuffer iFileSize scene
              = Throw (DeadlyImportError TruncatedInput msg_size_check) scene2)
       \<and> (iFileSize < c + 36 + grid_height fp h * grid_width fp h * sizeof_Vertex_HMP7 \<longrightarrow>
            InternReadFile_HMP7 fp col mBuffer iFileSize scene
              = Throw (DeadlyImportError TruncatedInput msg_size_check) scene2)
       \<and> (c + 36 + grid_height fp h * grid_width fp h * sizeof_Vertex_HMP5 \<le> iFileSize
            \<and> iFileSize \<le> length mBuffer \<longrightarrow>
            load_vertices (vertex_HMP5 fp col h mBuffer) sizeof_Vertex_HMP5
              (grid_cells (grid_height fp h) (grid_width fp h)) (c + 36) 0 vs ns
              \<noteq> Inl BufferOverread)
       \<and> (c + 36 + grid_height fp h * grid_width fp h * sizeof_Vertex_HMP7 \<le> iFileSize
            \<and> iFileSize \<le> length mBuffer \<longrightarrow>
            load_vertices (vertex_HMP7 fp col h mBuffer) sizeof_Vertex_HMP7
              (grid_cells (grid_height fp h) (grid_width fp h)) (c + 36) 0 vs ns
              \<noteq> Inl BufferOverread)"
proof -
  have five: "iFileSize < c + 36 + grid_height fp h * grid_width fp h * sizeof_Vertex_HMP5 \<longrightarrow>
      InternReadFile_HMP5 fp col mBuffer iFileSize scene
        = Throw (DeadlyImportError TruncatedInput msg_size_check) scene2"
  proof
    assume "iFileSize < c + 36 + grid_height fp h * grid_width fp h * sizeof_Vertex_HMP5"
    then have "iFileSize < c + 36 + sizeof_Vertex_HMP7 * grid_height fp h * grid_width fp h"
      by (simp add: sizeof_Vertex_HMP5_def sizeof_Vertex_HMP7_def mult_ac)
    with valid hdr nv mat show "InternReadFile_HMP5 fp col mBuffer iFileSize scene
        = Throw (DeadlyImportError TruncatedInput msg_size_check) scene2"
      unfolding InternReadFile_HMP5_def by (rule read_terrain_truncated)
  qed
  have seven: "iFileSize < c + 36 + grid_height fp h * grid_width fp h * sizeof_Vertex_HMP7 \<longrightarrow>
      InternReadFile_HMP7 fp col mBuffer iFileSize scene
        = Throw (DeadlyImportError TruncatedInput msg_size_check) scene2"
  proof
    assume "iFileSize < c + 36 + grid_height fp h * grid_width fp h * sizeof_Vertex_HMP7"
    then have "iFileSize < c + 36 + sizeof_Vertex_HMP7 * grid_height fp h * grid_width fp h"
      by (simp add: mult_ac)
    with valid hdr nv mat show "InternReadFile_HMP7 fp col mBuffer iFileSize scene
        = Throw (DeadlyImportError TruncatedInput msg_size_check) scene2"
      unfolding InternReadFile_HMP7_def by (rule read_terrain_truncated)
  qed
  have loop5: "c + 36 + grid_height fp h * grid_width fp h * sizeof_Vertex_HMP5 \<le> iFileSize
        \<and> iFileSize \<le> length mBuffer \<longrightarrow>
      load_vertices (vertex_HMP5 fp col h mBuffer) sizeof_Vertex_HMP5
        (grid_cells (grid_height fp h) (grid_width fp h)) (c + 36) 0 vs ns \<noteq> Inl BufferOverread"
  proof
    assume a: "c + 36 + grid_height fp h * grid_width fp h * sizeof_Vertex_HMP5 \<le> iFileSize
        \<and> iFileSize \<le> length mBuffer"
    show "load_vertices (vertex_HMP5 fp col h mBuffer) sizeof_Vertex_HMP5
        (grid_cells (grid_height fp h) (grid_width fp h)) (c + 36) 0 vs ns \<noteq> Inl BufferOverread"
    proof (rule load_vertices_no_overread [where L = "length mBuffer"])
      fix src x y
      assume "src + sizeof_Vertex_HMP5 \<le> length mBuffer"
      then show "\<exists>v n. vertex_HMP5 fp col h mBuffer src x y = Inr (v, n)"
        unfolding sizeof_Vertex_HMP5_def by (rule vertex_HMP5_in_bounds)
    next
      from a show "c + 36 + sizeof_Vertex_HMP5 * length (grid_cells (grid_height fp h) (grid_width fp h))
          \<le> length mBuffer"
        by (simp add: length_grid_cells mult.commute)
    qed
  qed
  have loop7: "c + 36 + grid_height fp h * grid_width fp h * sizeof_Vertex_HMP7 \<le> iFileSize
        \<and> iFileSize \<le> length mBuffer \<longrightarrow>
      load_vertices (vertex_HMP7 fp col h mBuffer) sizeof_Vertex_HMP7
        (grid_cells (grid_height fp h) (grid_width fp h)) (c + 36) 0 vs ns \<noteq> Inl BufferOverread"
  proof
    assume a: "c + 36 + grid_height fp h * grid_width fp h * sizeof_Vertex_HMP7 \<le> iFileSize
        \<and> iFileSize \<le> length mBuffer"
    show "load_vertices (vertex_HMP7 fp col h mBuffer) sizeof_Vertex_HMP7
        (grid_cells (grid_height fp h) (grid_width fp h)) (c + 36) 0 vs ns \<noteq> Inl BufferOverread"
    proof (rule load_vertices_no_overread [where L = "length mBuffer"])
      fix src x y
      assume "src + sizeof_Vertex_HMP7 \<le> length mBuffer"
      then show "\<exists>v n. vertex_HMP7 fp col h mBuffer src x y = Inr (v, n)"
        unfolding sizeof_Vertex_HMP7_def by (rule vertex_HMP7_in_bounds)
    next
      from a show "c + 36 + sizeof_Vertex_HMP7 * length (grid_cells (grid_height fp h) (grid_width fp h))
          \<le> length mBuffer"
        by (simp add: length_grid_cells mult.commute)
    qed
  qed
  from five seven loop5 loop7 show ?thesis by blast
qed

subsection \<open>Runs on the concrete machine\<close>

lemma round_f32_1: "round_f32 1 = Finite 1"
  by code_simp

lemma round_f32_half: "round_f32 (1 / 2) = Finite (1 / 2)"
  by code_simp

lemma round_f32_8: "round_f32 8 = Finite 8"
  by code_simp

lemma round_f32_6_10: "round_f32 (6 / 10) = Finite (5033165 / 8388608)"
  by code_simp

lemma round_f32_5_100: "round_f32 (5 / 100) = Finite (13421773 / 268435456)"
  by code_simp

lemmas round_consts = round_f32_0 round_f32_1 round_f32_half round_f32_8

lemma header_file_truncated:
  "header ieee_fpu file_truncated =
     Some \<lparr>ftrisize_x = Finite 2, ftrisize_y = Finite 2, fnumverts_x = Finite 1,
           numskins = 0, numverts = 1, numframes = 1\<rparr>"
  by (simp add: header_def read_u32_def file_truncated_def ieee_fpu_def f32_of_bits_def
      pow2_def Let_def)

lemma validate_file_truncated: "ValidateHeader_HMP457 ieee_fpu file_truncated 120 = Inr ()"
  by (simp add: ValidateHeader_HMP457_def header_file_truncated)
     (simp add: ieee_fpu_def round_consts)

lemma grid_file_truncated:
  "grid_height ieee_fpu \<lparr>ftrisize_x = Finite 2, ftrisize_y = Finite 2, fnumverts_x = Finite 1,
           numskins = 0, numverts = 1, numframes = 1\<rparr> = 1"
  "grid_width ieee_fpu \<lparr>ftrisize_x = Finite 2, ftrisize_y = Finite 2, fnumverts_x = Finite 1,
           numskins = 0, numverts = 1, numframes = 1\<rparr> = 1"
  by (simp_all add: grid_height_def grid_width_def ieee_fpu_def round_consts u32_def)

lemma material_file_truncated:
  "CreateMaterial ieee_fpu plain_collab file_truncated 120 84
     (output_mesh ieee_fpu \<lparr>ftrisize_x = Finite 2, ftrisize_y = Finite 2, fnumverts_x = Finite 1,
           numskins = 0, numverts = 1, numframes = 1\<rparr> new_aiScene)
   = Ok 84 ((output_mesh ieee_fpu \<lparr>ftrisize_x = Finite 2, ftrisize_y = Finite 2, fnumverts_x = Finite 1,
           numskins = 0, numverts = 1, numframes = 1\<rparr> new_aiScene)
              \<lparr>mMaterials := [default_material ieee_fpu]\<rparr>)"
  by (simp add: CreateMaterial_def header_file_truncated output_mesh_def)

theorem vertex_array_is_checked_first_witness:
  "ValidateHeader_HMP457 ieee_fpu file_truncated 120 = Inr ()
   \<and> header ieee_fpu file_truncated =
       Some \<lparr>ftrisize_x = Finite 2, ftrisize_y = Finite 2, fnumverts_x = Finite 1,
             numskins = 0, numverts = 1, numframes = 1\<rparr>
   \<and> CreateMaterial ieee_fpu plain_collab file_truncated 120 84
        (output_mesh ieee_fpu \<lparr>ftrisize_x = Finite 2, ftrisize_y = Finite 2, fnumverts_x = Finite 1,
           numskins = 0, numverts = 1, numframes = 1\<rparr> new_aiScene)
       = Ok 84 ((output_mesh ieee_fpu \<lparr>ftrisize_x = Finite 2, ftrisize_y = Finite 2,
           fnumverts_x = Finite 1, numskins = 0, numverts = 1, numframes = 1\<rparr> new_aiScene)
              \<lparr>mMaterials := [default_material ieee_fpu]\<rparr>)
   \<and> InternReadFile_HMP5 ieee_fpu plain_collab file_truncated 120 new_aiScene
       = Throw (DeadlyImportError TruncatedInput msg_size_check)
           ((output_mesh ieee_fpu \<lparr>ftrisize_x = Finite 2, ftrisize_y = Finite 2,
              fnumverts_x = Finite 1, numskins = 0, numverts = 1, numframes = 1\<rparr> new_aiScene)
              \<lparr>mMaterials := [default_material ieee_fpu]\<rparr>)
   \<and> InternReadFile_HMP7 ieee_fpu plain_collab file_truncated 120 new_aiScene
       = Throw (DeadlyImportError TruncatedInput msg_size_check)
           ((output_mesh ieee_fpu \<lparr>ftrisize_x = Finite 2, ftrisize_y = Finite 2,
              fnumverts_x = Finite 1, numskins = 0, numverts = 1, numframes = 1\<rparr> new_aiScene)
              \<lparr>mMaterials := [default_material ieee_fpu]\<rparr>)
   \<and> load_vertices (vertex_HMP5 ieee_fpu plain_collab
          \<lparr>ftrisize_x = Finite 2, ftrisize_y = Finite 2, fnumverts_x = Finite 1,
             numskins = 0, numverts = 1, numframes = 1\<rparr> file_grid_1x1) sizeof_Vertex_HMP5
          (grid_cells 1 1) (84 + 36) 0 [zero_vec ieee_fpu] [zero_vec ieee_fpu]
       \<noteq> Inl BufferOverread"
proof -
  have nv: "0 \<le> numverts \<lparr>ftrisize_x = Finite 2, ftrisize_y = Finite 2, fnumverts_x = Finite 1,
             numskins = 0, numverts = 1, numframes = 1\<rparr>" by simp
  note cut = vertex_array_is_checked_first
    [OF validate_file_truncated header_file_truncated nv material_file_truncated]
  have hdr: "header ieee_fpu file_grid_1x1 =
     Some \<lparr>ftrisize_x = Finite 2, ftrisize_y = Finite 2, fnumverts_x = Finite 1,
           numskins = 0, numverts = 1, numframes = 1\<rparr>"
    by (simp add: header_def read_u32_def file_grid_1x1_def ieee_fpu_def f32_of_bits_def
        pow2_def Let_def)
  have valid: "ValidateHeader_HMP457 ieee_fpu file_grid_1x1 124 = Inr ()"
    by (simp add: ValidateHeader_HMP457_def hdr) (simp add: ieee_fpu_def round_consts)
  have mat: "CreateMaterial ieee_fpu plain_collab file_grid_1x1 124 84
     (output_mesh ieee_fpu \<lparr>ftrisize_x = Finite 2, ftrisize_y = Finite 2, fnumverts_x = Finite 1,
           numskins = 0, numverts = 1, numframes = 1\<rparr> new_aiScene)
   = Ok 84 ((output_mesh ieee_fpu \<lparr>ftrisize_x = Finite 2, ftrisize_y = Finite 2, fnumverts_x = Finite 1,
           numskins = 0, numverts = 1, numframes = 1\<rparr> new_aiScene)
              \<lparr>mMaterials := [default_material ieee_fpu]\<rparr>)"
    by (simp add: CreateMaterial_def hdr output_mesh_def)
  have len: "length file_grid_1x1 = 124" by (simp add: file_grid_1x1_def)
  note whole = vertex_array_is_checked_first [OF valid hdr nv mat,
      where vs = "[zero_vec ieee_fpu]" and ns = "[zero_vec ieee_fpu]"]
  from cut whole show ?thesis
    using validate_file_truncated header_file_truncated material_file_truncated len
    by (simp add: grid_file_truncated sizeof_Vertex_HMP5_def sizeof_Vertex_HMP7_def)
qed

subsection \<open>No read leaves the buffer\<close>

lemma validate_no_overread:
  assumes "iFileSize \<le> length mBuffer"
  shows "ValidateHeader_HMP457 fp mBuffer iFileSize \<noteq> Inl BufferOverread"
proof (cases "120 \<le> iFileSize")
  case True
  with assms have "72 \<le> length mBuffer" by simp
  then obtain h where "header fp mBuffer = Some h" using header_Some by blast
  with True show ?thesis by (simp add: ValidateHeader_HMP457_def)
next
  case False
  then show ?thesis by (simp add: ValidateHeader_HMP457_def)
qed

lemma first_skin_header_no_overread:
  assumes "c + 24 \<le> length mBuffer"
  shows "first_skin_header mBuffer c \<noteq> Inl BufferOverread"
proof -
  from assms have "c + 4 \<le> length mBuffer" "c + 4 + 4 \<le> length mBuffer"
    "c + 8 + 4 \<le> length mBuffer" "c + 12 + 4 \<le> length mBuffer"
    "c + 16 + 4 \<le> length mBuffer" "c + 20 + 4 \<le> length mBuffer" by simp_all
  then obtain t0 w0 h0 t1 w1 h1 where
    "read_u32 mBuffer c = Some t0" "read_u32 mBuffer (c + 4) = Some w0"
    "read_u32 mBuffer (c + 8) = Some h0" "read_u32 mBuffer (c + 12) = Some t1"
    "read_u32 mBuffer (c + 16) = Some w1" "read_u32 mBuffer (c + 20) = Some h1"
    using read_u32_Some by metis
  then show ?thesis by (simp add: first_skin_header_eq)
qed

lemma skip_next_skin_no_overread:
  assumes "c + 12 \<le> length mBuffer"
  shows "skip_next_skin col mBuffer c \<noteq> Inl BufferOverread"
proof -
  from assms have "c + 4 \<le> length mBuffer" "c + 4 + 4 \<le> length mBuffer"
    "c + 8 + 4 \<le> length mBuffer" by simp_all
  then obtain t w h where
    "read_u32 mBuffer c = Some t" "read_u32 mBuffer (c + 4) = Some w"
    "read_u32 mBuffer (c + 8) = Some h"
    using read_u32_Some by metis
  then show ?thesis by (simp add: skip_next_skin_def split: sum.splits)
qed

lemma skip_skins_no_overread:
  assumes "iFileSize \<le> length mBuffer"
  shows "skip_skins col mBuffer iFileSize n c \<noteq> Inl BufferOverread"
proof (induction n arbitrary: c)
  case 0
  then show ?case by simp
next
  case (Suc n)
  show ?case
  proof (cases "c + 12 \<le> iFileSize")
    case True
    with assms have "skip_next_skin col mBuffer c \<noteq> Inl BufferOverread"
      by (simp add: skip_next_skin_no_overread)
    with Suc.IH show ?thesis
      by (auto simp: skip_skins.simps(2) split: sum.splits dest: SizeCheck_Inl)
  next
    case False
    then show ?thesis by (simp add: skip_skins_cut_header)
  qed
qed

lemma ReadFirstSkin_no_overread:
  assumes "c + 24 \<le> length mBuffer" "iFileSize \<le> length mBuffer"
  shows "ReadFirstSkin col mBuffer iFileSize n c scene \<noteq> Throw BufferOverread s"
  using first_skin_header_no_overread [OF assms(1)]
    skip_skins_no_overread [OF assms(2), of col]
  by (auto simp: ReadFirstSkin_def split: sum.splits prod.splits)

lemma CreateMaterial_no_overread:
  assumes "120 \<le> length mBuffer" "iFileSize \<le> length mBuffer"
    and "mMeshes scene \<noteq> []"
  shows "CreateMaterial fp col mBuffer iFileSize 84 scene \<noteq> Throw BufferOverread s"
proof -
  from assms(1) have "72 \<le> length mBuffer" "84 + 24 \<le> length mBuffer" by simp_all
  then obtain h where h: "header fp mBuffer = Some h"
    and skin: "\<And>n sc. ReadFirstSkin col mBuffer iFileSize n 84 sc \<noteq> Throw BufferOverread s"
    using header_Some ReadFirstSkin_no_overread [OF _ assms(2)] by blast
  from assms(3) obtain m ms where "mMeshes scene = m # ms" by (cases "mMeshes scene") auto
  with h skin show ?thesis by (simp add: CreateMaterial_def)
qed

lemma fill_uv_fails: "fill_uv fp fX fY cells i uv = Inl e \<Longrightarrow> e = ArrayOutOfBounds"
  by (induction fp fX fY cells i uv rule: fill_uv.induct) (auto split: if_splits)

lemma GenerateTextureCoords_fails:
  "GenerateTextureCoords fp width height pcMesh = Inl e \<Longrightarrow> e = ArrayOutOfBounds"
  by (auto simp: GenerateTextureCoords_def Let_def split: option.splits if_splits sum.splits
      dest: fill_uv_fails)

lemma face_cell_fails:
  "face_cell pcMesh width upperBound nFaces y x st = Inl e \<Longrightarrow> e = ArrayOutOfBounds"
  by (auto simp: face_cell_def Let_def split: option.splits if_splits)

lemma build_faces_fails:
  "build_faces pcMesh width upperBound nFaces cells st = Inl e \<Longrightarrow> e = ArrayOutOfBounds"
  by (induction pcMesh width upperBound nFaces cells st rule: build_faces.induct)
     (auto split: sum.splits dest: face_cell_fails)

lemma CreateOutputFaceList_fails:
  "CreateOutputFaceList fp width height pcMesh = Inl e \<Longrightarrow> e = ArrayOutOfBounds"
  by (auto simp: CreateOutputFaceList_def Let_def split: sum.splits dest: build_faces_fails)

lemma read_terrain_no_overread:
  assumes body: "\<And>h src x y. src + stride \<le> length mBuffer \<Longrightarrow> \<exists>v n. body h mBuffer src x y = Inr (v, n)"
    and stride: "stride \<le> cs"
    and size: "iFileSize \<le> length mBuffer"
  shows "read_terrain fp col body cs stride mBuffer iFileSize scene \<noteq> Throw BufferOverread s"
proof (cases "ValidateHeader_HMP457 fp mBuffer iFileSize")
  case (Inl e)
  with validate_no_overread [OF size, of fp] show ?thesis
    by (auto simp: read_terrain_def)
next
  case (Inr u)
  then have big: "120 \<le> iFileSize"
    by (simp add: ValidateHeader_HMP457_def split: if_splits)
  with size have len: "120 \<le> length mBuffer" by simp
  then obtain h where h: "header fp mBuffer = Some h"
    using header_Some [of mBuffer fp] by auto
  have mat: "CreateMaterial fp col mBuffer iFileSize 84 (output_mesh fp h scene)
               \<noteq> Throw BufferOverread s"
    by (rule CreateMaterial_no_overread [OF len size]) (simp add: output_mesh_def)
  have loop: "load_vertices (body h mBuffer) stride
                (grid_cells (grid_height fp h) (grid_width fp h)) c 0 vs ns \<noteq> Inl BufferOverread"
    if "c + cs * grid_height fp h * grid_width fp h \<le> iFileSize" for c vs ns
  proof (rule load_vertices_no_overread [where L = "length mBuffer"])
    show "\<exists>v n. body h mBuffer src x y = Inr (v, n)" if "src + stride \<le> length mBuffer" for src x y
      using that by (rule body)
    have "stride * (grid_height fp h * grid_width fp h) \<le> cs * (grid_height fp h * grid_width fp h)"
      using stride by (rule mult_le_mono1)
    moreover have "c + cs * (grid_height fp h * grid_width fp h) \<le> length mBuffer"
      using that size by (simp only: mult.assoc)
    ultimately
    show "c + stride * length (grid_cells (grid_height fp h) (grid_width fp h)) \<le> length mBuffer"
      unfolding length_grid_cells by linarith
  qed
  show ?thesis
    using Inr h mat loop
    by (auto simp: read_terrain_def Let_def
        split: res.splits sum.splits list.splits prod.splits if_splits
        dest: SizeCheck_Inl SizeCheck_Inr GenerateTextureCoords_fails CreateOutputFaceList_fails)
qed

lemma u32_le: "u32 n \<le> n"
  by (simp add: u32_def)

text \<open>
  C1. Whatever the file holds and whatever the collaborators return, no read of the
  loader leaves the buffer: the outcome \<open>BufferOverread\<close> does not occur. The reads of
  the header and of type, width and height of the first skin (with the second place
  of its type tag) lie within the first 120 bytes, which the validation of the header
  has checked; every later read lies behind a call of \<open>SizeCheck\<close> that has compared
  its end with the size of the file.
\<close>

theorem no_read_leaves_the_buffer:
  "InternReadFile fp col file scene \<noteq> Throw BufferOverread s"
proof (cases "file")
  case None
  then show ?thesis by (simp add: InternReadFile_def)
next
  case (Some mBuffer)
  show ?thesis
  proof (cases "length mBuffer < 50")
    case True
    with Some show ?thesis by (simp add: InternReadFile_def)
  next
    case False
    then have "0 + 4 \<le> length mBuffer" by simp
    then obtain iMagic where magic: "read_u32 mBuffer 0 = Some iMagic"
      using read_u32_Some by blast
    have five: "InternReadFile_HMP5 fp col mBuffer (u32 (length mBuffer)) scene
                  \<noteq> Throw BufferOverread s"
      unfolding InternReadFile_HMP5_def
      by (rule read_terrain_no_overread)
         (simp_all add: sizeof_Vertex_HMP5_def sizeof_Vertex_HMP7_def vertex_HMP5_in_bounds u32_le)
    have seven: "InternReadFile_HMP7 fp col mBuffer (u32 (length mBuffer)) scene
                  \<noteq> Throw BufferOverread s"
      unfolding InternReadFile_HMP7_def
      by (rule read_terrain_no_overread)
         (simp_all add: sizeof_Vertex_HMP7_def vertex_HMP7_in_bounds u32_le)
    from Some False magic five seven show ?thesis
      by (auto simp: InternReadFile_def InternReadFile_HMP4_def split: res.splits)
  qed
qed

theorem no_read_leaves_the_buffer_witness:
  "InternReadFile ieee_fpu plain_collab (Some file_third_skin_cut) new_aiScene
     \<noteq> Throw BufferOverread new_aiScene"
  by (rule no_read_leaves_the_buffer)

subsection \<open>What a call leaves in the scene\<close>

lemma set_mesh0_fields [simp]:
  "mRootNode (set_mesh0 m s) = mRootNode s" "mFlags (set_mesh0 m s) = mFlags s"
  "mMaterials (set_mesh0 m s) = mMaterials s"
  "length (mMeshes (set_mesh0 m s)) = length (mMeshes s)"
  by (simp_all add: set_mesh0_def split: list.splits)

lemma set_mesh0_single [simp]: "mMeshes s = [m0] \<Longrightarrow> mMeshes (set_mesh0 m s) = [m]"
  by (simp add: set_mesh0_def)

lemma ReadFirstSkin_Throw:
  "ReadFirstSkin col mBuffer iFileSize n c scene = Throw e s \<Longrightarrow> s = scene"
  by (auto simp: ReadFirstSkin_def split: sum.splits prod.splits)

lemma ReadFirstSkin_Ok:
  "ReadFirstSkin col mBuffer iFileSize n c scene = Ok c' s \<Longrightarrow>
     \<exists>pcMat. s = scene\<lparr>mMaterials := [pcMat]\<rparr>"
  by (auto simp: ReadFirstSkin_def split: sum.splits prod.splits)

lemma CreateMaterial_Throw:
  assumes "CreateMaterial fp col mBuffer iFileSize c scene = Throw e s"
  shows "mRootNode s = mRootNode scene \<and> mFlags s = mFlags scene"
  using assms
  by (auto simp: CreateMaterial_def split: list.splits option.splits if_splits
      dest!: ReadFirstSkin_Throw)

text \<open>The mesh behind \<open>CreateMaterial\<close>: the arrays of vertices and normals are as they
  were, and the array of texture coordinates exists if and only if the header counts
  a skin.\<close>

lemma CreateMaterial_Ok:
  assumes "CreateMaterial fp col mBuffer iFileSize c scene = Ok c' s"
    and "mMeshes scene = [m]" and "header fp mBuffer = Some h"
  shows "mRootNode s = mRootNode scene \<and> mFlags s = mFlags scene \<and> length (mMaterials s) = 1
       \<and> (\<exists>m'. mMeshes s = [m'] \<and> mVertices m' = mVertices m \<and> mNormals m' = mNormals m
             \<and> mTextureCoords0 m' =
                 (if numskins h \<noteq> 0 then Some (replicate (nat (numverts h)) (zero_vec fp))
                  else mTextureCoords0 m))"
  using assms
  by (auto simp: CreateMaterial_def split: if_splits dest!: ReadFirstSkin_Ok)

lemma read_terrain_Throw:
  assumes "read_terrain fp col body cs stride mBuffer iFileSize scene = Throw e s"
  shows "mRootNode s = mRootNode scene \<and> mFlags s = mFlags scene"
proof (cases "header fp mBuffer")
  case None
  with assms show ?thesis
    by (auto simp: read_terrain_def split: sum.splits)
next
  case (Some h)
  have mat: "mRootNode s2 = mRootNode scene \<and> mFlags s2 = mFlags scene"
    if "CreateMaterial fp col mBuffer iFileSize 84 (output_mesh fp h scene) = Throw e2 s2"
    for e2 s2
    using CreateMaterial_Throw [OF that] by (simp add: output_mesh_def)
  have mat_ok: "mRootNode s2 = mRootNode scene \<and> mFlags s2 = mFlags scene"
    if "CreateMaterial fp col mBuffer iFileSize 84 (output_mesh fp h scene) = Ok c s2"
    for c s2
    using CreateMaterial_Ok [OF that _ Some] by (simp add: output_mesh_def)
  from assms Some show ?thesis
    by (auto simp: read_terrain_def Let_def
        split: sum.splits if_splits res.splits list.splits prod.splits
        dest: mat mat_ok)
qed

lemma read_terrain_Ok:
  assumes "read_terrain fp col body cs stride mBuffer iFileSize scene = Ok u s"
  shows "length (mMeshes s) = 1 \<and> length (mMaterials s) = 1 \<and> mFlags s = mFlags scene
       \<and> mRootNode s = Some \<lparr>mName = ''terrain_root'', node_mMeshes = [0]\<rparr>"
proof (cases "header fp mBuffer")
  case None
  with assms show ?thesis
    by (auto simp: read_terrain_def split: sum.splits)
next
  case (Some h)
  have mat_ok: "length (mMeshes s2) = 1 \<and> length (mMaterials s2) = 1 \<and> mFlags s2 = mFlags scene"
    if "CreateMaterial fp col mBuffer iFileSize 84 (output_mesh fp h scene) = Ok c s2"
    for c s2
    using CreateMaterial_Ok [OF that _ Some] by (auto simp: output_mesh_def)
  from assms Some show ?thesis
    by (auto simp: read_terrain_def Let_def
        split: sum.splits if_splits res.splits list.splits prod.splits
        dest: mat_ok)
qed

lemma terrain_flag_set: "(w OR AI_SCENE_FLAGS_TERRAIN) AND AI_SCENE_FLAGS_TERRAIN = AI_SCENE_FLAGS_TERRAIN"
  by (simp add: bit_eq_iff bit_and_iff bit_or_iff)

lemma terrain_flag_nonzero: "AI_SCENE_FLAGS_TERRAIN \<noteq> 0"
  by (simp add: AI_SCENE_FLAGS_TERRAIN_def)

text \<open>
  C2, as the code has it. A call of \<open>InternReadFile\<close> either returns or throws one
  failure. When it returns, the scene holds exactly one mesh and one material, the
  root node \<open>terrain_root\<close> that refers to mesh 0, and the terrain flag. When it
  throws, the root node and the flags of the scene are as they were before the call:
  no root node and no terrain flag reach the caller. (The mesh and the material may
  already be in the scene at that moment; the scene is not restored.)
\<close>

theorem decode_outcome:
  "(\<forall>e s. InternReadFile fp col file scene = Throw e s \<longrightarrow>
       mRootNode s = mRootNode scene \<and> mFlags s = mFlags scene)
   \<and> (\<forall>u s. InternReadFile fp col file scene = Ok u s \<longrightarrow>
       length (mMeshes s) = 1 \<and> length (mMaterials s) = 1
       \<and> mRootNode s = Some \<lparr>mName = ''terrain_root'', node_mMeshes = [0]\<rparr>
       \<and> mFlags s AND AI_SCENE_FLAGS_TERRAIN = AI_SCENE_FLAGS_TERRAIN
       \<and> mFlags s AND AI_SCENE_FLAGS_TERRAIN \<noteq> 0)"
proof (intro conjI allI impI)
  fix e s
  assume "InternReadFile fp col file scene = Throw e s"
  then show "mRootNode s = mRootNode scene" "mFlags s = mFlags scene"
    by (auto simp: InternReadFile_def InternReadFile_HMP4_def InternReadFile_HMP5_def
        InternReadFile_HMP7_def split: option.splits if_splits res.splits
        dest: read_terrain_Throw)
next
  fix u s
  assume ok: "InternReadFile fp col file scene = Ok u s"
  then obtain s' where s': "s = s'\<lparr>mFlags := mFlags s' OR AI_SCENE_FLAGS_TERRAIN\<rparr>"
    and "length (mMeshes s') = 1 \<and> length (mMaterials s') = 1 \<and> mFlags s' = mFlags scene
       \<and> mRootNode s' = Some \<lparr>mName = ''terrain_root'', node_mMeshes = [0]\<rparr>"
    by (auto simp: InternReadFile_def InternReadFile_HMP4_def InternReadFile_HMP5_def
        InternReadFile_HMP7_def split: option.splits if_splits res.splits
        dest: read_terrain_Ok)
  then show "length (mMeshes s) = 1" "length (mMaterials s) = 1"
    "mRootNode s = Some \<lparr>mName = ''terrain_root'', node_mMeshes = [0]\<rparr>"
    "mFlags s AND AI_SCENE_FLAGS_TERRAIN = AI_SCENE_FLAGS_TERRAIN"
    "mFlags s AND AI_SCENE_FLAGS_TERRAIN \<noteq> 0"
    by (simp_all add: terrain_flag_set terrain_flag_nonzero)
qed

subsection \<open>The loop over the vertices\<close>

lemma grid_cells_nth:
  assumes "y < height" "x < width"
  shows "grid_cells height width ! (y * width + x) = (y, x)"
proof -
  have "y * width + x < height * width"
  proof -
    have "y * width + x < y * width + width" using assms(2) by simp
    also have "\<dots> = Suc y * width" by simp
    also have "\<dots> \<le> height * width" using assms(1) by (intro mult_le_mono1) simp
    finally show ?thesis .
  qed
  then show ?thesis
    using assms by (simp add: grid_cells_def product_nth)
qed

lemma load_vertices_length:
  "load_vertices body stride cells src i vs ns = Inr (vs', ns') \<Longrightarrow>
     length vs' = length vs \<and> length ns' = length ns"
  by (induction body stride cells src i vs ns rule: load_vertices.induct)
     (auto split: if_splits sum.splits)

lemma load_vertices_before:
  "load_vertices body stride cells src i vs ns = Inr (vs', ns') \<Longrightarrow> j < i \<Longrightarrow>
     vs' ! j = vs ! j \<and> ns' ! j = ns ! j"
  by (induction body stride cells src i vs ns rule: load_vertices.induct)
     (auto split: if_splits sum.splits)

lemma load_vertices_nth:
  "load_vertices body stride cells src i vs ns = Inr (vs', ns') \<Longrightarrow> k < length cells \<Longrightarrow>
     body (src + stride * k) (snd (cells ! k)) (fst (cells ! k)) = Inr (vs' ! (i + k), ns' ! (i + k))"
proof (induction body stride cells src i vs ns arbitrary: k rule: load_vertices.induct)
  case (1 body stride src i vs ns)
  then show ?case by simp
next
  case (2 body stride y x cells src i vs ns)
  from "2.prems"(1) obtain v n where
    inb: "i < length vs" "i < length ns" and b: "body src x y = Inr (v, n)"
    and rest: "load_vertices body stride cells (src + stride) (Suc i) (vs[i := v]) (ns[i := n])
                 = Inr (vs', ns')"
    by (auto split: if_splits sum.splits)
  show ?case
  proof (cases k)
    case 0
    from load_vertices_before [OF rest, of i] inb
    have "vs' ! i = v" "ns' ! i = n" by simp_all
    with 0 b show ?thesis by simp
  next
    case (Suc k')
    with "2.prems"(2) have "k' < length cells" by simp
    from inb have "i < length vs \<and> i < length ns" by simp
    from "2.IH" [OF this b refl rest \<open>k' < length cells\<close>]
    show ?thesis by (simp add: Suc add.assoc)
  qed
qed

lemma load_vertices_succeeds:
  assumes body: "\<And>src x y. src + stride \<le> L \<Longrightarrow> \<exists>v n. body src x y = Inr (v, n)"
    and "src + stride * length cells \<le> L"
    and "i + length cells \<le> length vs" and "i + length cells \<le> length ns"
  shows "\<exists>vs' ns'. load_vertices body stride cells src i vs ns = Inr (vs', ns')"
  using assms(2-)
proof (induction cells arbitrary: src i vs ns)
  case Nil
  then show ?case by simp
next
  case (Cons cell cells)
  obtain y x where cell: "cell = (y, x)" by (cases cell)
  from Cons.prems have here: "src + stride \<le> L"
    and rest: "(src + stride) + stride * length cells \<le> L" by simp_all
  from body [OF here] obtain v n where r: "body src x y = Inr (v, n)" by blast
  from Cons.prems have "Suc i + length cells \<le> length (vs[i := v])"
    "Suc i + length cells \<le> length (ns[i := n])" by simp_all
  from Cons.IH [OF rest this] Cons.prems show ?case
    by (simp add: cell r)
qed

lemma vertex_HMP5_position:
  "vertex_HMP5 fp col h mBuffer src x y = Inr (v, n) \<Longrightarrow>
     \<exists>z. read_u16 mBuffer src = Some z \<and> v = vertex_pos fp h x y z"
  by (auto simp: vertex_HMP5_def split: option.splits)

lemma vertex_HMP7_position:
  "vertex_HMP7 fp col h mBuffer src x y = Inr (v, n) \<Longrightarrow>
     \<exists>z. read_u16 mBuffer src = Some z \<and> v = vertex_pos fp h x y z"
  by (auto simp: vertex_HMP7_def split: option.splits)

text \<open>
  C8. The vertex that either loop stores for the cell \<open>(x, y)\<close> of the grid, at
  \<open>y * width + x\<close> of the array of the mesh, is computed from the height field \<open>z\<close> of
  the record \<open>y * width + x\<close> of the vertex array of the file: its \<open>x\<close> is the index \<open>x\<close>
  times the triangle size in x, its \<open>y\<close> the index \<open>y\<close> times the triangle size in y,
  and its \<open>z\<close> is \<open>((z / 65535) - 0.5) * ftrisize_x * 8.0\<close>, every operation being the
  one of the machine's \<open>float\<close>. This holds for revision 5 and for revision 7.
\<close>

theorem decoded_vertex_position:
  assumes "x < width" and "y < height"
    and "load_vertices (vertex_HMP5 fp col h mBuffer) sizeof_Vertex_HMP5
           (grid_cells height width) src 0 vs ns = Inr (vs', ns')
         \<or> load_vertices (vertex_HMP7 fp col h mBuffer) sizeof_Vertex_HMP7
           (grid_cells height width) src 0 vs ns = Inr (vs', ns')"
  shows "\<exists>z. read_u16 mBuffer (src + 4 * (y * width + x)) = Some z
           \<and> vec_x (vs' ! (y * width + x)) = f_mul fp (f_of_int fp (int x)) (ftrisize_x h)
           \<and> vec_y (vs' ! (y * width + x)) = f_mul fp (f_of_int fp (int y)) (ftrisize_y h)
           \<and> vec_z (vs' ! (y * width + x)) =
               f_mul fp
                 (f_mul fp
                    (f_sub fp (f_div fp (f_of_int fp (int z)) (f_of_int fp 65535))
                       (f_lit fp (1 / 2)))
                    (ftrisize_x h))
                 (f_lit fp 8)"
proof -
  let ?k = "y * width + x"
  have k: "?k < length (grid_cells height width)"
  proof -
    have "?k < Suc y * width" using assms(1) by simp
    also have "\<dots> \<le> height * width" using assms(2) by (intro mult_le_mono1) simp
    finally show ?thesis by (simp add: length_grid_cells)
  qed
  have cell: "grid_cells height width ! ?k = (y, x)"
    using assms(2,1) by (rule grid_cells_nth)
  from assms(3) have "\<exists>z. read_u16 mBuffer (src + 4 * ?k) = Some z
      \<and> vs' ! ?k = vertex_pos fp h x y z"
  proof
    assume "load_vertices (vertex_HMP5 fp col h mBuffer) sizeof_Vertex_HMP5
           (grid_cells height width) src 0 vs ns = Inr (vs', ns')"
    from load_vertices_nth [OF this k]
    show ?thesis
      by (auto simp: cell sizeof_Vertex_HMP5_def dest: vertex_HMP5_position)
  next
    assume "load_vertices (vertex_HMP7 fp col h mBuffer) sizeof_Vertex_HMP7
           (grid_cells height width) src 0 vs ns = Inr (vs', ns')"
    from load_vertices_nth [OF this k]
    show ?thesis
      by (auto simp: cell sizeof_Vertex_HMP7_def dest: vertex_HMP7_position)
  qed
  then show ?thesis
    by (auto simp: vertex_pos_def vertex_z_def)
qed

lemma round_f32_2: "round_f32 2 = Finite 2"
  by code_simp

lemma round_f32_4: "round_f32 4 = Finite 4"
  by code_simp

lemma round_f32_32767: "round_f32 32767 = Finite 32767"
  by code_simp

lemma round_f32_65535: "round_f32 65535 = Finite 65535"
  by code_simp

lemma round_f32_quotient: "round_f32 (32767 / 65535) = Finite (65535 / 131072)"
  by code_simp

lemma round_f32_m17: "round_f32 (- (1 / 131072)) = Finite (- (1 / 131072))"
  by code_simp

lemma round_f32_m16: "round_f32 (- (1 / 65536)) = Finite (- (1 / 65536))"
  by code_simp

lemma round_f32_m13: "round_f32 (- (1 / 8192)) = Finite (- (1 / 8192))"
  by code_simp

lemmas round_height = round_f32_2 round_f32_4 round_f32_32767 round_f32_65535
  round_f32_quotient round_f32_m17 round_f32_m16 round_f32_m13

lemma cells_2_3: "grid_cells 2 3 = [(0, 0), (0, 1), (0, 2), (1, 0), (1, 1), (1, 2)]"
  by code_simp

lemma replicate_6: "replicate 6 a = [a, a, a, a, a, a]"
  by (simp add: numeral_eq_Suc)

lemma vertex_file_grid_3x2:
  "src \<in> {120, 124, 128, 132, 136, 140} \<Longrightarrow>
   vertex_HMP5 ieee_fpu plain_collab header_3x2 file_grid_3x2 src x y
     = Inr (\<lparr>vec_x = f32_mul (round_f32 (of_nat x)) (Finite 2),
              vec_y = f32_mul (round_f32 (of_nat y)) (Finite 2),
              vec_z = Finite (- (1 / 8192))\<rparr>,
            \<lparr>vec_x = Finite 0, vec_y = Finite 0, vec_z = Finite 1\<rparr>)"
  by (auto simp: vertex_HMP5_def read_u16_def read_u8_def file_grid_3x2_def vertex_pos_def
      vertex_z_def header_3x2_def ieee_fpu_def round_consts round_height f32_sub_def
      plain_collab_def)

lemma run_file_grid_3x2:
  "load_vertices (vertex_HMP5 ieee_fpu plain_collab header_3x2 file_grid_3x2) sizeof_Vertex_HMP5
     (grid_cells 2 3) 120 0 (replicate 6 (zero_vec ieee_fpu)) (replicate 6 (zero_vec ieee_fpu))
   = Inr ([\<lparr>vec_x = Finite 0, vec_y = Finite 0, vec_z = Finite (- (1 / 8192))\<rparr>,
           \<lparr>vec_x = Finite 2, vec_y = Finite 0, vec_z = Finite (- (1 / 8192))\<rparr>,
           \<lparr>vec_x = Finite 4, vec_y = Finite 0, vec_z = Finite (- (1 / 8192))\<rparr>,
           \<lparr>vec_x = Finite 0, vec_y = Finite 2, vec_z = Finite (- (1 / 8192))\<rparr>,
           \<lparr>vec_x = Finite 2, vec_y = Finite 2, vec_z = Finite (- (1 / 8192))\<rparr>,
           \<lparr>vec_x = Finite 4, vec_y = Finite 2, vec_z = Finite (- (1 / 8192))\<rparr>],
          replicate 6 \<lparr>vec_x = Finite 0, vec_y = Finite 0, vec_z = Finite 1\<rparr>)"
  by (simp add: cells_2_3 replicate_6 sizeof_Vertex_HMP5_def vertex_file_grid_3x2
      round_consts round_height)

theorem decoded_vertex_position_witness:
  "(2 :: nat) < 3 \<and> (1 :: nat) < 2
   \<and> read_u16 file_grid_3x2 (120 + 4 * (1 * 3 + 2)) = Some 32767
   \<and> load_vertices (vertex_HMP5 ieee_fpu plain_collab header_3x2 file_grid_3x2) sizeof_Vertex_HMP5
       (grid_cells 2 3) 120 0 (replicate 6 (zero_vec ieee_fpu)) (replicate 6 (zero_vec ieee_fpu))
     = Inr ([\<lparr>vec_x = Finite 0, vec_y = Finite 0, vec_z = Finite (- (1 / 8192))\<rparr>,
           \<lparr>vec_x = Finite 2, vec_y = Finite 0, vec_z = Finite (- (1 / 8192))\<rparr>,
           \<lparr>vec_x = Finite 4, vec_y = Finite 0, vec_z = Finite (- (1 / 8192))\<rparr>,
           \<lparr>vec_x = Finite 0, vec_y = Finite 2, vec_z = Finite (- (1 / 8192))\<rparr>,
           \<lparr>vec_x = Finite 2, vec_y = Finite 2, vec_z = Finite (- (1 / 8192))\<rparr>,
           \<lparr>vec_x = Finite 4, vec_y = Finite 2, vec_z = Finite (- (1 / 8192))\<rparr>],
          replicate 6 \<lparr>vec_x = Finite 0, vec_y = Finite 0, vec_z = Finite 1\<rparr>)
   \<and> f_mul ieee_fpu
        (f_mul ieee_fpu
           (f_sub ieee_fpu (f_div ieee_fpu (f_of_int ieee_fpu (int 32767)) (f_of_int ieee_fpu 65535))
              (f_lit ieee_fpu (1 / 2)))
           (ftrisize_x header_3x2))
        (f_lit ieee_fpu 8) = Finite (- (1 / 8192))
   \<and> \<bar>- (1 / 8192) - (- (122 / 1000000))\<bar> < (1 / 1000000 :: rat)"
proof -
  have z: "read_u16 file_grid_3x2 (120 + 4 * (1 * 3 + 2)) = Some 32767"
    by (simp add: read_u16_def file_grid_3x2_def)
  from decoded_vertex_position [of 2 3 1 2, OF _ _ disjI1 [OF run_file_grid_3x2]] z
  have "f_mul ieee_fpu
        (f_mul ieee_fpu
           (f_sub ieee_fpu (f_div ieee_fpu (f_of_int ieee_fpu (int 32767)) (f_of_int ieee_fpu 65535))
              (f_lit ieee_fpu (1 / 2)))
           (ftrisize_x header_3x2))
        (f_lit ieee_fpu 8) = Finite (- (1 / 8192))"
    by simp
  with z run_file_grid_3x2 show ?thesis by simp
qed

subsection \<open>The loop over the faces\<close>

lemma u32_id: "n < 2 ^ 32 \<Longrightarrow> u32 n = n"
  by (simp add: u32_def)

lemma u32_pred_eq:
  assumes "0 < n" "n < 2 ^ 32"
  shows "u32_pred n = n - 1"
proof -
  from assms(1) have "n + (2 ^ 32 - 1) = (n - 1) + 2 ^ 32" by simp
  then have "u32_pred n = ((n - 1) + 2 ^ 32) mod 2 ^ 32"
    by (simp only: u32_pred_def u32_def)
  also have "\<dots> = (n - 1) mod 2 ^ 32" by (rule mod_add_self2)
  also have "\<dots> = n - 1" using assms(2) by (intro mod_less) simp
  finally show ?thesis .
qed

lemma upt_0_4: "[0..<4] = [0, 1, 2, 3 :: nat]"
  by code_simp

lemma corners_inside:
  assumes "o0 \<le> o1" "o1 + x + 1 < length arr"
  shows "corners arr o0 o1 x = Some [arr ! (o0 + x), arr ! (o1 + x), arr ! (o1 + x + 1), arr ! (o0 + x + 1)]"
  using assms by (simp add: corners_def)

lemma face_cell_populated:
  assumes faces: "length (fo_faces st) < nFaces"
    and inside: "(y + 1) * width + x + 1 < n"
    and n: "n \<le> upperBound" "n \<le> length (mVertices pcMesh)" "n \<le> length (mNormals pcMesh)"
      "\<And>uv. mTextureCoords0 pcMesh = Some uv \<Longrightarrow> n \<le> length uv"
    and bound: "upperBound < 2 ^ 32"
    and room: "length (fo_verts st) + 4 \<le> upperBound"
    and cur: "fo_iCurrent st + 4 \<le> upperBound"
  shows "face_cell pcMesh width upperBound nFaces y x st =
           Inr \<lparr>fo_faces = fo_faces st @ [quad (fo_iCurrent st)],
                fo_verts = fo_verts st @ cell_corners (mVertices pcMesh) width (y, x),
                fo_nors = fo_nors st @ cell_corners (mNormals pcMesh) width (y, x),
                fo_uvs = fo_uvs st @
                  (case mTextureCoords0 pcMesh of
                     None \<Rightarrow> []
                   | Some uv \<Rightarrow> cell_corners uv width (y, x)),
                fo_iCurrent = fo_iCurrent st + 4\<rparr>"
proof -
  define o0 where "o0 = y * width"
  define o1 where "o1 = (y + 1) * width"
  have le: "o0 \<le> o1" by (simp add: o0_def o1_def)
  from inside n(1) bound have small: "o0 < 2 ^ 32" "o1 < 2 ^ 32"
    by (simp_all add: o0_def o1_def)
  then have o: "u32 o0 = o0" "u32 o1 = o1"
    by (simp_all only: u32_id)
  from inside n(1) have g: "\<not> upperBound \<le> o0 + x + 1" "\<not> upperBound \<le> o1 + x + 1"
    by (simp_all add: o0_def o1_def)
  from inside n(2) have v: "o1 + x + 1 < length (mVertices pcMesh)" by (simp add: o1_def)
  from inside n(3) have nn: "o1 + x + 1 < length (mNormals pcMesh)" by (simp add: o1_def)
  have cc: "[arr ! (o0 + x), arr ! (o1 + x), arr ! (o1 + x + 1), arr ! (o0 + x + 1)]
              = cell_corners arr width (y, x)" for arr :: "'b list"
    by (simp add: cell_corners_def o0_def o1_def add.assoc)
  have cv: "corners (mVertices pcMesh) o0 o1 x
              = Some (cell_corners (mVertices pcMesh) width (y, x))"
    using corners_inside [OF le v] by (simp only: cc)
  have cn: "corners (mNormals pcMesh) o0 o1 x
              = Some (cell_corners (mNormals pcMesh) width (y, x))"
    using corners_inside [OF le nn] by (simp only: cc)
  have cu: "(case mTextureCoords0 pcMesh of None \<Rightarrow> Some []
             | Some uv \<Rightarrow> corners uv o0 o1 x)
            = Some (case mTextureCoords0 pcMesh of None \<Rightarrow> []
                    | Some uv \<Rightarrow> cell_corners uv width (y, x))"
  proof (cases "mTextureCoords0 pcMesh")
    case None
    then show ?thesis by simp
  next
    case (Some uv)
    with inside n(4) have "o1 + x + 1 < length uv" by (fastforce simp: o1_def)
    from corners_inside [OF le this] Some show ?thesis
      by (simp only: cc option.case)
  qed
  from cur bound have i: "u32 (fo_iCurrent st) = fo_iCurrent st"
    "u32 (fo_iCurrent st + 1) = fo_iCurrent st + 1"
    "u32 (fo_iCurrent st + 2) = fo_iCurrent st + 2"
    "u32 (fo_iCurrent st + 3) = fo_iCurrent st + 3"
    "u32 (fo_iCurrent st + 4) = fo_iCurrent st + 4"
    by (simp_all add: u32_id)
  have idx: "map (\<lambda>i. Some (u32 (fo_iCurrent st + i))) [0..<4] = mIndices (quad (fo_iCurrent st))"
    using i by (simp add: quad_def upt_0_4)
  have q: "\<lparr>mNumIndices = 4, mIndices = mIndices (quad (fo_iCurrent st))\<rparr> = quad (fo_iCurrent st)"
    by (simp add: quad_def)
  show ?thesis
    unfolding face_cell_def Let_def o0_def [symmetric] o1_def [symmetric] o
    using faces g room by (simp add: cv cn cu i idx q)
qed

lemma build_faces_populated:
  assumes inside: "\<forall>(y, x) \<in> set cells. (y + 1) * width + x + 1 < n"
    and n: "n \<le> upperBound" "n \<le> length (mVertices pcMesh)" "n \<le> length (mNormals pcMesh)"
      "\<And>uv. mTextureCoords0 pcMesh = Some uv \<Longrightarrow> n \<le> length uv"
    and bound: "upperBound < 2 ^ 32"
    and faces: "length (fo_faces st) + length cells \<le> nFaces"
    and room: "length (fo_verts st) + 4 * length cells \<le> upperBound"
    and cur: "fo_iCurrent st + 4 * length cells \<le> upperBound"
  shows "build_faces pcMesh width upperBound nFaces cells st =
           Inr \<lparr>fo_faces = fo_faces st @ map (\<lambda>k. quad (fo_iCurrent st + 4 * k)) [0..<length cells],
                fo_verts = fo_verts st @ concat (map (cell_corners (mVertices pcMesh) width) cells),
                fo_nors = fo_nors st @ concat (map (cell_corners (mNormals pcMesh) width) cells),
                fo_uvs = fo_uvs st @
                  (case mTextureCoords0 pcMesh of
                     None \<Rightarrow> []
                   | Some uv \<Rightarrow> concat (map (cell_corners uv width) cells)),
                fo_iCurrent = fo_iCurrent st + 4 * length cells\<rparr>"
  using inside faces room cur
proof (induction cells arbitrary: st)
  case Nil
  then show ?case by (simp split: option.splits)
next
  case (Cons cell cells)
  obtain y x where cell: "cell = (y, x)" by (cases cell)
  let ?st = "\<lparr>fo_faces = fo_faces st @ [quad (fo_iCurrent st)],
                fo_verts = fo_verts st @ cell_corners (mVertices pcMesh) width (y, x),
                fo_nors = fo_nors st @ cell_corners (mNormals pcMesh) width (y, x),
                fo_uvs = fo_uvs st @
                  (case mTextureCoords0 pcMesh of
                     None \<Rightarrow> []
                   | Some uv \<Rightarrow> cell_corners uv width (y, x)),
                fo_iCurrent = fo_iCurrent st + 4\<rparr>"
  have step: "face_cell pcMesh width upperBound nFaces y x st = Inr ?st"
  proof (rule face_cell_populated [OF _ _ n bound])
    show "length (fo_faces st) < nFaces" using Cons.prems(2) by simp
    show "(y + 1) * width + x + 1 < n" using Cons.prems(1) by (simp add: cell)
    show "length (fo_verts st) + 4 \<le> upperBound" using Cons.prems(3) by simp
    show "fo_iCurrent st + 4 \<le> upperBound" using Cons.prems(4) by simp
  qed
  have rest: "build_faces pcMesh width upperBound nFaces cells ?st =
           Inr \<lparr>fo_faces = fo_faces ?st @ map (\<lambda>k. quad (fo_iCurrent ?st + 4 * k)) [0..<length cells],
                fo_verts = fo_verts ?st @ concat (map (cell_corners (mVertices pcMesh) width) cells),
                fo_nors = fo_nors ?st @ concat (map (cell_corners (mNormals pcMesh) width) cells),
                fo_uvs = fo_uvs ?st @
                  (case mTextureCoords0 pcMesh of
                     None \<Rightarrow> []
                   | Some uv \<Rightarrow> concat (map (cell_corners uv width) cells)),
                fo_iCurrent = fo_iCurrent ?st + 4 * length cells\<rparr>"
  proof (rule Cons.IH)
    show "\<forall>(y, x) \<in> set cells. (y + 1) * width + x + 1 < n" using Cons.prems(1) by simp
    show "length (fo_faces ?st) + length cells \<le> nFaces" using Cons.prems(2) by simp
    show "length (fo_verts ?st) + 4 * length cells \<le> upperBound"
      using Cons.prems(3) by (simp add: cell_corners_def)
    show "fo_iCurrent ?st + 4 * length cells \<le> upperBound" using Cons.prems(4) by simp
  qed
  have quads: "map (\<lambda>k. quad (fo_iCurrent st + 4 * k)) [0..<Suc (length cells)]
      = quad (fo_iCurrent st) # map (\<lambda>k. quad (fo_iCurrent st + 4 + 4 * k)) [0..<length cells]"
    by (simp add: map_upt_Suc add.assoc del: upt_Suc)
  show ?case
    unfolding cell build_faces.simps step sum.case rest
    by (simp add: quads del: upt_Suc split: option.splits)
qed

lemma concat_map_nth:
  assumes "\<And>c. length (f c) = m" "k < length cells" "j < m"
  shows "concat (map f cells) ! (m * k + j) = f (cells ! k) ! j"
  using assms(2)
proof (induction cells arbitrary: k)
  case Nil
  then show ?case by simp
next
  case (Cons c cells)
  show ?case
  proof (cases k)
    case 0
    with assms(1,3) show ?thesis by (simp add: nth_append)
  next
    case (Suc k')
    with Cons.prems have k': "k' < length cells" by simp
    have "m * k + j = length (f c) + (m * k' + j)" by (simp add: assms(1) Suc)
    then have "concat (map f (c # cells)) ! (m * k + j) = concat (map f cells) ! (m * k' + j)"
      by (simp only: list.map concat.simps nth_append_length_plus)
    with Cons.IH [OF k'] Suc show ?thesis by simp
  qed
qed

lemma length_concat_map:
  assumes "\<And>c. length (f c) = m"
  shows "length (concat (map f cells)) = m * length cells"
  by (induction cells) (simp_all add: assms)

lemma length_cell_corners [simp]: "length (cell_corners grid width cell) = 4"
  by (simp add: cell_corners_def split: prod.splits)

lemma filled_full: "length written = n \<Longrightarrow> filled n d written = written"
  by (simp add: filled_def)

lemma quads_bound:
  assumes "2 \<le> (width :: nat)" "2 \<le> (height :: nat)"
  shows "width * height \<le> (width - 1) * (height - 1) * 4"
proof -
  from assms(1) have "width = (width - 2) + 2" by simp
  then obtain a where a: "width = a + 2" ..
  from assms(2) have "height = (height - 2) + 2" by simp
  then obtain b where b: "height = b + 2" ..
  have "(a + 2) * (b + 2) \<le> (a + 1) * (b + 1) * 4"
    by (simp add: algebra_simps)
  then show ?thesis by (simp add: a b)
qed

lemma set_grid_cells: "(y, x) \<in> set (grid_cells height width) \<longleftrightarrow> y < height \<and> x < width"
  by (auto simp: grid_cells_def)

lemma cell_index_bound:
  assumes "(y :: nat) < height" "(x :: nat) < width"
  shows "y * width + x < height * width"
proof -
  have "y * width + x < Suc y * width" using assms(2) by simp
  also have "\<dots> \<le> height * width" using assms(1) by (intro mult_le_mono1) simp
  finally show ?thesis .
qed

lemma last_corner_inside:
  assumes "(y :: nat) < height - 1" "(x :: nat) < width - 1"
  shows "(y + 1) * width + x + 1 < width * height"
proof -
  from assms have "y + 1 < height" "x + 1 < width" by simp_all
  from cell_index_bound [OF this] show ?thesis by (simp add: mult.commute add.assoc)
qed

lemma CreateOutputFaceList_grid:
  assumes w: "2 \<le> width" and h: "2 \<le> height"
    and fits: "4 * (width * height) < 2 ^ 32"
    and verts: "width * height \<le> length (mVertices pcMesh)"
    and nors: "width * height \<le> length (mNormals pcMesh)"
    and uvs: "\<And>uv. mTextureCoords0 pcMesh = Some uv \<Longrightarrow> width * height \<le> length uv"
  shows "CreateOutputFaceList fp width height pcMesh =
           Inr (pcMesh\<lparr>mNumFaces := (width - 1) * (height - 1),
                  mFaces := map (\<lambda>k. quad (4 * k)) [0..<(width - 1) * (height - 1)],
                  mNumVertices := (width - 1) * (height - 1) * 4,
                  mVertices := concat (map (cell_corners (mVertices pcMesh) width)
                                  (grid_cells (height - 1) (width - 1))),
                  mNormals := concat (map (cell_corners (mNormals pcMesh) width)
                                  (grid_cells (height - 1) (width - 1))),
                  mTextureCoords0 :=
                    (case mTextureCoords0 pcMesh of
                       None \<Rightarrow> None
                     | Some uv \<Rightarrow> Some (concat (map (cell_corners uv width)
                                  (grid_cells (height - 1) (width - 1)))))\<rparr>)"
proof -
  define N where "N = (width - 1) * (height - 1)"
  define cells where "cells = grid_cells (height - 1) (width - 1)"
  let ?st0 = "\<lparr>fo_faces = [], fo_verts = [], fo_nors = [], fo_uvs = [], fo_iCurrent = 0\<rparr>
                :: 'a face_out"
  have le_w: "width \<le> width * height" and le_h: "height \<le> width * height"
    using w h by simp_all
  from fits have wh: "width * height < 2 ^ 32" by (simp add: mult.commute)
  have small: "width < 2 ^ 32" "height < 2 ^ 32"
    using le_w wh apply (rule le_less_trans)
    using le_h wh apply (rule le_less_trans)
    done
  have pw: "u32_pred width = width - 1" using w small by (intro u32_pred_eq) simp_all
  have ph: "u32_pred height = height - 1" using h small by (intro u32_pred_eq) simp_all
  have NW: "N \<le> width * height" unfolding N_def by (intro mult_mono) simp_all
  have N4: "N * 4 < 2 ^ 32" using NW fits by linarith
  have N: "N < 2 ^ 32" using N4 by linarith
  have nF: "u32 N = N" using N by (rule u32_id)
  have nV: "u32 (N * 4) = N * 4" using N4 by (rule u32_id)
  have len: "length cells = N"
    by (simp add: cells_def N_def length_grid_cells mult.commute)
  have run: "build_faces pcMesh width (N * 4) N cells ?st0 =
           Inr \<lparr>fo_faces = fo_faces ?st0 @ map (\<lambda>k. quad (fo_iCurrent ?st0 + 4 * k)) [0..<length cells],
                fo_verts = fo_verts ?st0 @ concat (map (cell_corners (mVertices pcMesh) width) cells),
                fo_nors = fo_nors ?st0 @ concat (map (cell_corners (mNormals pcMesh) width) cells),
                fo_uvs = fo_uvs ?st0 @
                  (case mTextureCoords0 pcMesh of
                     None \<Rightarrow> []
                   | Some uv \<Rightarrow> concat (map (cell_corners uv width) cells)),
                fo_iCurrent = fo_iCurrent ?st0 + 4 * length cells\<rparr>"
  proof (rule build_faces_populated [where n = "width * height"])
    show "\<forall>(y, x) \<in> set cells. (y + 1) * width + x + 1 < width * height"
    proof (intro ballI, clarify)
      fix y x
      assume "(y, x) \<in> set cells"
      then have "y < height - 1" "x < width - 1" by (simp_all add: cells_def set_grid_cells)
      then show "(y + 1) * width + x + 1 < width * height" by (rule last_corner_inside)
    qed
    show "width * height \<le> N * 4" unfolding N_def using w h by (rule quads_bound)
    show "width * height \<le> length (mVertices pcMesh)" by (rule verts)
    show "width * height \<le> length (mNormals pcMesh)" by (rule nors)
    show "width * height \<le> length uv" if "mTextureCoords0 pcMesh = Some uv" for uv
      using that by (rule uvs)
    show "N * 4 < 2 ^ 32" by (rule N4)
    show "length (fo_faces ?st0) + length cells \<le> N" by (simp add: len)
    show "length (fo_verts ?st0) + 4 * length cells \<le> N * 4" by (simp add: len)
    show "fo_iCurrent ?st0 + 4 * length cells \<le> N * 4" by (simp add: len)
  qed
  have lens: "length (concat (map (cell_corners arr width) cells)) = N * 4"
    for arr :: "'a aiVector3D list"
    by (simp add: length_concat_map [where m = 4] len)
  have full: "filled N new_aiFace (map (\<lambda>k. quad (4 * k)) [0..<N])
                 = map (\<lambda>k. quad (4 * k)) [0..<N]"
    "filled (N * 4) (zero_vec fp) (concat (map (cell_corners arr width) cells))
       = concat (map (cell_corners arr width) cells)" for arr :: "'a aiVector3D list"
    using lens by (simp_all add: filled_full)
  have "CreateOutputFaceList fp width height pcMesh =
      (case build_faces pcMesh width (N * 4) N cells ?st0 of
           Inl e \<Rightarrow> Inl e
         | Inr st \<Rightarrow>
             Inr (pcMesh\<lparr>mNumFaces := N,
                    mFaces := filled N new_aiFace (fo_faces st),
                    mNumVertices := N * 4,
                    mVertices := filled (N * 4) (zero_vec fp) (fo_verts st),
                    mNormals := filled (N * 4) (zero_vec fp) (fo_nors st),
                    mTextureCoords0 :=
                      (case mTextureCoords0 pcMesh of
                         None \<Rightarrow> None
                       | Some _ \<Rightarrow> Some (filled (N * 4) (zero_vec fp) (fo_uvs st)))\<rparr>))"
    by (simp only: CreateOutputFaceList_def Let_def pw ph N_def [symmetric] cells_def [symmetric]
        nF nV)
  also have "\<dots> = Inr (pcMesh\<lparr>mNumFaces := N,
                  mFaces := map (\<lambda>k. quad (4 * k)) [0..<N],
                  mNumVertices := N * 4,
                  mVertices := concat (map (cell_corners (mVertices pcMesh) width) cells),
                  mNormals := concat (map (cell_corners (mNormals pcMesh) width) cells),
                  mTextureCoords0 :=
                    (case mTextureCoords0 pcMesh of
                       None \<Rightarrow> None
                     | Some uv \<Rightarrow> Some (concat (map (cell_corners uv width) cells)))\<rparr>)"
    unfolding run by (simp add: len full split: option.splits)
  finally show ?thesis unfolding N_def cells_def .
qed

text \<open>
  C9. For a grid of at least two by two vertices that lies inside the arrays of the
  mesh (and whose duplicated arrays can be counted in an \<open>unsigned int\<close>),
  \<open>CreateOutputFaceList\<close> returns a mesh with exactly \<open>(width - 1) * (height - 1)\<close>
  faces and exactly four entries for each face in the new arrays of vertices and of
  normals. The face of the cell \<open>(x, y)\<close> is face \<open>y * (width - 1) + x\<close>; it is a quad
  whose indices are the four consecutive entries from four times its number on, so no
  two faces share an entry, and these entries are copies of the vertices (and of the
  normals) at the corners \<open>(x, y)\<close>, \<open>(x, y + 1)\<close>, \<open>(x + 1, y + 1)\<close>, \<open>(x + 1, y)\<close> of the
  grid.
\<close>

theorem quad_faces_of_a_grid:
  assumes w: "2 \<le> width" and h: "2 \<le> height"
    and fits: "4 * (width * height) < 2 ^ 32"
    and verts: "width * height \<le> length (mVertices pcMesh)"
    and nors: "width * height \<le> length (mNormals pcMesh)"
    and uvs: "\<forall>uv. mTextureCoords0 pcMesh = Some uv \<longrightarrow> width * height \<le> length uv"
  shows "\<exists>m. CreateOutputFaceList fp width height pcMesh = Inr m
           \<and> mNumFaces m = (width - 1) * (height - 1)
           \<and> length (mFaces m) = (width - 1) * (height - 1)
           \<and> mNumVertices m = 4 * mNumFaces m
           \<and> length (mVertices m) = 4 * mNumFaces m
           \<and> length (mNormals m) = 4 * mNumFaces m
           \<and> (\<forall>x y j. x < width - 1 \<and> y < height - 1 \<and> j < 4 \<longrightarrow>
                 mFaces m ! (y * (width - 1) + x) = quad (4 * (y * (width - 1) + x))
               \<and> mVertices m ! (4 * (y * (width - 1) + x) + j)
                   = cell_corners (mVertices pcMesh) width (y, x) ! j
               \<and> mNormals m ! (4 * (y * (width - 1) + x) + j)
                   = cell_corners (mNormals pcMesh) width (y, x) ! j)"
proof -
  define cells where "cells = grid_cells (height - 1) (width - 1)"
  define m where "m = pcMesh\<lparr>mNumFaces := (width - 1) * (height - 1),
                  mFaces := map (\<lambda>k. quad (4 * k)) [0..<(width - 1) * (height - 1)],
                  mNumVertices := (width - 1) * (height - 1) * 4,
                  mVertices := concat (map (cell_corners (mVertices pcMesh) width) cells),
                  mNormals := concat (map (cell_corners (mNormals pcMesh) width) cells),
                  mTextureCoords0 :=
                    (case mTextureCoords0 pcMesh of
                       None \<Rightarrow> None
                     | Some uv \<Rightarrow> Some (concat (map (cell_corners uv width) cells)))\<rparr>"
  have run: "CreateOutputFaceList fp width height pcMesh = Inr m"
    unfolding m_def cells_def
    using w h fits verts nors uvs by (intro CreateOutputFaceList_grid) simp_all
  have len: "length cells = (width - 1) * (height - 1)"
    by (simp add: cells_def length_grid_cells mult.commute)
  have counts: "mNumFaces m = (width - 1) * (height - 1)"
    "length (mFaces m) = (width - 1) * (height - 1)"
    "mNumVertices m = 4 * mNumFaces m"
    "length (mVertices m) = 4 * mNumFaces m"
    "length (mNormals m) = 4 * mNumFaces m"
    by (simp_all add: m_def length_concat_map [where m = 4] len)
  have each: "mFaces m ! (y * (width - 1) + x) = quad (4 * (y * (width - 1) + x))
               \<and> mVertices m ! (4 * (y * (width - 1) + x) + j)
                   = cell_corners (mVertices pcMesh) width (y, x) ! j
               \<and> mNormals m ! (4 * (y * (width - 1) + x) + j)
                   = cell_corners (mNormals pcMesh) width (y, x) ! j"
    if "x < width - 1" "y < height - 1" "j < 4" for x y j
  proof -
    let ?k = "y * (width - 1) + x"
    have k: "?k < length cells"
      using cell_index_bound [OF that(2,1)] by (simp add: len mult.commute)
    have cell: "cells ! ?k = (y, x)"
      unfolding cells_def using that(2,1) by (rule grid_cells_nth)
    have "mFaces m ! ?k = quad (4 * ?k)"
      using k by (simp add: m_def len)
    moreover have "mVertices m ! (4 * ?k + j) = cell_corners (mVertices pcMesh) width (y, x) ! j"
    proof -
      have mv: "mVertices m = concat (map (cell_corners (mVertices pcMesh) width) cells)"
        by (simp add: m_def)
      have "concat (map (cell_corners (mVertices pcMesh) width) cells) ! (4 * ?k + j)
              = cell_corners (mVertices pcMesh) width (cells ! ?k) ! j"
        using k that(3) by (intro concat_map_nth) simp_all
      then show ?thesis by (simp only: mv cell)
    qed
    moreover have "mNormals m ! (4 * ?k + j) = cell_corners (mNormals pcMesh) width (y, x) ! j"
    proof -
      have mn: "mNormals m = concat (map (cell_corners (mNormals pcMesh) width) cells)"
        by (simp add: m_def)
      have "concat (map (cell_corners (mNormals pcMesh) width) cells) ! (4 * ?k + j)
              = cell_corners (mNormals pcMesh) width (cells ! ?k) ! j"
        using k that(3) by (intro concat_map_nth) simp_all
      then show ?thesis by (simp only: mn cell)
    qed
    ultimately show ?thesis by simp
  qed
  from run counts each show ?thesis by blast
qed

theorem quad_faces_of_a_grid_witness:
  "(2 :: nat) \<le> 3 \<and> (2 :: nat) \<le> 2 \<and> 4 * (3 * 2) < (2 ^ 32 :: nat)
   \<and> 3 * 2 \<le> length (mVertices mesh_grid_3x2) \<and> 3 * 2 \<le> length (mNormals mesh_grid_3x2)
   \<and> mTextureCoords0 mesh_grid_3x2 = None
   \<and> (\<exists>m. CreateOutputFaceList ieee_fpu 3 2 mesh_grid_3x2 = Inr m
          \<and> mNumFaces m = 2 \<and> length (mFaces m) = 2
          \<and> length (mVertices m) = 8 \<and> length (mNormals m) = 8
          \<and> mFaces m ! 1 = quad 4
          \<and> mVertices m ! 4 = \<lparr>vec_x = Finite 2, vec_y = Finite 0, vec_z = Finite (- (1 / 8192))\<rparr>
          \<and> mVertices m ! 5 = \<lparr>vec_x = Finite 2, vec_y = Finite 2, vec_z = Finite (- (1 / 8192))\<rparr>
          \<and> mVertices m ! 6 = \<lparr>vec_x = Finite 4, vec_y = Finite 2, vec_z = Finite (- (1 / 8192))\<rparr>
          \<and> mVertices m ! 7 = \<lparr>vec_x = Finite 4, vec_y = Finite 0, vec_z = Finite (- (1 / 8192))\<rparr>)"
proof -
  have lens: "3 * 2 \<le> length (mVertices mesh_grid_3x2)" "3 * 2 \<le> length (mNormals mesh_grid_3x2)"
    and none: "mTextureCoords0 mesh_grid_3x2 = None"
    by (simp_all add: mesh_grid_3x2_def new_aiMesh_def)
  have uvs: "\<forall>uv. mTextureCoords0 mesh_grid_3x2 = Some uv \<longrightarrow> 3 * 2 \<le> length uv"
    by (simp add: none)
  have dims: "(2 :: nat) \<le> 3" "(2 :: nat) \<le> 2" "4 * (3 * 2) < (2 ^ 32 :: nat)"
    by simp_all
  from quad_faces_of_a_grid [of 3 2 mesh_grid_3x2 ieee_fpu, OF dims lens uvs]
  obtain m where run: "CreateOutputFaceList ieee_fpu 3 2 mesh_grid_3x2 = Inr m"
    and counts: "mNumFaces m = (3 - 1) * (2 - 1)" "length (mFaces m) = (3 - 1) * (2 - 1)"
      "length (mVertices m) = 4 * mNumFaces m" "length (mNormals m) = 4 * mNumFaces m"
    and each: "\<forall>x y j. x < 3 - 1 \<and> y < 2 - 1 \<and> j < 4 \<longrightarrow>
                 mFaces m ! (y * (3 - 1) + x) = quad (4 * (y * (3 - 1) + x))
               \<and> mVertices m ! (4 * (y * (3 - 1) + x) + j)
                   = cell_corners (mVertices mesh_grid_3x2) 3 (y, x) ! j
               \<and> mNormals m ! (4 * (y * (3 - 1) + x) + j)
                   = cell_corners (mNormals mesh_grid_3x2) 3 (y, x) ! j"
    by blast
  from each [rule_format, of 1 0 0] each [rule_format, of 1 0 1]
    each [rule_format, of 1 0 2] each [rule_format, of 1 0 3]
  have "mFaces m ! 1 = quad 4"
    "mVertices m ! 4 = \<lparr>vec_x = Finite 2, vec_y = Finite 0, vec_z = Finite (- (1 / 8192))\<rparr>"
    "mVertices m ! 5 = \<lparr>vec_x = Finite 2, vec_y = Finite 2, vec_z = Finite (- (1 / 8192))\<rparr>"
    "mVertices m ! 6 = \<lparr>vec_x = Finite 4, vec_y = Finite 2, vec_z = Finite (- (1 / 8192))\<rparr>"
    "mVertices m ! 7 = \<lparr>vec_x = Finite 4, vec_y = Finite 0, vec_z = Finite (- (1 / 8192))\<rparr>"
    by (simp_all add: cell_corners_def mesh_grid_3x2_def)
  with run counts lens none show ?thesis by simp
qed

subsection \<open>A whole run\<close>

lemma fill_uv_succeeds:
  "i + length cells \<le> length uv \<Longrightarrow>
     \<exists>uv'. fill_uv fp fX fY cells i uv = Inr uv' \<and> length uv' = length uv"
proof (induction cells arbitrary: i uv)
  case Nil
  then show ?case by simp
next
  case (Cons cell cells)
  obtain y x where cell: "cell = (y, x)" by (cases cell)
  from Cons.prems have "i < length uv" by simp
  moreover from Cons.prems have
    "Suc i + length cells \<le> length (uv[i := \<lparr>vec_x = f_mul fp fX (f_of_int fp (int x)),
                       vec_y = f_mul fp fY (f_of_int fp (int y)),
                       vec_z = f_lit fp 0\<rparr>])" by simp
  from Cons.IH [OF this] have "\<exists>uv'. fill_uv fp fX fY cells (Suc i)
      (uv[i := \<lparr>vec_x = f_mul fp fX (f_of_int fp (int x)),
                       vec_y = f_mul fp fY (f_of_int fp (int y)),
                       vec_z = f_lit fp 0\<rparr>]) = Inr uv' \<and> length uv' = length uv"
    by simp
  ultimately show ?case by (simp add: cell)
qed

lemma GenerateTextureCoords_succeeds:
  assumes "\<And>uv. mTextureCoords0 pcMesh = Some uv \<Longrightarrow> height * width \<le> length uv"
  shows "\<exists>m. GenerateTextureCoords fp width height pcMesh = Inr m
           \<and> mVertices m = mVertices pcMesh \<and> mNormals m = mNormals pcMesh
           \<and> (case mTextureCoords0 pcMesh of
                 None \<Rightarrow> mTextureCoords0 m = None
               | Some uv \<Rightarrow> \<exists>uv'. mTextureCoords0 m = Some uv' \<and> length uv' = length uv)"
proof (cases "mTextureCoords0 pcMesh")
  case None
  then show ?thesis by (simp add: GenerateTextureCoords_def)
next
  case (Some uv)
  show ?thesis
  proof (cases "height = 0 \<or> width = 0")
    case True
    with Some show ?thesis by (auto simp: GenerateTextureCoords_def)
  next
    case False
    from assms [OF Some] have "0 + length (grid_cells height width) \<le> length uv"
      by (simp add: length_grid_cells)
    from fill_uv_succeeds [OF this] obtain uv' where
      "fill_uv fp
         (f_add fp (f_div fp (f_lit fp 1) (f_of_int fp (int width)))
            (f_div fp (f_div fp (f_lit fp 1) (f_of_int fp (int width))) (f_of_int fp (int width))))
         (f_add fp (f_div fp (f_lit fp 1) (f_of_int fp (int height)))
            (f_div fp (f_div fp (f_lit fp 1) (f_of_int fp (int height))) (f_of_int fp (int height))))
         (grid_cells height width) 0 uv = Inr uv'" "length uv' = length uv"
      by blast
    with Some False show ?thesis
      by (simp add: GenerateTextureCoords_def Let_def)
  qed
qed

lemma product_Nil_right: "List.product xs [] = []"
  by (induction xs) simp_all

lemma CreateOutputFaceList_degenerate:
  assumes "width = 1 \<or> height = 1"
  shows "CreateOutputFaceList fp width height pcMesh =
           Inr (pcMesh\<lparr>mNumFaces := 0, mFaces := [], mNumVertices := 0,
                  mVertices := [], mNormals := [],
                  mTextureCoords0 :=
                    (case mTextureCoords0 pcMesh of None \<Rightarrow> None | Some _ \<Rightarrow> Some [])\<rparr>)"
proof -
  have one: "u32_pred (Suc 0) = 0" by (simp add: u32_pred_def u32_def)
  have zero: "u32 0 = 0" by (simp add: u32_def)
  from assms have cells: "grid_cells (u32_pred height) (u32_pred width) = []"
    by (auto simp: grid_cells_def one product_Nil_right)
  from assms have n: "u32_pred width * u32_pred height = 0"
    by (auto simp: one)
  show ?thesis
    by (simp add: CreateOutputFaceList_def Let_def cells n zero filled_def split: option.splits)
qed

lemma read_terrain_run:
  assumes "ValidateHeader_HMP457 fp mBuffer iFileSize = Inr ()"
    and "header fp mBuffer = Some h" and "0 \<le> numverts h"
    and "CreateMaterial fp col mBuffer iFileSize 84 (output_mesh fp h scene) = Ok c scene2"
    and "c + 36 + cs * grid_height fp h * grid_width fp h \<le> iFileSize"
    and "mMeshes scene2 = [m2]"
    and "load_vertices (body h mBuffer) stride (grid_cells (grid_height fp h) (grid_width fp h))
           (c + 36) 0 (mVertices m2) (mNormals m2) = Inr (vs, ns)"
    and "(if numskins h \<noteq> 0
          then GenerateTextureCoords fp (grid_width fp h) (grid_height fp h)
                 (m2\<lparr>mVertices := vs, mNormals := ns\<rparr>)
          else Inr (m2\<lparr>mVertices := vs, mNormals := ns\<rparr>)) = Inr m3"
    and "CreateOutputFaceList fp (grid_width fp h) (grid_height fp h) m3 = Inr m4"
  shows "read_terrain fp col body cs stride mBuffer iFileSize scene =
           Ok () (scene2\<lparr>mMeshes := [m4],
                    mRootNode := Some \<lparr>mName = ''terrain_root'', node_mMeshes = [0]\<rparr>\<rparr>)"
  using assms
  by (simp add: read_terrain_def Let_def SizeCheck_ok set_mesh0_def)

lemma read_terrain_degenerate:
  assumes body: "\<And>src x y. src + stride \<le> length mBuffer \<Longrightarrow> \<exists>v n. body h mBuffer src x y = Inr (v, n)"
    and stride: "stride \<le> cs"
    and valid: "ValidateHeader_HMP457 fp mBuffer iFileSize = Inr ()"
    and hdr: "header fp mBuffer = Some h" and nv: "0 \<le> numverts h"
    and mat: "CreateMaterial fp col mBuffer iFileSize 84 (output_mesh fp h scene) = Ok c scene2"
    and size: "c + 36 + cs * (grid_height fp h * grid_width fp h) \<le> iFileSize"
      "iFileSize \<le> length mBuffer"
    and alloc: "grid_height fp h * grid_width fp h \<le> nat (numverts h)"
    and deg: "grid_width fp h = 1 \<or> grid_height fp h = 1"
  shows "\<exists>s m. read_terrain fp col body cs stride mBuffer iFileSize scene = Ok () s
           \<and> mMeshes s = [m] \<and> mNumFaces m = 0 \<and> mFaces m = [] \<and> mNumVertices m = 0
           \<and> mVertices m = [] \<and> mNormals m = []"
proof -
  let ?n = "nat (numverts h)"
  let ?cells = "grid_cells (grid_height fp h) (grid_width fp h)"
  have "mMeshes (output_mesh fp h scene) =
      [new_aiMesh\<lparr>mMaterialIndex := 0, mVertices := replicate ?n (zero_vec fp),
         mNormals := replicate ?n (zero_vec fp)\<rparr>]"
    by (simp add: output_mesh_def)
  from CreateMaterial_Ok [OF mat this hdr] obtain m2 where m2: "mMeshes scene2 = [m2]"
    and v2: "mVertices m2 = replicate ?n (zero_vec fp)"
    and n2: "mNormals m2 = replicate ?n (zero_vec fp)"
    and t2: "mTextureCoords0 m2 =
               (if numskins h \<noteq> 0 then Some (replicate ?n (zero_vec fp)) else None)"
    by (auto simp: new_aiMesh_def)
  have "stride * (grid_height fp h * grid_width fp h) \<le> cs * (grid_height fp h * grid_width fp h)"
    using stride by (rule mult_le_mono1)
  with size have ext: "(c + 36) + stride * length ?cells \<le> length mBuffer"
    unfolding length_grid_cells by linarith
  from alloc have room: "0 + length ?cells \<le> length (mVertices m2)"
    "0 + length ?cells \<le> length (mNormals m2)"
    by (simp_all add: v2 n2 length_grid_cells)
  from load_vertices_succeeds [of stride "length mBuffer" "body h mBuffer", OF body ext room]
  obtain vs ns where load: "load_vertices (body h mBuffer) stride ?cells (c + 36) 0
      (mVertices m2) (mNormals m2) = Inr (vs, ns)"
    by blast
  have "\<exists>m3. (if numskins h \<noteq> 0
          then GenerateTextureCoords fp (grid_width fp h) (grid_height fp h)
                 (m2\<lparr>mVertices := vs, mNormals := ns\<rparr>)
          else Inr (m2\<lparr>mVertices := vs, mNormals := ns\<rparr>)) = Inr m3"
  proof (cases "numskins h = 0")
    case True
    then show ?thesis by simp
  next
    case False
    have fits: "grid_height fp h * grid_width fp h \<le> length uv"
      if "mTextureCoords0 (m2\<lparr>mVertices := vs, mNormals := ns\<rparr>) = Some uv" for uv
      using that alloc False by (auto simp: t2)
    from GenerateTextureCoords_succeeds
      [of "m2\<lparr>mVertices := vs, mNormals := ns\<rparr>" "grid_height fp h" "grid_width fp h" fp,
        OF fits]
    show ?thesis using False by auto
  qed
  then obtain m3 where tex: "(if numskins h \<noteq> 0
          then GenerateTextureCoords fp (grid_width fp h) (grid_height fp h)
                 (m2\<lparr>mVertices := vs, mNormals := ns\<rparr>)
          else Inr (m2\<lparr>mVertices := vs, mNormals := ns\<rparr>)) = Inr m3" ..
  note faces = CreateOutputFaceList_degenerate [OF deg, of fp m3]
  from size(1) have "c + 36 + cs * grid_height fp h * grid_width fp h \<le> iFileSize"
    by (simp add: mult.assoc)
  from read_terrain_run [where body = body and stride = stride, OF valid hdr nv mat this m2 load tex faces]
  show ?thesis by simp
qed

text \<open>
  C10. When the header is valid and the grid it yields is one vertex wide or one
  vertex high, both revisions decode the file without an error, provided the rest of
  the file is in order: the material is created, the vertex array lies inside the
  file, and the grid has no more cells than the \<open>numverts\<close> entries the arrays of the
  mesh were allocated with. The mesh of the scene then has no face and no vertex: the
  decoded grid is dropped by the assembly of the faces.
\<close>

theorem degenerate_grid_gives_empty_mesh:
  assumes valid: "ValidateHeader_HMP457 fp mBuffer iFileSize = Inr ()"
    and hdr: "header fp mBuffer = Some h" and nv: "0 \<le> numverts h"
    and mat: "CreateMaterial fp col mBuffer iFileSize 84 (output_mesh fp h scene) = Ok c scene2"
    and size: "c + 36 + 4 * (grid_height fp h * grid_width fp h) \<le> iFileSize"
      "iFileSize \<le> length mBuffer"
    and alloc: "grid_height fp h * grid_width fp h \<le> nat (numverts h)"
    and deg: "grid_width fp h = 1 \<or> grid_height fp h = 1"
  shows "(\<exists>s m. InternReadFile_HMP5 fp col mBuffer iFileSize scene = Ok () s
            \<and> mMeshes s = [m] \<and> mNumFaces m = 0 \<and> mFaces m = [] \<and> mNumVertices m = 0
            \<and> mVertices m = [] \<and> mNormals m = [])
       \<and> (\<exists>s m. InternReadFile_HMP7 fp col mBuffer iFileSize scene = Ok () s
            \<and> mMeshes s = [m] \<and> mNumFaces m = 0 \<and> mFaces m = [] \<and> mNumVertices m = 0
            \<and> mVertices m = [] \<and> mNormals m = [])"
proof
  have size7: "c + 36 + sizeof_Vertex_HMP7 * (grid_height fp h * grid_width fp h) \<le> iFileSize"
    using size(1) by (simp add: sizeof_Vertex_HMP7_def)
  show "\<exists>s m. InternReadFile_HMP5 fp col mBuffer iFileSize scene = Ok () s
            \<and> mMeshes s = [m] \<and> mNumFaces m = 0 \<and> mFaces m = [] \<and> mNumVertices m = 0
            \<and> mVertices m = [] \<and> mNormals m = []"
    unfolding InternReadFile_HMP5_def
  proof (rule read_terrain_degenerate [OF _ _ valid hdr nv mat size7 size(2) alloc deg])
    show "\<exists>v n. vertex_HMP5 fp col h mBuffer src x y = Inr (v, n)"
      if "src + sizeof_Vertex_HMP5 \<le> length mBuffer" for src x y
      using that unfolding sizeof_Vertex_HMP5_def by (rule vertex_HMP5_in_bounds)
    show "sizeof_Vertex_HMP5 \<le> sizeof_Vertex_HMP7"
      by (simp add: sizeof_Vertex_HMP5_def sizeof_Vertex_HMP7_def)
  qed
  show "\<exists>s m. InternReadFile_HMP7 fp col mBuffer iFileSize scene = Ok () s
            \<and> mMeshes s = [m] \<and> mNumFaces m = 0 \<and> mFaces m = [] \<and> mNumVertices m = 0
            \<and> mVertices m = [] \<and> mNormals m = []"
    unfolding InternReadFile_HMP7_def
  proof (rule read_terrain_degenerate [OF _ _ valid hdr nv mat size7 size(2) alloc deg])
    show "\<exists>v n. vertex_HMP7 fp col h mBuffer src x y = Inr (v, n)"
      if "src + sizeof_Vertex_HMP7 \<le> length mBuffer" for src x y
      using that unfolding sizeof_Vertex_HMP7_def by (rule vertex_HMP7_in_bounds)
    show "sizeof_Vertex_HMP7 \<le> sizeof_Vertex_HMP7" by simp
  qed
qed

lemma dispatch_HMP5:
  assumes "50 \<le> length mBuffer" "length mBuffer < 2 ^ 32"
    and "read_u32 mBuffer 0 = Some 894455112"
  shows "InternReadFile fp col (Some mBuffer) scene =
           (case InternReadFile_HMP5 fp col mBuffer (length mBuffer) scene of
              Throw e s \<Rightarrow> Throw e s
            | Ok _ s \<Rightarrow> Ok () (s\<lparr>mFlags := mFlags s OR AI_SCENE_FLAGS_TERRAIN\<rparr>))"
proof -
  have "\<not> is_magic 894455112 ''HMP4''" "is_magic 894455112 ''HMP5''"
    by (simp_all add: is_magic_def AI_MAKE_MAGIC_def)
  with assms show ?thesis
    by (simp add: InternReadFile_def u32_id)
qed

lemma header_file_grid_1x1: "header ieee_fpu file_grid_1x1 = Some header_1x1"
  by (simp add: header_def read_u32_def file_grid_1x1_def ieee_fpu_def f32_of_bits_def
      pow2_def Let_def header_1x1_def)

lemma header_file_truncated_1x1: "header ieee_fpu file_truncated = Some header_1x1"
  by (simp add: header_file_truncated header_1x1_def)

lemma validate_file_grid_1x1: "ValidateHeader_HMP457 ieee_fpu file_grid_1x1 124 = Inr ()"
  by (simp add: ValidateHeader_HMP457_def header_file_grid_1x1)
     (simp add: ieee_fpu_def round_consts header_1x1_def)

lemma grid_header_1x1: "grid_height ieee_fpu header_1x1 = 1" "grid_width ieee_fpu header_1x1 = 1"
  by (simp_all add: grid_height_def grid_width_def ieee_fpu_def round_consts u32_def
      header_1x1_def)

lemma material_file_grid_1x1:
  "CreateMaterial ieee_fpu plain_collab file_grid_1x1 124 84
     (output_mesh ieee_fpu header_1x1 new_aiScene)
   = Ok 84 ((output_mesh ieee_fpu header_1x1 new_aiScene)
              \<lparr>mMaterials := [default_material ieee_fpu]\<rparr>)"
  by (simp add: CreateMaterial_def header_file_grid_1x1 output_mesh_def)
     (simp add: header_1x1_def)

lemma material_file_truncated_1x1:
  "CreateMaterial ieee_fpu plain_collab file_truncated 120 84
     (output_mesh ieee_fpu header_1x1 new_aiScene)
   = Ok 84 ((output_mesh ieee_fpu header_1x1 new_aiScene)
              \<lparr>mMaterials := [default_material ieee_fpu]\<rparr>)"
  using material_file_truncated by (simp add: header_1x1_def)

lemma length_file_grid_1x1: "length file_grid_1x1 = 124"
  by (simp add: file_grid_1x1_def)

lemma length_file_truncated: "length file_truncated = 120"
  by (simp add: file_truncated_def)

theorem degenerate_grid_gives_empty_mesh_witness:
  "ValidateHeader_HMP457 ieee_fpu file_grid_1x1 124 = Inr ()
   \<and> header ieee_fpu file_grid_1x1 = Some header_1x1
   \<and> 0 \<le> numverts header_1x1
   \<and> CreateMaterial ieee_fpu plain_collab file_grid_1x1 124 84
        (output_mesh ieee_fpu header_1x1 new_aiScene)
       = Ok 84 ((output_mesh ieee_fpu header_1x1 new_aiScene)
                  \<lparr>mMaterials := [default_material ieee_fpu]\<rparr>)
   \<and> 84 + 36 + 4 * (grid_height ieee_fpu header_1x1 * grid_width ieee_fpu header_1x1) \<le> 124
   \<and> 124 \<le> length file_grid_1x1
   \<and> grid_height ieee_fpu header_1x1 * grid_width ieee_fpu header_1x1 \<le> nat (numverts header_1x1)
   \<and> grid_width ieee_fpu header_1x1 = 1
   \<and> (\<exists>s m. InternReadFile_HMP5 ieee_fpu plain_collab file_grid_1x1 124 new_aiScene = Ok () s
         \<and> mMeshes s = [m] \<and> mNumFaces m = 0 \<and> mFaces m = [] \<and> mNumVertices m = 0
         \<and> mVertices m = [] \<and> mNormals m = [])"
proof -
  have nv: "0 \<le> numverts header_1x1" by (simp add: header_1x1_def)
  have size: "84 + 36 + 4 * (grid_height ieee_fpu header_1x1 * grid_width ieee_fpu header_1x1) \<le> 124"
    "124 \<le> length file_grid_1x1"
    by (simp_all add: grid_header_1x1 length_file_grid_1x1)
  have alloc: "grid_height ieee_fpu header_1x1 * grid_width ieee_fpu header_1x1
                 \<le> nat (numverts header_1x1)"
    unfolding grid_header_1x1 by (simp add: header_1x1_def)
  have deg: "grid_width ieee_fpu header_1x1 = 1 \<or> grid_height ieee_fpu header_1x1 = 1"
    by (simp add: grid_header_1x1)
  from degenerate_grid_gives_empty_mesh
    [OF validate_file_grid_1x1 header_file_grid_1x1 nv material_file_grid_1x1 size alloc deg]
  show ?thesis
    using validate_file_grid_1x1 header_file_grid_1x1 nv material_file_grid_1x1 size alloc
      grid_header_1x1(2)
    by blast
qed

lemma run_file_truncated:
  "InternReadFile ieee_fpu plain_collab (Some file_truncated) new_aiScene
     = Throw (DeadlyImportError TruncatedInput msg_size_check)
         ((output_mesh ieee_fpu header_1x1 new_aiScene)\<lparr>mMaterials := [default_material ieee_fpu]\<rparr>)"
proof -
  have magic: "read_u32 file_truncated 0 = Some 894455112"
    by (simp add: read_u32_def file_truncated_def)
  have nv: "0 \<le> numverts header_1x1" by (simp add: header_1x1_def)
  have cut: "120 < 84 + 36 + sizeof_Vertex_HMP7 * grid_height ieee_fpu header_1x1
                      * grid_width ieee_fpu header_1x1"
    by (simp add: grid_header_1x1 sizeof_Vertex_HMP7_def)
  have "InternReadFile_HMP5 ieee_fpu plain_collab file_truncated 120 new_aiScene
     = Throw (DeadlyImportError TruncatedInput msg_size_check)
         ((output_mesh ieee_fpu header_1x1 new_aiScene)\<lparr>mMaterials := [default_material ieee_fpu]\<rparr>)"
    unfolding InternReadFile_HMP5_def
    using validate_file_truncated header_file_truncated_1x1 nv material_file_truncated_1x1 cut
    by (rule read_terrain_truncated)
  then show ?thesis
    using dispatch_HMP5 [of file_truncated ieee_fpu plain_collab new_aiScene] magic
    by (simp add: length_file_truncated)
qed

text \<open>
  C2, as stated, fails. The file \<open>file_truncated\<close> has a valid header of revision 5 that
  announces one vertex, and ends before it. \<open>InternReadFile\<close> throws \<open>TruncatedInput\<close>,
  and the scene it was handed, which held no mesh and no material, holds the
  allocated mesh and the default material at the throw.
\<close>

theorem failed_decode_leaves_mesh_and_material:
  "mMeshes (new_aiScene :: f32 aiScene) = [] \<and> mMaterials (new_aiScene :: f32 aiScene) = []
   \<and> InternReadFile ieee_fpu plain_collab (Some file_truncated) new_aiScene
       = Throw (DeadlyImportError TruncatedInput msg_size_check)
           ((output_mesh ieee_fpu header_1x1 new_aiScene)\<lparr>mMaterials := [default_material ieee_fpu]\<rparr>)
   \<and> mMeshes ((output_mesh ieee_fpu header_1x1 new_aiScene)\<lparr>mMaterials := [default_material ieee_fpu]\<rparr>)
       = [new_aiMesh\<lparr>mVertices := [zero_vec ieee_fpu], mNormals := [zero_vec ieee_fpu]\<rparr>]
   \<and> mMaterials ((output_mesh ieee_fpu header_1x1 new_aiScene)\<lparr>mMaterials := [default_material ieee_fpu]\<rparr>)
       = [default_material ieee_fpu]"
  using run_file_truncated
  by (simp add: new_aiScene_def output_mesh_def header_1x1_def new_aiMesh_def)

lemma run_file_grid_1x1:
  "\<exists>s. InternReadFile ieee_fpu plain_collab (Some file_grid_1x1) new_aiScene = Ok () s"
proof -
  have magic: "read_u32 file_grid_1x1 0 = Some 894455112"
    by (simp add: read_u32_def file_grid_1x1_def)
  have nv: "0 \<le> numverts header_1x1" by (simp add: header_1x1_def)
  have size: "84 + 36 + sizeof_Vertex_HMP7
      * (grid_height ieee_fpu header_1x1 * grid_width ieee_fpu header_1x1) \<le> 124"
    "124 \<le> length file_grid_1x1"
    by (simp_all add: grid_header_1x1 length_file_grid_1x1 sizeof_Vertex_HMP7_def)
  have alloc: "grid_height ieee_fpu header_1x1 * grid_width ieee_fpu header_1x1
                 \<le> nat (numverts header_1x1)"
    unfolding grid_header_1x1 by (simp add: header_1x1_def)
  have deg: "grid_width ieee_fpu header_1x1 = 1 \<or> grid_height ieee_fpu header_1x1 = 1"
    by (simp add: grid_header_1x1)
  have "\<exists>s m. InternReadFile_HMP5 ieee_fpu plain_collab file_grid_1x1 124 new_aiScene = Ok () s
          \<and> mMeshes s = [m] \<and> mNumFaces m = 0 \<and> mFaces m = [] \<and> mNumVertices m = 0
          \<and> mVertices m = [] \<and> mNormals m = []"
    unfolding InternReadFile_HMP5_def
  proof (rule read_terrain_degenerate [OF _ _ validate_file_grid_1x1 header_file_grid_1x1 nv
        material_file_grid_1x1 size alloc deg])
    show "\<exists>v n. vertex_HMP5 ieee_fpu plain_collab header_1x1 file_grid_1x1 src x y = Inr (v, n)"
      if "src + sizeof_Vertex_HMP5 \<le> length file_grid_1x1" for src x y
      using that unfolding sizeof_Vertex_HMP5_def by (rule vertex_HMP5_in_bounds)
    show "sizeof_Vertex_HMP5 \<le> sizeof_Vertex_HMP7"
      by (simp add: sizeof_Vertex_HMP5_def sizeof_Vertex_HMP7_def)
  qed
  then show ?thesis
    using dispatch_HMP5 [of file_grid_1x1 ieee_fpu plain_collab new_aiScene] magic
    by (auto simp: length_file_grid_1x1)
qed

theorem decode_outcome_witness:
  "InternReadFile ieee_fpu plain_collab (Some file_truncated) new_aiScene
     = Throw (DeadlyImportError TruncatedInput msg_size_check)
         ((output_mesh ieee_fpu header_1x1 new_aiScene)\<lparr>mMaterials := [default_material ieee_fpu]\<rparr>)
   \<and> mRootNode ((output_mesh ieee_fpu header_1x1 new_aiScene)
                  \<lparr>mMaterials := [default_material ieee_fpu]\<rparr>) = None
   \<and> mFlags ((output_mesh ieee_fpu header_1x1 new_aiScene)
                  \<lparr>mMaterials := [default_material ieee_fpu]\<rparr>) = 0
   \<and> (\<exists>s. InternReadFile ieee_fpu plain_collab (Some file_grid_1x1) new_aiScene = Ok () s
         \<and> length (mMeshes s) = 1 \<and> length (mMaterials s) = 1
         \<and> mRootNode s = Some \<lparr>mName = ''terrain_root'', node_mMeshes = [0]\<rparr>
         \<and> mFlags s AND AI_SCENE_FLAGS_TERRAIN = AI_SCENE_FLAGS_TERRAIN)"
proof -
  note thrown = decode_outcome [of ieee_fpu plain_collab "Some file_truncated" new_aiScene,
      THEN conjunct1, rule_format, OF run_file_truncated]
  from run_file_grid_1x1 obtain s where
    s: "InternReadFile ieee_fpu plain_collab (Some file_grid_1x1) new_aiScene = Ok () s" ..
  note returned = decode_outcome [of ieee_fpu plain_collab "Some file_grid_1x1" new_aiScene,
      THEN conjunct2, rule_format, OF s]
  from thrown have "mRootNode ((output_mesh ieee_fpu header_1x1 new_aiScene)
                  \<lparr>mMaterials := [default_material ieee_fpu]\<rparr>) = None"
    "mFlags ((output_mesh ieee_fpu header_1x1 new_aiScene)
                  \<lparr>mMaterials := [default_material ieee_fpu]\<rparr>) = 0"
    by (simp_all add: new_aiScene_def)
  with run_file_truncated s returned show ?thesis by blast
qed

subsection \<open>A grid with more cells than allocated vertices\<close>

lemma build_faces_append:
  "build_faces pcMesh width upperBound nFaces (cells @ cells') st =
     (case build_faces pcMesh width upperBound nFaces cells st of
        Inl e \<Rightarrow> Inl e
      | Inr st' \<Rightarrow> build_faces pcMesh width upperBound nFaces cells' st')"
  by (induction pcMesh width upperBound nFaces cells st rule: build_faces.induct)
     (simp_all split: sum.splits)

lemma product_append_left:
  "List.product (xs @ ys) zs = List.product xs zs @ List.product ys zs"
  by (induction xs) simp_all

lemma grid_cells_row: "grid_cells (Suc n) width = grid_cells n width @ map (Pair n) [0..<width]"
  by (simp add: grid_cells_def product_append_left)

lemma round_f32_50331652: "round_f32 50331652 = Finite 50331652"
  by code_simp

lemma round_f32_3: "round_f32 3 = Finite 3"
  by code_simp

lemma round_f32_overcount: "round_f32 (50331652 / 3) = Finite 16777218"
  by code_simp

lemma grid_header_overcount:
  "grid_width ieee_fpu header_overcount = 3" "grid_height ieee_fpu header_overcount = 16777218"
  by (simp_all add: grid_height_def grid_width_def ieee_fpu_def header_overcount_def
      round_f32_50331652 round_f32_overcount u32_def)

lemma header_overcount_valid: "first_violation (header_checks ieee_fpu header_overcount) = Inr ()"
  by (simp add: first_violation_def header_checks_def header_overcount_def ieee_fpu_def
      round_consts round_f32_50331652 round_f32_overcount)

lemma face_list_reads_outside:
  assumes verts: "length (mVertices pcMesh) = 50331652"
    and nors: "length (mNormals pcMesh) = 50331652"
    and uvs: "mTextureCoords0 pcMesh = None"
  shows "CreateOutputFaceList fp 3 16777218 pcMesh = Inl ArrayOutOfBounds"
proof -
  define st0 :: "'a face_out" where
    "st0 = \<lparr>fo_faces = [], fo_verts = [], fo_nors = [], fo_uvs = [], fo_iCurrent = 0\<rparr>"
  define cells where "cells = grid_cells 16777216 2"
  have len: "length cells = 33554432" by (simp add: cells_def length_grid_cells)
  have pw: "u32_pred 3 = 2" and ph: "u32_pred 16777218 = Suc 16777216"
    by (simp_all add: u32_pred_def u32_def)
  have row: "map (Pair n) [0..<2] = [(n, 0), (n, 1)]" for n :: nat
    by (simp add: upt_rec [of 0] upt_rec [of 1] numeral_2_eq_2)
  have all: "grid_cells (Suc 16777216) 2 = cells @ [(16777216, 0), (16777216, 1)]"
    unfolding cells_def grid_cells_row row ..
  have first: "build_faces pcMesh 3 134217736 33554434 cells st0 =
           Inr \<lparr>fo_faces = fo_faces st0 @ map (\<lambda>k. quad (fo_iCurrent st0 + 4 * k)) [0..<length cells],
                fo_verts = fo_verts st0 @ concat (map (cell_corners (mVertices pcMesh) 3) cells),
                fo_nors = fo_nors st0 @ concat (map (cell_corners (mNormals pcMesh) 3) cells),
                fo_uvs = fo_uvs st0 @
                  (case mTextureCoords0 pcMesh of
                     None \<Rightarrow> []
                   | Some uv \<Rightarrow> concat (map (cell_corners uv 3) cells)),
                fo_iCurrent = fo_iCurrent st0 + 4 * length cells\<rparr>"
  proof (rule build_faces_populated [where n = 50331652])
    show "\<forall>(y, x) \<in> set cells. (y + 1) * 3 + x + 1 < 50331652"
      by (auto simp: cells_def set_grid_cells)
    show "50331652 \<le> length (mVertices pcMesh)" "50331652 \<le> length (mNormals pcMesh)"
      by (simp_all add: verts nors)
    show "50331652 \<le> length uv" if "mTextureCoords0 pcMesh = Some uv" for uv
      using that by (simp add: uvs)
    show "length (fo_faces st0) + length cells \<le> 33554434"
      "length (fo_verts st0) + 4 * length cells \<le> 134217736"
      "fo_iCurrent st0 + 4 * length cells \<le> 134217736"
      by (simp_all add: st0_def len)
  qed simp_all
  define st1 where "st1 = \<lparr>fo_faces = fo_faces st0 @ map (\<lambda>k. quad (fo_iCurrent st0 + 4 * k)) [0..<length cells],
                fo_verts = fo_verts st0 @ concat (map (cell_corners (mVertices pcMesh) 3) cells),
                fo_nors = fo_nors st0 @ concat (map (cell_corners (mNormals pcMesh) 3) cells),
                fo_uvs = fo_uvs st0 @
                  (case mTextureCoords0 pcMesh of
                     None \<Rightarrow> []
                   | Some uv \<Rightarrow> concat (map (cell_corners uv 3) cells)),
                fo_iCurrent = fo_iCurrent st0 + 4 * length cells\<rparr>"
  have faces1: "length (fo_faces st1) = 33554432"
    and verts1: "length (fo_verts st1) = 134217728"
    by (simp_all add: st1_def st0_def len length_concat_map [where m = 4])
  have last: "face_cell pcMesh 3 134217736 33554434 16777216 0 st1 = Inl ArrayOutOfBounds"
    by (simp add: face_cell_def Let_def u32_def faces1 verts1 corners_def verts)
  have "build_faces pcMesh 3 134217736 33554434 (grid_cells (Suc 16777216) 2) st0
          = Inl ArrayOutOfBounds"
    unfolding all build_faces_append first st1_def [symmetric] by (simp add: last)
  then show ?thesis
    by (simp add: CreateOutputFaceList_def Let_def pw ph u32_def st0_def)
qed

lemma load_vertices_overflow:
  assumes body: "\<And>src x y. src + stride \<le> L \<Longrightarrow> \<exists>v n. body src x y = Inr (v, n)"
    and "src + stride * length cells \<le> L"
    and "i \<le> length vs" and "length ns = length vs" and "length vs < i + length cells"
  shows "load_vertices body stride cells src i vs ns = Inl ArrayOutOfBounds"
  using assms(2-)
proof (induction cells arbitrary: src i vs ns)
  case Nil
  then show ?case by simp
next
  case (Cons cell cells)
  obtain y x where cell: "cell = (y, x)" by (cases cell)
  show ?case
  proof (cases "i < length vs")
    case True
    from Cons.prems have here: "src + stride \<le> L"
      and rest: "(src + stride) + stride * length cells \<le> L" by simp_all
    from body [OF here] obtain v n where r: "body src x y = Inr (v, n)" by blast
    have "load_vertices body stride cells (src + stride) (Suc i) (vs[i := v]) (ns[i := n])
            = Inl ArrayOutOfBounds"
      using True Cons.prems by (intro Cons.IH [OF rest]) simp_all
    with True Cons.prems(3) show ?thesis by (simp add: cell r)
  next
    case False
    then show ?thesis by (simp add: cell)
  qed
qed

lemma length_file_overcount: "length file_overcount = 201326736"
  by (simp add: file_overcount_def)

lemma header_file_overcount: "header ieee_fpu file_overcount = Some header_overcount"
  by (simp add: header_def read_u32_def file_overcount_def nth_append ieee_fpu_def
      f32_of_bits_def pow2_def Let_def header_overcount_def)

lemma vertex_loop_overflows:
  "InternReadFile ieee_fpu col (Some file_overcount) new_aiScene
     = Throw ArrayOutOfBounds
         ((output_mesh ieee_fpu header_overcount new_aiScene)
            \<lparr>mMaterials := [default_material ieee_fpu]\<rparr>)"
proof -
  have magic: "read_u32 file_overcount 0 = Some 894455112"
    by (simp add: read_u32_def file_overcount_def nth_append)
  have valid: "ValidateHeader_HMP457 ieee_fpu file_overcount 201326736 = Inr ()"
    using validate_eq [OF _ header_file_overcount, of 201326736] header_overcount_valid
    by simp
  have mat: "CreateMaterial ieee_fpu col file_overcount 201326736 84
      (output_mesh ieee_fpu header_overcount new_aiScene)
    = Ok 84 ((output_mesh ieee_fpu header_overcount new_aiScene)
              \<lparr>mMaterials := [default_material ieee_fpu]\<rparr>)"
    by (simp add: CreateMaterial_def header_file_overcount output_mesh_def)
       (simp add: header_overcount_def)
  let ?cells = "grid_cells (grid_height ieee_fpu header_overcount) (grid_width ieee_fpu header_overcount)"
  have loop: "load_vertices (vertex_HMP5 ieee_fpu col header_overcount file_overcount)
      sizeof_Vertex_HMP5 ?cells (84 + 36) 0
      (replicate 50331652 (zero_vec ieee_fpu)) (replicate 50331652 (zero_vec ieee_fpu))
    = Inl ArrayOutOfBounds"
  proof (rule load_vertices_overflow [where L = "length file_overcount"])
    show "\<exists>v n. vertex_HMP5 ieee_fpu col header_overcount file_overcount src x y = Inr (v, n)"
      if "src + sizeof_Vertex_HMP5 \<le> length file_overcount" for src x y
      using that unfolding sizeof_Vertex_HMP5_def by (rule vertex_HMP5_in_bounds)
    show "84 + 36 + sizeof_Vertex_HMP5 * length ?cells \<le> length file_overcount"
      by (simp add: length_grid_cells grid_header_overcount sizeof_Vertex_HMP5_def
          length_file_overcount)
    show "length (replicate 50331652 (zero_vec ieee_fpu))
            < 0 + length ?cells"
      by (simp add: length_grid_cells grid_header_overcount)
  qed simp_all
  have "InternReadFile_HMP5 ieee_fpu col file_overcount 201326736 new_aiScene
     = Throw ArrayOutOfBounds
         ((output_mesh ieee_fpu header_overcount new_aiScene)
            \<lparr>mMaterials := [default_material ieee_fpu]\<rparr>)"
    using loop
    by (simp add: InternReadFile_HMP5_def read_terrain_def valid header_file_overcount mat
        Let_def SizeCheck_def grid_header_overcount sizeof_Vertex_HMP7_def)
       (simp add: header_overcount_def output_mesh_def new_aiMesh_def)
  then show ?thesis
    using dispatch_HMP5 [of file_overcount ieee_fpu col new_aiScene] magic
    by (simp add: length_file_overcount)
qed

text \<open>
  C3, against the code. The header \<open>header_overcount\<close> passes every check of the
  validation; its 50331652 vertices become a grid of 3 by 16777218 cells, two more
  than the arrays of the mesh hold. For that grid \<open>CreateOutputFaceList\<close> compares the
  indices of a cell with four times the number of faces, not with the number of
  allocated vertices: the first cell of the last row, whose last corner lies behind
  the end of the arrays, is not left unpopulated but read, outside the arrays. The
  same happens for a grid of two by two cells over arrays of three entries.
\<close>

theorem face_guard_misses_allocated_count:
  "first_violation (header_checks ieee_fpu header_overcount) = Inr ()
   \<and> numverts header_overcount = 50331652
   \<and> grid_width ieee_fpu header_overcount = 3
   \<and> grid_height ieee_fpu header_overcount = 16777218
   \<and> length (mVertices mesh_overcount) = 50331652
   \<and> length (mNormals mesh_overcount) = 50331652
   \<and> CreateOutputFaceList ieee_fpu 3 16777218 mesh_overcount = Inl ArrayOutOfBounds
   \<and> length (mVertices mesh_three) = 3
   \<and> CreateOutputFaceList ieee_fpu 2 2 mesh_three = Inl ArrayOutOfBounds"
proof -
  have big: "CreateOutputFaceList ieee_fpu 3 16777218 mesh_overcount = Inl ArrayOutOfBounds"
    by (rule face_list_reads_outside) (simp_all add: mesh_overcount_def new_aiMesh_def)
  have cells: "grid_cells (Suc 0) (Suc 0) = [(0, 0)]"
    by (simp add: grid_cells_def)
  have pred: "u32_pred 2 = Suc 0"
    by (simp add: u32_pred_def u32_def)
  have small: "CreateOutputFaceList ieee_fpu 2 2 mesh_three = Inl ArrayOutOfBounds"
    by (simp add: CreateOutputFaceList_def Let_def pred cells face_cell_def u32_def corners_def
        mesh_three_def new_aiMesh_def)
  show ?thesis
    using big small header_overcount_valid grid_header_overcount
    by (simp add: header_overcount_def mesh_overcount_def mesh_three_def new_aiMesh_def)
qed

end
